theory Spec2Isabelle
  imports Main "HOL-Library.Word" "HOL-Library.AList"
begin

section \<open>Basic types\<close>

text \<open>
  Byte slices and Go strings are both byte sequences. A UUID value is represented by
  its canonical text (what \<^verbatim>\<open>UUID.String()\<close> prints); the nil UUID is the zero value
  that \<^verbatim>\<open>uuid.FromString\<close> returns together with an error. A \<^verbatim>\<open>net.IP\<close> and a
  \<^verbatim>\<open>net.HardwareAddr\<close> are byte sequences, with the nil slice as \<open>None\<close>.
\<close>

type_synonym bytes = string
type_synonym UUID = string
type_synonym IP = string
type_synonym HardwareAddr = string
type_synonym Time = nat

definition nilUUID :: UUID where
  "nilUUID = ''00000000-0000-0000-0000-000000000000''"

record IPNet =
  ipnet_IP :: "IP option"
  ipnet_Mask :: bytes

text \<open>
  Enumerations of the wire schema and of the types package. The code casts the wire
  value to the internal type numerically, so one datatype serves both; every value the
  code does not name is kept with its number.
\<close>

datatype NetworkInstanceType =
  NetworkInstanceTypeSwitch | NetworkInstanceTypeMesh | NetworkInstanceTypeCloud
  | NetworkInstanceTypeOther nat

datatype AddressType =
  AddressTypeNone | AddressTypeIPV4 | AddressTypeIPV6
  | AddressTypeCryptoIPV4 | AddressTypeCryptoIPV6 | AddressTypeOther nat

datatype ZNetworkOpaqueConfigType = ZNetOConfigVPN | ZNetOConfigOther nat

datatype DhcpType = DT_STATIC | DT_CLIENT | DT_NONE | DT_Other nat

datatype NetworkType = NT_NOOP | NT_IPV4 | NT_IPV6 | NT_CryptoEID | NT_Other nat

datatype ProxyProto = PROXY_HTTP | PROXY_HTTPS | PROXY_SOCKS | PROXY_FTP | PROXY_OTHER nat

datatype NetworkProxyType = NPT_ZERO | NPT_HTTP | NPT_HTTPS | NPT_SOCKS | NPT_FTP

datatype WirelessType = WirelessTypeNone | WirelessTypeCellular | WirelessTypeWifi
  | WirelessTypeUnknown nat

datatype WiFiKeyScheme = KeySchemeNone | KeySchemeWpaPsk | KeySchemeWpaEap | KeySchemeOther nat

type_synonym DevicePortConfigVersion = nat

definition DPCInitial :: DevicePortConfigVersion where "DPCInitial = 0"
definition DPCIsMgmt :: DevicePortConfigVersion where "DPCIsMgmt = 1"

section \<open>Wire format (package zconfig)\<close>

text \<open>
  A sub-message that the code dereferences without a nil test is a plain field; one that
  the code tests for nil, or reads through a nil-safe getter, is an \<open>option\<close>.
\<close>

record zUUIDandVersion =
  zuv_Uuid :: string
  zuv_Version :: string

record OsVerParams =
  OSVerKey :: string
  OSVerValue :: string

record zSignatureInfo =
  Intercertsurl :: string
  Signercerturl :: string
  Signature :: bytes

record zImage =
  img_Uuidandversion :: zUUIDandVersion
  img_Name :: string
  img_Sha256 :: string
  img_Iformat :: nat
  img_Siginfo :: zSignatureInfo
  img_DsId :: string
  img_SizeBytes :: nat

record zDrive =
  drv_Image :: "zImage option"
  drv_Readonly :: bool
  drv_Preserve :: bool
  drv_Drvtype :: string
  drv_Target :: string
  drv_Maxsizebytes :: nat

record zBaseOSConfig =
  bos_Uuidandversion :: zUUIDandVersion
  bos_Drives :: "zDrive list"
  bos_Activate :: bool
  bos_BaseOSVersion :: string
  bos_BaseOSParams :: "OsVerParams list"

record zProxyServer =
  zps_Proto :: ProxyProto
  zps_Server :: string
  zps_Port :: nat

record zProxyConfig =
  zpc_NetworkProxyEnable :: bool
  zpc_Proxies :: "zProxyServer list"
  zpc_Exceptions :: string
  zpc_Pacfile :: string
  zpc_NetworkProxyURL :: string
  zpc_ProxyCertPEM :: "bytes list"

type_synonym CipherData = bytes

record zWifiConfig =
  zwf_WifiSSID :: string
  zwf_KeyScheme :: WiFiKeyScheme
  zwf_Identity :: string
  zwf_Password :: string
  zwf_Priority :: int
  zwf_CipherData :: "CipherData option"

record zWirelessConfig =
  zwl_Type :: WirelessType
  zwl_CellularCfg :: "string list"
  zwl_WifiCfg :: "zWifiConfig list"

record zIpRange =
  zr_Start :: string
  zr_End :: string

record zIpspec =
  zip_Dhcp :: DhcpType
  zip_Subnet :: string
  zip_Gateway :: string
  zip_Domain :: string
  zip_Ntp :: string
  zip_Dns :: "string list"
  zip_DhcpRange :: "zIpRange option"

record zDnsEntry =
  zdns_HostName :: string
  zdns_Address :: "string list"

record zNetworkConfig =
  znet_Id :: string
  znet_Type :: NetworkType
  znet_Ip :: "zIpspec option"
  znet_Dns :: "zDnsEntry list"
  znet_EntProxy :: "zProxyConfig option"
  znet_Wireless :: "zWirelessConfig option"

record MapServer =
  ServiceType :: nat
  NameOrIp :: string
  Credential :: string

record zLispConfig =
  zl_LispMSs :: "MapServer list"
  zl_LispInstanceId :: nat
  zl_Allocate :: bool
  zl_Exportprivate :: bool
  zl_Allocationprefix :: bytes
  zl_Allocationprefixlen :: nat
  zl_Experimental :: bool

record zOpaqueConfig =
  zo_Oconfig :: string
  zo_LispConfig :: "zLispConfig option"
  zo_Type :: ZNetworkOpaqueConfigType

record zNetworkInstanceConfig =
  zni_Uuidandversion :: zUUIDandVersion
  zni_Displayname :: string
  zni_InstType :: NetworkInstanceType
  zni_Activate :: bool
  zni_Port :: "string option"
  zni_Cfg :: "zOpaqueConfig option"
  zni_IpType :: AddressType
  zni_Ip :: "zIpspec option"
  zni_Dns :: "zDnsEntry list"

record ACEMatch =
  ace_Type :: string
  ace_Value :: string

record zACEAction =
  za_Limit :: bool
  za_Limitrate :: nat
  za_Limitunit :: string
  za_Limitburst :: nat
  za_Portmap :: bool
  za_AppPort :: nat

record zACE =
  zace_Matches :: "ACEMatch list"
  zace_Actions :: "zACEAction list"
  zace_Name :: string
  zace_Id :: "32 word"
  zace_Dir :: nat

record zNetworkAdapter =
  zna_Name :: string
  zna_NetworkId :: string
  zna_Addr :: string
  zna_MacAddress :: string
  zna_CryptoEid :: string
  zna_Acls :: "zACE list"
  zna_Lispsignature :: string
  zna_Pemcert :: bytes
  zna_Pemprivatekey :: bytes

record zVmConfig =
  zvm_Kernel :: string
  zvm_Ramdisk :: string
  zvm_Memory :: nat
  zvm_Maxmem :: nat
  zvm_Vcpus :: nat
  zvm_Rootdev :: string
  zvm_Bootloader :: string
  zvm_VirtualizationMode :: nat
  zvm_EnableVnc :: bool
  zvm_VncDisplay :: nat
  zvm_VncPasswd :: string

record IoAdapter =
  io_Type :: nat
  io_Name :: string

record InstanceOpsCmd =
  ops_Counter :: "32 word"
  ops_OpsTime :: string

record zAppInstanceConfig =
  zapp_Uuidandversion :: zUUIDandVersion
  zapp_Displayname :: string
  zapp_Fixedresources :: zVmConfig
  zapp_Drives :: "zDrive list"
  zapp_Activate :: bool
  zapp_Interfaces :: "zNetworkAdapter list"
  zapp_Adapters :: "IoAdapter list"
  zapp_Restart :: "InstanceOpsCmd option"
  zapp_Purge :: "InstanceOpsCmd option"
  zapp_UserData :: string
  zapp_RemoteConsole :: bool
  zapp_CipherData :: "CipherData option"

record zSystemAdapter =
  zsa_Name :: string
  zsa_FreeUplink :: bool
  zsa_Uplink :: bool
  zsa_NetworkUUID :: string
  zsa_Addr :: string
  zsa_Alias :: string
  zsa_LowerLayerName :: string

record zPhysicalIO =
  zio_Ptype :: nat
  zio_Phylabel :: string
  zio_Phyaddrs :: "(string \<times> string) list"
  zio_Logicallabel :: string
  zio_Assigngrp :: string
  zio_Usage :: nat
  zio_UsagePolicy :: "bool option"

record zDatastoreConfig =
  zds_Id :: string
  zds_DType :: string
  zds_Fqdn :: string
  zds_ApiKey :: string
  zds_Password :: string
  zds_Dpath :: string
  zds_Region :: string
  zds_CipherData :: "CipherData option"

record zConfigItem =
  zci_Key :: string
  zci_Value :: string

record DeviceOpsCmd =
  Counter :: "32 word"
  DesiredState :: string
  OpsTime :: string

record zEdgeDevConfig =
  cfg_Base :: "zBaseOSConfig list"
  cfg_Networks :: "zNetworkConfig list"
  cfg_NetworkInstances :: "zNetworkInstanceConfig list"
  cfg_Apps :: "zAppInstanceConfig list"
  cfg_SystemAdapterList :: "zSystemAdapter list"
  cfg_DeviceIoList :: "zPhysicalIO option list"
  cfg_Datastores :: "zDatastoreConfig list"
  cfg_ConfigItems :: "zConfigItem list"
  cfg_Reboot :: "DeviceOpsCmd option"
  cfg_Backup :: "DeviceOpsCmd option"

text \<open>
  The hashing helpers take an \<^verbatim>\<open>interface{}\<close>: the union of the message types
  they are called with.
\<close>

datatype msg =
  MBaseOs zBaseOSConfig
  | MNetwork zNetworkConfig
  | MNetworkInstance zNetworkInstanceConfig
  | MApp zAppInstanceConfig
  | MSystemAdapter zSystemAdapter
  | MPhysicalIO "zPhysicalIO option"
  | MDatastore zDatastoreConfig
  | MConfigItem zConfigItem
  | MDeviceOpsCmd DeviceOpsCmd

section \<open>Internal entities (package types)\<close>

text \<open>
  The fields are those the translators assign. Where a translator copies a structure
  field by field without changing it (ACL matches, map servers, the fixed resources of a
  virtual machine, I/O adapters, operation counters), the entity keeps the wire record.
\<close>

record UUIDandVersion =
  UUID :: UUID
  Version :: string

type_synonym CipherBlockStatus = bytes

record StorageConfig =
  sc_DatastoreID :: UUID
  sc_Name :: string
  sc_NameIsURL :: bool
  sc_ImageID :: UUID
  sc_Format :: nat
  sc_Size :: nat
  sc_ImageSignature :: bytes
  sc_SignatureKey :: string
  sc_CertificateChain :: "string list"
  sc_ReadOnly :: bool
  sc_Preserve :: bool
  sc_Maxsizebytes :: nat
  sc_Target :: string
  sc_Devtype :: string
  sc_ImageSha256 :: string

record CertObjConfig =
  cert_UUIDandVersion :: UUIDandVersion
  cert_ConfigSha256 :: string
  cert_StorageConfigList :: "StorageConfig list"

record BaseOsConfig =
  bo_UUIDandVersion :: UUIDandVersion
  bo_BaseOsVersion :: string
  bo_ConfigSha256 :: string
  bo_OsParams :: "OsVerParams list"
  bo_StorageConfigList :: "StorageConfig list"
  bo_Activate :: bool

record ProxyEntry =
  pe_Type :: NetworkProxyType
  pe_Server :: string
  pe_Port :: nat

record ProxyConfig =
  pc_Proxies :: "ProxyEntry list"
  pc_Exceptions :: string
  pc_Pacfile :: string
  pc_NetworkProxyEnable :: bool
  pc_NetworkProxyURL :: string
  pc_ProxyCertPEM :: "bytes list"

record WifiConfig =
  wf_SSID :: string
  wf_KeyScheme :: WiFiKeyScheme
  wf_Identity :: string
  wf_Password :: string
  wf_Priority :: int
  wf_CipherBlockStatus :: CipherBlockStatus

record WirelessConfig =
  wl_WType :: WirelessType
  wl_Cellular :: "string list"
  wl_Wifi :: "WifiConfig list"

record DnsNameToIP =
  dn_HostName :: string
  dn_IPs :: "IP list"

record IpRange =
  ir_Start :: "IP option"
  ir_End :: "IP option"

text \<open>The failure texts of the translators, one constructor per format string, with
  the values the format inserts.\<close>

datatype IpspecError =
  BadSubnet string string | BadGatewayIP string | BadNtpIP string | BadDnsIP string
  | BadStartIP string | BadEndIP string

datatype NetworkXError =
  NxMalformedUUID string
  | NxMissingIpspec UUID
  | NxParseIpspecFailed UUID IpspecError
  | NxParseIpspecIgnored UUID IpspecError
  | NxUnknownType NetworkType UUID
  | NxBadDnsEntry string UUID

record NetworkXObjectConfig =
  nx_UUID :: UUID
  nx_Type :: NetworkType
  nx_Dhcp :: DhcpType
  nx_Subnet :: IPNet
  nx_Gateway :: "IP option"
  nx_DomainName :: string
  nx_NtpServer :: "IP option"
  nx_DnsServers :: "IP list"
  nx_DhcpRange :: IpRange
  nx_DnsNameToIPList :: "DnsNameToIP list"
  nx_Proxy :: "ProxyConfig option"
  nx_WirelessCfg :: WirelessConfig
  nx_Error :: "NetworkXError option"
  nx_ErrorTime :: Time

record NetworkInstanceConfig =
  ni_UUIDandVersion :: UUIDandVersion
  ni_DisplayName :: string
  ni_Type :: NetworkInstanceType
  ni_Activate :: bool
  ni_Logicallabel :: string
  ni_IpType :: AddressType
  ni_HasEncap :: bool
  ni_LispConfig :: "zLispConfig option"
  ni_OpaqueConfig :: string
  ni_DomainName :: string
  ni_Subnet :: IPNet
  ni_Gateway :: "IP option"
  ni_NtpServer :: "IP option"
  ni_DnsServers :: "IP list"
  ni_DhcpRange :: IpRange
  ni_DnsNameToIPList :: "DnsNameToIP list"

record ACEAction =
  aa_Limit :: bool
  aa_LimitRate :: nat
  aa_LimitUnit :: string
  aa_LimitBurst :: nat
  aa_PortMap :: bool
  aa_TargetPort :: nat

record ACE =
  ace_Matches :: "ACEMatch list"
  ace_Actions :: "ACEAction list"
  ace_Name :: string
  ace_RuleID :: "32 word"
  ace_Dir :: nat

datatype IntfError =
  CantFindNetworkInstance string string string
  | MalformedNetworkUUID string string string string
  | BadMAC string string string string
  | BadAppIPAddr string string string
  | StaticIPv6NotSupported string
  | OlMalformedUUID string
  | OlBadMAC string string
  | OlBadCryptoEid string
  | OlBadAddr string

record UnderlayNetworkConfig =
  ul_Name :: string
  ul_AppMacAddr :: "HardwareAddr option"
  ul_AppIPAddr :: "IP option"
  ul_IntfOrder :: "32 word"
  ul_Error :: "IntfError option"
  ul_Network :: UUID
  ul_ACLs :: "ACE list"

record EIDOverlayConfig =
  ol_Name :: string
  ol_EID :: "IP option"
  ol_LispSignature :: string
  ol_PemCert :: bytes
  ol_PemPrivateKey :: bytes
  ol_ACLs :: "ACE list"
  ol_AppMacAddr :: "HardwareAddr option"
  ol_AppIPAddr :: "IP option"
  ol_Network :: UUID
  ol_Error :: "IntfError option"
  ol_IntfOrder :: "32 word"

record AppInstanceConfig =
  app_UUIDandVersion :: UUIDandVersion
  app_DisplayName :: string
  app_ConfigSha256 :: string
  app_FixedResources :: zVmConfig
  app_StorageConfigList :: "StorageConfig list"
  app_Activate :: bool
  app_OverlayNetworkList :: "EIDOverlayConfig list"
  app_UnderlayNetworkList :: "UnderlayNetworkConfig list"
  app_IoAdapterList :: "IoAdapter list"
  app_RestartCmd :: "InstanceOpsCmd option"
  app_PurgeCmd :: "InstanceOpsCmd option"
  app_CloudInitUserData :: "string option"
  app_RemoteConsole :: bool
  app_CipherBlockStatus :: CipherBlockStatus
  app_Errors :: "IntfError list"

datatype PortFailure =
  MissingPhyio string string
  | BadSysAdapterAddr string string
  | UnknownNetworkUUID string string
  | NetworkHasError string UUID NetworkXError
  | StaticMissingSubnet string string string
  | MgmtDhcpNone string
  | UnknownDhcpType string DhcpType
  | MgmtWithoutNetwork string

record NetworkPortConfig =
  port_IfName :: string
  port_Phylabel :: string
  port_Logicallabel :: string
  port_Alias :: string
  port_IsMgmt :: bool
  port_Free :: bool
  port_Dhcp :: DhcpType
  port_AddrSubnet :: string
  port_Gateway :: "IP option"
  port_DomainName :: string
  port_NtpServer :: "IP option"
  port_DnsServers :: "IP list"
  port_NetworkUUID :: UUID
  port_ProxyConfig :: "ProxyConfig option"
  port_WirelessCfg :: "WirelessConfig option"
  port_Failures :: "(PortFailure \<times> Time) list"

record DevicePortConfig =
  dpc_Version :: DevicePortConfigVersion
  dpc_TimePriority :: Time
  dpc_Ports :: "NetworkPortConfig list"

record PhysicalAddress =
  pa_PciLong :: string
  pa_Ifname :: string
  pa_Serial :: string
  pa_Irq :: string
  pa_Ioports :: string
  pa_UnknownType :: string

record PhysicalIOAdapter =
  pio_Ptype :: nat
  pio_Phylabel :: string
  pio_Phyaddr :: PhysicalAddress
  pio_Logicallabel :: string
  pio_Assigngrp :: string
  pio_Usage :: nat
  pio_FreeUplink :: bool

record PhysicalIOAdapterList =
  Initialized :: bool
  AdapterList :: "PhysicalIOAdapter list"

record DatastoreConfig =
  ds_UUID :: UUID
  ds_DsType :: string
  ds_Fqdn :: string
  ds_ApiKey :: string
  ds_Password :: string
  ds_Dpath :: string
  ds_Region :: string
  ds_CipherBlockStatus :: CipherBlockStatus

type_synonym ConfigItemValueMap = "(string \<times> string) list"

record ConfigItemStatus =
  cis_Err :: "string option"
  cis_Value :: string

type_synonym GlobalStatus = "(string \<times> ConfigItemStatus) list"

section \<open>External collaborators\<close>

text \<open>
  Library functions and functions of other packages that the translators call. They are
  parameters of the model: every definition below takes the record \<open>L\<close> and every theorem
  holds for each value of it.
  \<^item> \<open>json_Marshal\<close>, \<open>sha256_Sum\<close>: the canonical encoding of a message and the
    digest of a byte sequence. The messages are generated structures of scalars, strings
    and slices, for which the encoder has no failing case.
  \<^item> \<open>uuid_FromString\<close>, \<open>net_ParseMAC\<close>, \<open>net_ParseCIDR\<close>: \<open>Inl\<close> carries the
    error text. \<open>net_ParseIP\<close> and \<open>IP_To4\<close> return nil on failure.
  \<^item> \<open>IoType_IsNet\<close>: whether a physical I/O type is a network type.
  \<^item> \<open>parseCipherBlock\<close>: the cipher block status for a key and optional cipher data.
  \<^item> \<open>DhcpType_zero\<close>: the zero value of the DHCP type, which a network object
    without an IP specification keeps.
  \<^item> \<open>OsParamsLen\<close>: the length of the fixed array of OS parameters of a base OS entity.
  \<^item> the remaining fields: the global configuration items (default map, setters, getters,
    the specification-driven parser, and the comparison \<^verbatim>\<open>cmp.Equal\<close> at the two
    argument types of its call).
\<close>

record extlib =
  json_Marshal :: "msg \<Rightarrow> bytes"
  sha256_Sum :: "bytes \<Rightarrow> bytes"
  uuid_FromString :: "string \<Rightarrow> string + UUID"
  net_ParseIP :: "string \<Rightarrow> IP option"
  IP_To4 :: "IP \<Rightarrow> IP option"
  net_ParseMAC :: "string \<Rightarrow> string + HardwareAddr"
  net_ParseCIDR :: "string \<Rightarrow> string + IPNet"
  IPNet_String :: "IPNet \<Rightarrow> string"
  strings_ToLower :: "string \<Rightarrow> string"
  IoType_IsNet :: "nat \<Rightarrow> bool"
  parseCipherBlock :: "string \<Rightarrow> CipherData option \<Rightarrow> CipherBlockStatus"
  DhcpType_zero :: DhcpType
  OsParamsLen :: nat
  DefaultConfigItemValueMap :: ConfigItemValueMap
  UsbAccess :: string
  ConfigInterval :: string
  MetricInterval :: string
  SSHAuthorizedKeys :: string
  SetGlobalValueBool :: "string \<Rightarrow> bool \<Rightarrow> ConfigItemValueMap \<Rightarrow> ConfigItemValueMap"
  GlobalValueInt :: "string \<Rightarrow> ConfigItemValueMap \<Rightarrow> nat"
  GlobalValueString :: "string \<Rightarrow> ConfigItemValueMap \<Rightarrow> string"
  ParseItem :: "ConfigItemValueMap \<Rightarrow> ConfigItemValueMap \<Rightarrow> string \<Rightarrow> string
    \<Rightarrow> ConfigItemValueMap \<times> string \<times> string option"
  cmp_Equal_GlobalConfig :: "ConfigItemValueMap \<Rightarrow> ConfigItemValueMap \<Rightarrow> bool"

section \<open>State\<close>

text \<open>
  The object store keeps one collection per entity kind, a Go map from key to entity;
  here an association list with \<open>AList.update\<close> for Publish and \<open>AList.delete\<close> for
  Unpublish. GetAll returns the collection and a range loop over it visits the entries
  in the order of the list. Every call that leaves the process is also appended to
  \<open>calls\<close>: store calls, writes and removals of the persisted reboot file, timer and
  key-file updates, and the two publishers of other files of the agent (device
  information and agent status). \<open>ShutdownApps\<close> marks one run of the application
  shutdown sweep.
\<close>

datatype topic =
  TBaseOsConfig | TCertObjConfig | TNetworkXObjectConfig | TNetworkInstanceConfig
  | TAppInstanceConfig | TDatastoreConfig | TDevicePortConfig | TPhysicalIOAdapters
  | TGlobalConfig

datatype call =
  Publish topic string
  | Unpublish topic string
  | WriteRename DeviceOpsCmd
  | Remove
  | ShutdownApps
  | UpdateConfigTimer nat
  | UpdateMetricsTimer nat
  | UpdateSshAuthorizedKeys string
  | TriggerPublishDevInfo
  | PublishZedAgentStatus

text \<open>
  The package-level variables (the previous digests and the previous return value of
  the reboot scheduler), the fields of the two contexts that the code reads or writes,
  the persisted reboot file (\<open>None\<close> when the file does not exist; a file whose content
  does not decode stops the process and is outside the model), and the call log.
\<close>

record state =
  baseosPrevConfigHash :: bytes
  networkConfigPrevConfigHash :: bytes
  networkInstancePrevConfigHash :: bytes
  appinstancePrevConfigHash :: bytes
  systemAdaptersPrevConfigHash :: bytes
  deviceIoListPrevConfigHash :: bytes
  datastoreConfigPrevConfigHash :: bytes
  itemsPrevConfigHash :: bytes
  rebootPrevConfigHash :: bytes
  backupPrevConfigHash :: bytes
  rebootPrevReturn :: bool
  pubBaseOsConfig :: "(string \<times> BaseOsConfig) list"
  pubCertObjConfig :: "(string \<times> CertObjConfig) list"
  pubNetworkXObjectConfig :: "(string \<times> NetworkXObjectConfig) list"
  pubNetworkInstanceConfig :: "(string \<times> NetworkInstanceConfig) list"
  pubAppInstanceConfig :: "(string \<times> AppInstanceConfig) list"
  pubDatastoreConfig :: "(string \<times> DatastoreConfig) list"
  pubDevicePortConfig :: "(string \<times> DevicePortConfig) list"
  pubPhysicalIOAdapters :: "(string \<times> PhysicalIOAdapterList) list"
  pubGlobalConfig :: "(string \<times> ConfigItemValueMap) list"
  devicePortConfig :: DevicePortConfig
  updateInprogress :: bool
  rebootFlag :: bool
  physicalIoAdapterMap :: "(string \<times> PhysicalIOAdapter) list"
  globalConfig :: ConfigItemValueMap
  globalStatus :: GlobalStatus
  rebootCmd :: bool
  deviceReboot :: bool
  rebootCmdDeferred :: bool
  rebootConfigCounter :: "32 word"
  currentRebootReason :: string
  rebootConfigFile :: "DeviceOpsCmd option"
  calls :: "call list"

section \<open>Change detection digests\<close>

text \<open>
  \<^verbatim>\<open>computeConfigSha\<close> digests the encoding of one message. A running digest is
  represented by the bytes written to it so far: \<^verbatim>\<open>computeConfigElementSha\<close> appends the
  encoding of one element, and \<open>elementsSha\<close> is the loop over the elements of a
  sub-domain followed by \<^verbatim>\<open>h.Sum(nil)\<close>.
\<close>

definition computeConfigSha :: "extlib \<Rightarrow> msg \<Rightarrow> bytes" where
  "computeConfigSha L m = sha256_Sum L (json_Marshal L m)"

definition computeConfigElementSha :: "extlib \<Rightarrow> bytes \<Rightarrow> msg \<Rightarrow> bytes" where
  "computeConfigElementSha L h m = h @ json_Marshal L m"

definition elementsSha :: "extlib \<Rightarrow> msg list \<Rightarrow> bytes" where
  "elementsSha L ms = sha256_Sum L (foldl (computeConfigElementSha L) [] ms)"

section \<open>Operation command controller\<close>

definition publishAppInstanceConfigKey :: "string \<Rightarrow> AppInstanceConfig \<Rightarrow> state \<Rightarrow> state" where
  "publishAppInstanceConfigKey key c st =
     st\<lparr>pubAppInstanceConfig := AList.update key c (pubAppInstanceConfig st),
        calls := calls st @ [Publish TAppInstanceConfig key]\<rparr>"

definition AppInstanceConfig_Key :: "AppInstanceConfig \<Rightarrow> string" where
  "AppInstanceConfig_Key c = UUID (app_UUIDandVersion c)"

text \<open>\<^verbatim>\<open>shutdownApps\<close>: walk the published app instances (the collection as GetAll
  returned it) and publish each active one with Activate cleared.\<close>

fun shutdownAppsLoop :: "(string \<times> AppInstanceConfig) list \<Rightarrow> state \<Rightarrow> state" where
  "shutdownAppsLoop [] st = st"
| "shutdownAppsLoop ((k, c) # items) st =
     shutdownAppsLoop items
       (if app_Activate c
        then publishAppInstanceConfigKey (AppInstanceConfig_Key c) (c\<lparr>app_Activate := False\<rparr>) st
        else st)"

definition shutdownApps :: "state \<Rightarrow> state" where
  "shutdownApps st =
     shutdownAppsLoop (pubAppInstanceConfig st) (st\<lparr>calls := calls st @ [ShutdownApps]\<rparr>)"

definition publishZedAgentStatus :: "state \<Rightarrow> state" where
  "publishZedAgentStatus st = st\<lparr>calls := calls st @ [PublishZedAgentStatus]\<rparr>"

definition handleRebootCmd :: "string \<Rightarrow> state \<Rightarrow> state" where
  "handleRebootCmd infoStr st =
     (if rebootCmd st \<or> deviceReboot st then st
      else publishZedAgentStatus
             ((shutdownApps (st\<lparr>rebootCmd := True\<rparr>))\<lparr>currentRebootReason := infoStr\<rparr>))"

definition handleDeviceReboot :: "state \<Rightarrow> state" where
  "handleDeviceReboot st =
     (if rebootCmd st \<or> deviceReboot st then st
      else shutdownApps (st\<lparr>deviceReboot := True\<rparr>))"

definition saveRebootConfig :: "DeviceOpsCmd \<Rightarrow> state \<Rightarrow> state" where
  "saveRebootConfig reboot st =
     st\<lparr>rebootConfigFile := Some reboot, calls := calls st @ [WriteRename reboot]\<rparr>"

definition readRebootConfig :: "state \<Rightarrow> DeviceOpsCmd \<times> state" where
  "readRebootConfig st =
     (case rebootConfigFile st of
        Some c \<Rightarrow> (c, st)
      | None \<Rightarrow>
          (let rebootConfig = \<lparr>Counter = 0, DesiredState = [], OpsTime = []\<rparr>
           in (rebootConfig, saveRebootConfig rebootConfig st)))"

definition scheduleReboot :: "extlib \<Rightarrow> DeviceOpsCmd option \<Rightarrow> state \<Rightarrow> bool \<times> state" where
  "scheduleReboot L reboot st =
     (case reboot of
        None \<Rightarrow> (False, st\<lparr>rebootConfigFile := None, calls := calls st @ [Remove]\<rparr>)
      | Some r \<Rightarrow>
          (let configHash = computeConfigSha L (MDeviceOpsCmd r);
               same = (configHash = rebootPrevConfigHash st);
               st1 = st\<lparr>rebootPrevConfigHash := configHash\<rparr>
           in if same then (rebootPrevReturn st1, st1)
              else (case readRebootConfig st1 of
                (rebootConfig, st2) \<Rightarrow>
                  if Counter rebootConfig \<noteq> Counter r then
                    (let rebootCmd = \<lparr>Counter = Counter r, DesiredState = DesiredState r,
                                      OpsTime = OpsTime r\<rparr>;
                         st3 = (saveRebootConfig rebootCmd st2)\<lparr>rebootConfigCounter := Counter r\<rparr>
                     in if deviceReboot st3 then (False, st3)
                        else if updateInprogress st3
                        then (False, st3\<lparr>rebootCmdDeferred := True\<rparr>)
                        else (True, (handleRebootCmd ''NORMAL: handleReboot rebooting'' st3)
                                      \<lparr>rebootPrevReturn := True\<rparr>))
                  else (False, st2\<lparr>rebootPrevReturn := False\<rparr>))))"

definition scheduleBackup :: "extlib \<Rightarrow> DeviceOpsCmd option \<Rightarrow> state \<Rightarrow> state" where
  "scheduleBackup L backup st =
     (case backup of
        None \<Rightarrow> st
      | Some b \<Rightarrow> st\<lparr>backupPrevConfigHash := computeConfigSha L (MDeviceOpsCmd b)\<rparr>)"

definition parseOpCmds :: "extlib \<Rightarrow> zEdgeDevConfig \<Rightarrow> state \<Rightarrow> bool \<times> state" where
  "parseOpCmds L config st = scheduleReboot L (cfg_Reboot config) (scheduleBackup L (cfg_Backup config) st)"

section \<open>Outcomes\<close>

text \<open>
  A translator that dereferences a nil pointer or indexes past the end of an array
  panics, which ends the process. A sub-domain parser therefore either returns or
  panics; both outcomes carry the state reached, so that the calls made before a panic
  remain visible.
\<close>

datatype outcome = Returns state | Panics state

fun final :: "outcome \<Rightarrow> state" where
  "final (Returns st) = st"
| "final (Panics st) = st"

section \<open>Storage lists and certificate bundles\<close>

definition uuidOrNil :: "extlib \<Rightarrow> string \<Rightarrow> UUID" where
  "uuidOrNil L s = (case uuid_FromString L s of Inl err \<Rightarrow> nilUUID | Inr u \<Rightarrow> u)"

definition StorageConfig_zero :: StorageConfig where
  "StorageConfig_zero =
     \<lparr>sc_DatastoreID = nilUUID, sc_Name = [], sc_NameIsURL = False, sc_ImageID = nilUUID,
      sc_Format = 0, sc_Size = 0, sc_ImageSignature = [], sc_SignatureKey = [],
      sc_CertificateChain = [], sc_ReadOnly = False, sc_Preserve = False,
      sc_Maxsizebytes = 0, sc_Target = [], sc_Devtype = [], sc_ImageSha256 = []\<rparr>"

text \<open>
  One iteration of \<^verbatim>\<open>parseStorageConfigList\<close>. For a drive without its image the code
  stores the nil datastore id and then reads \<^verbatim>\<open>drive.Image.Sha256\<close>, which panics:
  the result is \<open>None\<close>.
\<close>

definition parseStorageConfig :: "extlib \<Rightarrow> zDrive \<Rightarrow> StorageConfig option" where
  "parseStorageConfig L drive =
     (case drv_Image drive of
        None \<Rightarrow> None
      | Some img \<Rightarrow>
          Some (StorageConfig_zero
            \<lparr>sc_DatastoreID := uuidOrNil L (img_DsId img),
             sc_Name := img_Name img,
             sc_ImageID := uuidOrNil L (zuv_Uuid (img_Uuidandversion img)),
             sc_Format := img_Iformat img,
             sc_Size := img_SizeBytes img,
             sc_ImageSignature := Signature (img_Siginfo img),
             sc_SignatureKey := Signercerturl (img_Siginfo img),
             sc_CertificateChain :=
               (if Intercertsurl (img_Siginfo img) \<noteq> [] then [Intercertsurl (img_Siginfo img)]
                else []),
             sc_ReadOnly := drv_Readonly drive,
             sc_Preserve := drv_Preserve drive,
             sc_Maxsizebytes := drv_Maxsizebytes drive,
             sc_Target := strings_ToLower L (drv_Target drive),
             sc_Devtype := strings_ToLower L (drv_Drvtype drive),
             sc_ImageSha256 := img_Sha256 img\<rparr>))"

fun parseStorageConfigList :: "extlib \<Rightarrow> zDrive list \<Rightarrow> StorageConfig list option" where
  "parseStorageConfigList L [] = Some []"
| "parseStorageConfigList L (drive # drives) =
     (case parseStorageConfig L drive of
        None \<Rightarrow> None
      | Some imageCfg \<Rightarrow>
          (case parseStorageConfigList L drives of
             None \<Rightarrow> None
           | Some storageList \<Rightarrow> Some (imageCfg # storageList)))"

definition getCertObjConfig :: "StorageConfig \<Rightarrow> string \<Rightarrow> StorageConfig" where
  "getCertObjConfig imageCfg certUrl =
     StorageConfig_zero
       \<lparr>sc_DatastoreID := sc_DatastoreID imageCfg, sc_Name := certUrl, sc_NameIsURL := True,
        sc_Size := 100 * 1024, sc_ImageSha256 := []\<rparr>"

text \<open>The two passes of \<^verbatim>\<open>getCertObjects\<close>: count the certificates, then fill
  the list in the same order.\<close>

fun certCount :: "StorageConfig list \<Rightarrow> nat" where
  "certCount [] = 0"
| "certCount (imageCfg # drives) =
     (if sc_SignatureKey imageCfg \<noteq> [] then 1 else 0)
     + length (filter (\<lambda>certUrl. certUrl \<noteq> []) (sc_CertificateChain imageCfg))
     + certCount drives"

fun certFill :: "StorageConfig list \<Rightarrow> StorageConfig list" where
  "certFill [] = []"
| "certFill (imageCfg # drives) =
     (if sc_SignatureKey imageCfg \<noteq> [] then [getCertObjConfig imageCfg (sc_SignatureKey imageCfg)] else [])
     @ map (getCertObjConfig imageCfg) (filter (\<lambda>certUrl. certUrl \<noteq> []) (sc_CertificateChain imageCfg))
     @ certFill drives"

definition getCertObjects ::
  "UUIDandVersion \<Rightarrow> string \<Rightarrow> StorageConfig list \<Rightarrow> CertObjConfig option" where
  "getCertObjects uuidAndVersion sha256 drives =
     (if certCount drives = 0 then None
      else Some \<lparr>cert_UUIDandVersion = uuidAndVersion, cert_ConfigSha256 = sha256,
                 cert_StorageConfigList = certFill drives\<rparr>)"

definition publishCertObjConfig :: "CertObjConfig \<Rightarrow> string \<Rightarrow> state \<Rightarrow> state" where
  "publishCertObjConfig config uuidStr st =
     st\<lparr>pubCertObjConfig := AList.update uuidStr config (pubCertObjConfig st),
        calls := calls st @ [Publish TCertObjConfig uuidStr]\<rparr>"

definition unpublishCertObjConfig :: "string \<Rightarrow> state \<Rightarrow> state" where
  "unpublishCertObjConfig uuidStr st =
     (case map_of (pubCertObjConfig st) uuidStr of
        None \<Rightarrow> st
      | Some c \<Rightarrow>
          st\<lparr>pubCertObjConfig := AList.delete uuidStr (pubCertObjConfig st),
             calls := calls st @ [Unpublish TCertObjConfig uuidStr]\<rparr>)"

section \<open>Base OS\<close>

definition publishBaseOsConfig :: "BaseOsConfig \<Rightarrow> state \<Rightarrow> state" where
  "publishBaseOsConfig config st =
     st\<lparr>pubBaseOsConfig :=
          AList.update (UUID (bo_UUIDandVersion config)) config (pubBaseOsConfig st),
        calls := calls st @ [Publish TBaseOsConfig (UUID (bo_UUIDandVersion config))]\<rparr>"

definition unpublishBaseOsConfig :: "string \<Rightarrow> state \<Rightarrow> state" where
  "unpublishBaseOsConfig uuidStr st =
     st\<lparr>pubBaseOsConfig := AList.delete uuidStr (pubBaseOsConfig st),
        calls := calls st @ [Unpublish TBaseOsConfig uuidStr]\<rparr>"

text \<open>The loop over the published entities that looks for deleted ones.\<close>

fun baseOsDeleteLoop ::
  "zBaseOSConfig list \<Rightarrow> (string \<times> BaseOsConfig) list \<Rightarrow> state \<Rightarrow> state" where
  "baseOsDeleteLoop cfgOsList [] st = st"
| "baseOsDeleteLoop cfgOsList ((uuidStr, c) # items) st =
     baseOsDeleteLoop cfgOsList items
       (if list_ex (\<lambda>baseOs. zuv_Uuid (bos_Uuidandversion baseOs) = uuidStr) cfgOsList
        then st
        else unpublishCertObjConfig uuidStr (unpublishBaseOsConfig uuidStr st))"

text \<open>
  The translation of one base OS element; \<open>None\<close> is a panic (more parameters than the
  parameter array holds, or a drive without its image).
\<close>

definition parseOneBaseOs ::
  "extlib \<Rightarrow> zBaseOSConfig \<Rightarrow> (BaseOsConfig \<times> CertObjConfig option) option" where
  "parseOneBaseOs L cfgOs =
     (if length (bos_BaseOSParams cfgOs) > OsParamsLen L then None
      else
        (case parseStorageConfigList L (bos_Drives cfgOs) of
           None \<Rightarrow> None
         | Some storageList \<Rightarrow>
             (let baseOs =
                \<lparr>bo_UUIDandVersion =
                   \<lparr>UUID = uuidOrNil L (zuv_Uuid (bos_Uuidandversion cfgOs)),
                    Version = zuv_Version (bos_Uuidandversion cfgOs)\<rparr>,
                 bo_BaseOsVersion = bos_BaseOSVersion cfgOs,
                 bo_ConfigSha256 = [],
                 bo_OsParams = bos_BaseOSParams cfgOs
                   @ replicate (OsParamsLen L - length (bos_BaseOSParams cfgOs))
                       \<lparr>OSVerKey = [], OSVerValue = []\<rparr>,
                 bo_StorageConfigList = storageList,
                 bo_Activate = bos_Activate cfgOs\<rparr>
              in Some (baseOs,
                   getCertObjects (bo_UUIDandVersion baseOs) (bo_ConfigSha256 baseOs)
                     (bo_StorageConfigList baseOs)))))"

fun baseOsPublishLoop :: "extlib \<Rightarrow> zBaseOSConfig list \<Rightarrow> state \<Rightarrow> outcome" where
  "baseOsPublishLoop L [] st = Returns st"
| "baseOsPublishLoop L (cfgOs # rest) st =
     (if bos_BaseOSVersion cfgOs = [] then baseOsPublishLoop L rest st
      else
        (case parseOneBaseOs L cfgOs of
           None \<Rightarrow> Panics st
         | Some (baseOs, certInstance) \<Rightarrow>
             baseOsPublishLoop L rest
               (case certInstance of
                  None \<Rightarrow> publishBaseOsConfig baseOs st
                | Some cert \<Rightarrow>
                    publishCertObjConfig cert (UUID (bo_UUIDandVersion baseOs))
                      (publishBaseOsConfig baseOs st))))"

definition parseBaseOsConfig :: "extlib \<Rightarrow> zEdgeDevConfig \<Rightarrow> state \<Rightarrow> outcome" where
  "parseBaseOsConfig L config st =
     (let cfgOsList = cfg_Base config;
          configHash = elementsSha L (map MBaseOs cfgOsList);
          same = (configHash = baseosPrevConfigHash st)
      in if same then Returns st
         else
           (let st1 = st\<lparr>baseosPrevConfigHash := configHash\<rparr>
            in baseOsPublishLoop L cfgOsList
                 (baseOsDeleteLoop cfgOsList (pubBaseOsConfig st1) st1)))"

section \<open>IP specifications\<close>

text \<open>
  \<^verbatim>\<open>parseIpspec\<close> and \<^verbatim>\<open>parseIpspecNetworkXObject\<close> have the same body (the latter
  first copies the DHCP type): subnet, gateway, NTP server, DNS servers and DHCP range
  are parsed in this order into the entity, and the first failure returns with the
  fields assigned so far. The body is modelled once, on the record of those fields; the
  error is the text of the failure (\<open>None\<close> for a nil error). The getters of a nil
  specification return the zero values.
\<close>

record IpFields =
  ipf_DomainName :: string
  ipf_Subnet :: IPNet
  ipf_Gateway :: "IP option"
  ipf_NtpServer :: "IP option"
  ipf_DnsServers :: "IP list"
  ipf_DhcpRange :: IpRange

fun ipspecDnsLoop :: "extlib \<Rightarrow> string list \<Rightarrow> IpFields \<Rightarrow> IpFields \<times> IpspecError option" where
  "ipspecDnsLoop L [] c = (c, None)"
| "ipspecDnsLoop L (dsStr # rest) c =
     (case net_ParseIP L dsStr of
        None \<Rightarrow> (c, Some (BadDnsIP dsStr))
      | Some ds \<Rightarrow> ipspecDnsLoop L rest (c\<lparr>ipf_DnsServers := ipf_DnsServers c @ [ds]\<rparr>))"

definition ipspecSubnet :: "extlib \<Rightarrow> string \<Rightarrow> IpFields \<Rightarrow> IpFields \<times> IpspecError option" where
  "ipspecSubnet L s c =
     (if s \<noteq> [] then
        (case net_ParseCIDR L s of
           Inl err \<Rightarrow> (c, Some (BadSubnet s err))
         | Inr subnet \<Rightarrow> (c\<lparr>ipf_Subnet := subnet\<rparr>, None))
      else (c, None))"

definition ipspecGateway :: "extlib \<Rightarrow> string \<Rightarrow> IpFields \<Rightarrow> IpFields \<times> IpspecError option" where
  "ipspecGateway L g c =
     (if g \<noteq> [] then
        (let c1 = c\<lparr>ipf_Gateway := net_ParseIP L g\<rparr>
         in if ipf_Gateway c1 = None then (c1, Some (BadGatewayIP g)) else (c1, None))
      else (c, None))"

definition ipspecNtp :: "extlib \<Rightarrow> string \<Rightarrow> IpFields \<Rightarrow> IpFields \<times> IpspecError option" where
  "ipspecNtp L n c =
     (if n \<noteq> [] then
        (let c1 = c\<lparr>ipf_NtpServer := net_ParseIP L n\<rparr>
         in if ipf_NtpServer c1 = None then (c1, Some (BadNtpIP n)) else (c1, None))
      else (c, None))"

definition ipspecDhcpRange ::
  "extlib \<Rightarrow> zIpRange option \<Rightarrow> IpFields \<Rightarrow> IpFields \<times> IpspecError option" where
  "ipspecDhcpRange L dr c =
     (case dr of
        None \<Rightarrow> (c, None)
      | Some r \<Rightarrow>
          if zr_Start r \<noteq> [] then
            (case net_ParseIP L (zr_Start r) of
               None \<Rightarrow> (c, Some (BadStartIP (zr_Start r)))
             | Some start \<Rightarrow>
                 if net_ParseIP L (zr_End r) = None \<and> zr_End r \<noteq> []
                 then (c, Some (BadEndIP (zr_End r)))
                 else (c\<lparr>ipf_DhcpRange :=
                          \<lparr>ir_Start = Some start, ir_End = net_ParseIP L (zr_End r)\<rparr>\<rparr>, None))
          else (c, None))"

definition andThen ::
  "'c \<times> 'e option \<Rightarrow> ('c \<Rightarrow> 'c \<times> 'e option) \<Rightarrow> 'c \<times> 'e option" where
  "andThen r f = (case r of (c, None) \<Rightarrow> f c | (c, Some e) \<Rightarrow> (c, Some e))"

definition zIpspec_zero :: "DhcpType \<Rightarrow> zIpspec" where
  "zIpspec_zero d =
     \<lparr>zip_Dhcp = d, zip_Subnet = [], zip_Gateway = [], zip_Domain = [], zip_Ntp = [],
      zip_Dns = [], zip_DhcpRange = None\<rparr>"

definition parseIpspecBody :: "extlib \<Rightarrow> zIpspec \<Rightarrow> IpFields \<Rightarrow> IpFields \<times> IpspecError option" where
  "parseIpspecBody L ipspec c =
     andThen (andThen (andThen (andThen
       (ipspecSubnet L (zip_Subnet ipspec) (c\<lparr>ipf_DomainName := zip_Domain ipspec\<rparr>))
       (ipspecGateway L (zip_Gateway ipspec)))
       (ipspecNtp L (zip_Ntp ipspec)))
       (ipspecDnsLoop L (zip_Dns ipspec)))
       (ipspecDhcpRange L (zip_DhcpRange ipspec))"

definition parseIpspec ::
  "extlib \<Rightarrow> zIpspec option \<Rightarrow> NetworkInstanceConfig
    \<Rightarrow> NetworkInstanceConfig \<times> IpspecError option" where
  "parseIpspec L ipspec config =
     (case parseIpspecBody L
             (case ipspec of None \<Rightarrow> zIpspec_zero (DhcpType_zero L) | Some i \<Rightarrow> i)
             \<lparr>ipf_DomainName = ni_DomainName config, ipf_Subnet = ni_Subnet config,
              ipf_Gateway = ni_Gateway config, ipf_NtpServer = ni_NtpServer config,
              ipf_DnsServers = ni_DnsServers config, ipf_DhcpRange = ni_DhcpRange config\<rparr> of
        (c, err) \<Rightarrow>
          (config\<lparr>ni_DomainName := ipf_DomainName c, ni_Subnet := ipf_Subnet c,
                  ni_Gateway := ipf_Gateway c, ni_NtpServer := ipf_NtpServer c,
                  ni_DnsServers := ipf_DnsServers c, ni_DhcpRange := ipf_DhcpRange c\<rparr>, err))"

definition parseIpspecNetworkXObject ::
  "extlib \<Rightarrow> zIpspec \<Rightarrow> NetworkXObjectConfig \<Rightarrow> NetworkXObjectConfig \<times> IpspecError option" where
  "parseIpspecNetworkXObject L ipspec config =
     (case parseIpspecBody L ipspec
             \<lparr>ipf_DomainName = nx_DomainName config, ipf_Subnet = nx_Subnet config,
              ipf_Gateway = nx_Gateway config, ipf_NtpServer = nx_NtpServer config,
              ipf_DnsServers = nx_DnsServers config, ipf_DhcpRange = nx_DhcpRange config\<rparr> of
        (c, err) \<Rightarrow>
          (config\<lparr>nx_Dhcp := zip_Dhcp ipspec,
                  nx_DomainName := ipf_DomainName c, nx_Subnet := ipf_Subnet c,
                  nx_Gateway := ipf_Gateway c, nx_NtpServer := ipf_NtpServer c,
                  nx_DnsServers := ipf_DnsServers c, nx_DhcpRange := ipf_DhcpRange c\<rparr>, err))"

section \<open>Network instances\<close>

definition lookupNetworkInstanceById ::
  "string \<Rightarrow> zNetworkInstanceConfig list \<Rightarrow> zNetworkInstanceConfig option" where
  "lookupNetworkInstanceById uuid networkInstancesConfigList =
     find (\<lambda>entry. uuid = zuv_Uuid (zni_Uuidandversion entry)) networkInstancesConfigList"

definition lookupNetworkInstanceId ::
  "string \<Rightarrow> zNetworkInstanceConfig list \<Rightarrow> zNetworkInstanceConfig option" where
  "lookupNetworkInstanceId id0 cfgNetworkInstances =
     find (\<lambda>netEnt. id0 = zuv_Uuid (zni_Uuidandversion netEnt)) cfgNetworkInstances"

definition publishNI :: "string \<Rightarrow> NetworkInstanceConfig \<Rightarrow> state \<Rightarrow> state" where
  "publishNI key config st =
     st\<lparr>pubNetworkInstanceConfig := AList.update key config (pubNetworkInstanceConfig st),
        calls := calls st @ [Publish TNetworkInstanceConfig key]\<rparr>"

definition unpublishNI :: "string \<Rightarrow> state \<Rightarrow> state" where
  "unpublishNI key st =
     st\<lparr>pubNetworkInstanceConfig := AList.delete key (pubNetworkInstanceConfig st),
        calls := calls st @ [Unpublish TNetworkInstanceConfig key]\<rparr>"

fun unpublishDeletedLoop ::
  "zNetworkInstanceConfig list \<Rightarrow> (string \<times> NetworkInstanceConfig) list \<Rightarrow> state \<Rightarrow> state" where
  "unpublishDeletedLoop networkInstances [] st = st"
| "unpublishDeletedLoop networkInstances ((key, entry) # currentEntries) st =
     unpublishDeletedLoop networkInstances currentEntries
       (case lookupNetworkInstanceById key networkInstances of
          Some networkInstanceEntry \<Rightarrow> st
        | None \<Rightarrow> unpublishNI key st)"

definition unpublishDeletedNetworkInstanceConfig ::
  "zNetworkInstanceConfig list \<Rightarrow> state \<Rightarrow> state" where
  "unpublishDeletedNetworkInstanceConfig networkInstances st =
     unpublishDeletedLoop networkInstances (pubNetworkInstanceConfig st) st"

fun dnsEntryIPsLenient :: "extlib \<Rightarrow> string list \<Rightarrow> IP list" where
  "dnsEntryIPsLenient L [] = []"
| "dnsEntryIPsLenient L (strAddr # rest) =
     (case net_ParseIP L strAddr of
        Some ip \<Rightarrow> ip # dnsEntryIPsLenient L rest
      | None \<Rightarrow> dnsEntryIPsLenient L rest)"

definition parseDnsNameToIpList ::
  "extlib \<Rightarrow> zNetworkInstanceConfig \<Rightarrow> NetworkInstanceConfig \<Rightarrow> NetworkInstanceConfig" where
  "parseDnsNameToIpList L apiConfigEntry config =
     config\<lparr>ni_DnsNameToIPList :=
       map (\<lambda>dnsEntry. \<lparr>dn_HostName = zdns_HostName dnsEntry,
                         dn_IPs = dnsEntryIPsLenient L (zdns_Address dnsEntry)\<rparr>)
           (zni_Dns apiConfigEntry)\<rparr>"

text \<open>\<^verbatim>\<open>populateLispConfig\<close> reads \<^verbatim>\<open>apiConfigEntry.Cfg.LispConfig\<close>: without
  opaque configuration it panics (\<open>None\<close>).\<close>

definition populateLispConfig ::
  "zNetworkInstanceConfig \<Rightarrow> NetworkInstanceConfig \<Rightarrow> NetworkInstanceConfig option" where
  "populateLispConfig apiConfigEntry networkInstanceConfig =
     (case zni_Cfg apiConfigEntry of
        None \<Rightarrow> None
      | Some cfg \<Rightarrow>
          (case zo_LispConfig cfg of
             None \<Rightarrow> Some networkInstanceConfig
           | Some lispConfig \<Rightarrow> Some (networkInstanceConfig\<lparr>ni_LispConfig := Some lispConfig\<rparr>)))"

definition isVpnInstance :: "zNetworkInstanceConfig \<Rightarrow> bool" where
  "isVpnInstance netInstApiCfg =
     (case zni_Cfg netInstApiCfg of
        None \<Rightarrow> False
      | Some oCfg \<Rightarrow> zo_Oconfig oCfg \<noteq> [] \<and> zo_Type oCfg = ZNetOConfigVPN)"

definition NetworkInstanceConfig_new ::
  "UUID \<Rightarrow> zNetworkInstanceConfig \<Rightarrow> NetworkInstanceConfig" where
  "NetworkInstanceConfig_new id0 apiConfigEntry =
     \<lparr>ni_UUIDandVersion = \<lparr>UUID = id0, Version = zuv_Version (zni_Uuidandversion apiConfigEntry)\<rparr>,
      ni_DisplayName = zni_Displayname apiConfigEntry,
      ni_Type = zni_InstType apiConfigEntry,
      ni_Activate = zni_Activate apiConfigEntry,
      ni_Logicallabel = (case zni_Port apiConfigEntry of None \<Rightarrow> [] | Some name \<Rightarrow> name),
      ni_IpType = zni_IpType apiConfigEntry,
      ni_HasEncap = False, ni_LispConfig = None, ni_OpaqueConfig = [], ni_DomainName = [],
      ni_Subnet = \<lparr>ipnet_IP = None, ipnet_Mask = []\<rparr>, ni_Gateway = None, ni_NtpServer = None,
      ni_DnsServers = [], ni_DhcpRange = \<lparr>ir_Start = None, ir_End = None\<rparr>,
      ni_DnsNameToIPList = []\<rparr>"

text \<open>The tail of one iteration of the publish loop, after the switch on the type.\<close>

definition publishOneNITail ::
  "extlib \<Rightarrow> zNetworkInstanceConfig \<Rightarrow> NetworkInstanceConfig \<Rightarrow> state \<Rightarrow> state" where
  "publishOneNITail L apiConfigEntry networkInstanceConfig st =
     (let c = (if ni_IpType networkInstanceConfig \<noteq> AddressTypeNone
               then parseDnsNameToIpList L apiConfigEntry
                      (fst (parseIpspec L (zni_Ip apiConfigEntry) networkInstanceConfig))
               else networkInstanceConfig)
      in publishNI (UUID (ni_UUIDandVersion c)) c st)"

definition publishOneNI :: "extlib \<Rightarrow> UUID \<Rightarrow> zNetworkInstanceConfig \<Rightarrow> state \<Rightarrow> outcome" where
  "publishOneNI L id0 apiConfigEntry st =
     (let c0 = NetworkInstanceConfig_new id0 apiConfigEntry
      in case ni_Type c0 of
           NetworkInstanceTypeSwitch \<Rightarrow>
             (let c1 = (if ni_IpType c0 \<noteq> AddressTypeNone then c0\<lparr>ni_IpType := AddressTypeNone\<rparr>
                        else c0)
              in Returns (publishOneNITail L apiConfigEntry c1
                            (publishNI (UUID (ni_UUIDandVersion c1)) c1 st)))
         | NetworkInstanceTypeMesh \<Rightarrow>
             (case populateLispConfig apiConfigEntry (c0\<lparr>ni_HasEncap := True\<rparr>) of
                None \<Rightarrow> Panics st
              | Some c1 \<Rightarrow> Returns (publishOneNITail L apiConfigEntry c1 st))
         | NetworkInstanceTypeCloud \<Rightarrow>
             (let c1 = (case zni_Cfg apiConfigEntry of
                          None \<Rightarrow> c0
                        | Some ocfg \<Rightarrow> c0\<lparr>ni_OpaqueConfig := zo_Oconfig ocfg\<rparr>)
              in Returns (publishOneNITail L apiConfigEntry c1 st))
         | NetworkInstanceTypeOther n \<Rightarrow> Returns (publishOneNITail L apiConfigEntry c0 st))"

fun niPublishLoop :: "extlib \<Rightarrow> zNetworkInstanceConfig list \<Rightarrow> state \<Rightarrow> outcome" where
  "niPublishLoop L [] st = Returns st"
| "niPublishLoop L (apiConfigEntry # rest) st =
     (case uuid_FromString L (zuv_Uuid (zni_Uuidandversion apiConfigEntry)) of
        Inl err \<Rightarrow> niPublishLoop L rest st
      | Inr id0 \<Rightarrow>
          (case publishOneNI L id0 apiConfigEntry st of
             Panics st1 \<Rightarrow> Panics st1
           | Returns st1 \<Rightarrow> niPublishLoop L rest st1))"

definition publishNetworkInstanceConfig ::
  "extlib \<Rightarrow> zNetworkInstanceConfig list \<Rightarrow> state \<Rightarrow> outcome" where
  "publishNetworkInstanceConfig L networkInstances st =
     (let st1 = unpublishDeletedNetworkInstanceConfig networkInstances st;
          vpnCount = length (filter isVpnInstance networkInstances)
      in if vpnCount > 1 then Returns st1
         else niPublishLoop L networkInstances st1)"

definition parseNetworkInstanceConfig :: "extlib \<Rightarrow> zEdgeDevConfig \<Rightarrow> state \<Rightarrow> outcome" where
  "parseNetworkInstanceConfig L config st =
     (let networkInstances = cfg_NetworkInstances config;
          configHash = elementsSha L (map MNetworkInstance networkInstances);
          same = (configHash = networkInstancePrevConfigHash st)
      in if same then Returns st
         else publishNetworkInstanceConfig L networkInstances
                (st\<lparr>networkInstancePrevConfigHash := configHash\<rparr>))"

section \<open>Network objects\<close>

text \<open>
  \<^verbatim>\<open>SetErrorNow\<close> of the types package stores the error text with the current time
  on the entity and \<^verbatim>\<open>HasError\<close> tests for a stored text. The wall clock is outside
  the code: a translator that reads it takes the reading \<open>now\<close>.
\<close>

definition NetworkXObjectConfig_SetErrorNow ::
  "NetworkXError \<Rightarrow> Time \<Rightarrow> NetworkXObjectConfig \<Rightarrow> NetworkXObjectConfig" where
  "NetworkXObjectConfig_SetErrorNow errStr now config =
     config\<lparr>nx_Error := Some errStr, nx_ErrorTime := now\<rparr>"

definition NetworkXObjectConfig_HasError :: "NetworkXObjectConfig \<Rightarrow> bool" where
  "NetworkXObjectConfig_HasError config = (nx_Error config \<noteq> None)"

definition WirelessConfig_zero :: WirelessConfig where
  "WirelessConfig_zero = \<lparr>wl_WType = WirelessTypeNone, wl_Cellular = [], wl_Wifi = []\<rparr>"

fun wifiLoop :: "extlib \<Rightarrow> string \<Rightarrow> zWifiConfig list \<Rightarrow> WifiConfig list" where
  "wifiLoop L key [] = []"
| "wifiLoop L key (wificfg # rest) =
     (let key1 = key @ ''-'' @ zwf_WifiSSID wificfg
      in \<lparr>wf_SSID = zwf_WifiSSID wificfg,
          wf_KeyScheme =
            (if zwf_KeyScheme wificfg = KeySchemeWpaPsk then KeySchemeWpaPsk
             else if zwf_KeyScheme wificfg = KeySchemeWpaEap then KeySchemeWpaEap
             else KeySchemeNone),
          wf_Identity = zwf_Identity wificfg,
          wf_Password = zwf_Password wificfg,
          wf_Priority = zwf_Priority wificfg,
          wf_CipherBlockStatus = parseCipherBlock L key1 (zwf_CipherData wificfg)\<rparr>
         # wifiLoop L key1 rest)"

definition parseNetworkWirelessConfig :: "extlib \<Rightarrow> string \<Rightarrow> zNetworkConfig \<Rightarrow> WirelessConfig" where
  "parseNetworkWirelessConfig L key netEnt =
     (case znet_Wireless netEnt of
        None \<Rightarrow> WirelessConfig_zero
      | Some netWireless \<Rightarrow>
          (case zwl_Type netWireless of
             WirelessTypeCellular \<Rightarrow>
               WirelessConfig_zero\<lparr>wl_WType := WirelessTypeCellular,
                                    wl_Cellular := zwl_CellularCfg netWireless\<rparr>
           | WirelessTypeWifi \<Rightarrow>
               WirelessConfig_zero\<lparr>wl_WType := WirelessTypeWifi,
                                    wl_Wifi := wifiLoop L key (zwl_WifiCfg netWireless)\<rparr>
           | WirelessTypeNone \<Rightarrow> WirelessConfig_zero
           | WirelessTypeUnknown n \<Rightarrow> WirelessConfig_zero))"

definition parseProxyEntry :: "zProxyServer \<Rightarrow> ProxyEntry" where
  "parseProxyEntry proxy =
     \<lparr>pe_Type = (case zps_Proto proxy of
                   PROXY_HTTP \<Rightarrow> NPT_HTTP | PROXY_HTTPS \<Rightarrow> NPT_HTTPS
                 | PROXY_SOCKS \<Rightarrow> NPT_SOCKS | PROXY_FTP \<Rightarrow> NPT_FTP
                 | PROXY_OTHER n \<Rightarrow> NPT_ZERO),
      pe_Server = zps_Server proxy, pe_Port = zps_Port proxy\<rparr>"

definition parseProxyConfig :: "zProxyConfig \<Rightarrow> ProxyConfig" where
  "parseProxyConfig netProxyConfig =
     \<lparr>pc_Proxies = map parseProxyEntry (zpc_Proxies netProxyConfig),
      pc_Exceptions = zpc_Exceptions netProxyConfig,
      pc_Pacfile = zpc_Pacfile netProxyConfig,
      pc_NetworkProxyEnable = zpc_NetworkProxyEnable netProxyConfig,
      pc_NetworkProxyURL = zpc_NetworkProxyURL netProxyConfig,
      pc_ProxyCertPEM = zpc_ProxyCertPEM netProxyConfig\<rparr>"

definition NetworkXObjectConfig_zero :: "extlib \<Rightarrow> NetworkXObjectConfig" where
  "NetworkXObjectConfig_zero L =
     \<lparr>nx_UUID = nilUUID, nx_Type = NT_NOOP, nx_Dhcp = DhcpType_zero L,
      nx_Subnet = \<lparr>ipnet_IP = None, ipnet_Mask = []\<rparr>, nx_Gateway = None, nx_DomainName = [],
      nx_NtpServer = None, nx_DnsServers = [],
      nx_DhcpRange = \<lparr>ir_Start = None, ir_End = None\<rparr>, nx_DnsNameToIPList = [],
      nx_Proxy = None, nx_WirelessCfg = WirelessConfig_zero, nx_Error = None, nx_ErrorTime = 0\<rparr>"

text \<open>The address loop of one DNS entry of a network object: the first bad address is
  returned as \<open>Inl\<close>.\<close>

fun dnsEntryIPsStrict :: "extlib \<Rightarrow> string list \<Rightarrow> string + IP list" where
  "dnsEntryIPsStrict L [] = Inr []"
| "dnsEntryIPsStrict L (strAddr # rest) =
     (case net_ParseIP L strAddr of
        None \<Rightarrow> Inl strAddr
      | Some ip \<Rightarrow>
          (case dnsEntryIPsStrict L rest of Inl bad \<Rightarrow> Inl bad | Inr ips \<Rightarrow> Inr (ip # ips)))"

fun dnsNameToIPsStrict :: "extlib \<Rightarrow> zDnsEntry list \<Rightarrow> string + DnsNameToIP list" where
  "dnsNameToIPsStrict L [] = Inr []"
| "dnsNameToIPsStrict L (dnsEntry # rest) =
     (case dnsEntryIPsStrict L (zdns_Address dnsEntry) of
        Inl bad \<Rightarrow> Inl bad
      | Inr ips \<Rightarrow>
          (case dnsNameToIPsStrict L rest of
             Inl bad \<Rightarrow> Inl bad
           | Inr nameToIPs \<Rightarrow>
               Inr (\<lparr>dn_HostName = zdns_HostName dnsEntry, dn_IPs = ips\<rparr> # nameToIPs)))"

definition networkXDns :: "extlib \<Rightarrow> Time \<Rightarrow> zNetworkConfig \<Rightarrow> NetworkXObjectConfig \<Rightarrow> NetworkXObjectConfig" where
  "networkXDns L now netEnt config =
     (case dnsNameToIPsStrict L (znet_Dns netEnt) of
        Inl strAddr \<Rightarrow>
          NetworkXObjectConfig_SetErrorNow (NxBadDnsEntry strAddr (nx_UUID config)) now config
      | Inr nameToIPs \<Rightarrow> config\<lparr>nx_DnsNameToIPList := nameToIPs\<rparr>)"

definition parseOneNetworkXObjectConfig ::
  "extlib \<Rightarrow> Time \<Rightarrow> zNetworkConfig \<Rightarrow> NetworkXObjectConfig" where
  "parseOneNetworkXObjectConfig L now netEnt =
     (let config0 = (NetworkXObjectConfig_zero L)\<lparr>nx_Type := znet_Type netEnt\<rparr>
      in case uuid_FromString L (znet_Id netEnt) of
           Inl err \<Rightarrow> NetworkXObjectConfig_SetErrorNow (NxMalformedUUID err) now config0
         | Inr id0 \<Rightarrow>
             (let config1 = config0\<lparr>nx_UUID := id0\<rparr>;
                  config2 = (case znet_EntProxy netEnt of
                               None \<Rightarrow> config1
                             | Some netProxyConfig \<Rightarrow>
                                 config1\<lparr>nx_Proxy := Some (parseProxyConfig netProxyConfig)\<rparr>);
                  config3 = config2\<lparr>nx_WirelessCfg :=
                              parseNetworkWirelessConfig L (nx_UUID config2) netEnt\<rparr>;
                  ipspec = znet_Ip netEnt
              in if nx_Type config3 = NT_CryptoEID \<or> nx_Type config3 = NT_IPV4
                    \<or> nx_Type config3 = NT_IPV6
                 then
                   (case ipspec of
                      None \<Rightarrow>
                        NetworkXObjectConfig_SetErrorNow (NxMissingIpspec (nx_UUID config3)) now config3
                    | Some i \<Rightarrow>
                        (case parseIpspecNetworkXObject L i config3 of
                           (config4, Some err) \<Rightarrow>
                             NetworkXObjectConfig_SetErrorNow
                               (NxParseIpspecFailed (nx_UUID config4) err) now config4
                         | (config4, None) \<Rightarrow> networkXDns L now netEnt config4))
                 else if nx_Type config3 = NT_NOOP
                 then
                   (case ipspec of
                      None \<Rightarrow> networkXDns L now netEnt config3
                    | Some i \<Rightarrow>
                        (case parseIpspecNetworkXObject L i config3 of
                           (config4, Some err) \<Rightarrow>
                             NetworkXObjectConfig_SetErrorNow
                               (NxParseIpspecIgnored (nx_UUID config4) err) now config4
                         | (config4, None) \<Rightarrow> networkXDns L now netEnt config4))
                 else NetworkXObjectConfig_SetErrorNow
                        (NxUnknownType (nx_Type config3) id0) now config3))"

definition lookupNetworkId :: "string \<Rightarrow> zNetworkConfig list \<Rightarrow> zNetworkConfig option" where
  "lookupNetworkId id0 cfgNetworks = find (\<lambda>netEnt. id0 = znet_Id netEnt) cfgNetworks"

definition publishNetworkX :: "string \<Rightarrow> NetworkXObjectConfig \<Rightarrow> state \<Rightarrow> state" where
  "publishNetworkX key config st =
     st\<lparr>pubNetworkXObjectConfig := AList.update key config (pubNetworkXObjectConfig st),
        calls := calls st @ [Publish TNetworkXObjectConfig key]\<rparr>"

definition unpublishNetworkX :: "string \<Rightarrow> state \<Rightarrow> state" where
  "unpublishNetworkX key st =
     st\<lparr>pubNetworkXObjectConfig := AList.delete key (pubNetworkXObjectConfig st),
        calls := calls st @ [Unpublish TNetworkXObjectConfig key]\<rparr>"

fun networkXDeleteLoop ::
  "zNetworkConfig list \<Rightarrow> (string \<times> NetworkXObjectConfig) list \<Rightarrow> state \<Rightarrow> state" where
  "networkXDeleteLoop cfgNetworks [] st = st"
| "networkXDeleteLoop cfgNetworks ((k, c) # items) st =
     networkXDeleteLoop cfgNetworks items
       (case lookupNetworkId k cfgNetworks of
          Some netEnt \<Rightarrow> st
        | None \<Rightarrow> unpublishNetworkX k st)"

fun networkXPublishLoop :: "extlib \<Rightarrow> Time \<Rightarrow> zNetworkConfig list \<Rightarrow> state \<Rightarrow> state" where
  "networkXPublishLoop L now [] st = st"
| "networkXPublishLoop L now (netEnt # rest) st =
     (let config = parseOneNetworkXObjectConfig L now netEnt
      in networkXPublishLoop L now rest (publishNetworkX (nx_UUID config) config st))"

definition publishNetworkXObjectConfig ::
  "extlib \<Rightarrow> Time \<Rightarrow> zNetworkConfig list \<Rightarrow> state \<Rightarrow> state" where
  "publishNetworkXObjectConfig L now cfgNetworks st =
     networkXPublishLoop L now cfgNetworks
       (networkXDeleteLoop cfgNetworks (pubNetworkXObjectConfig st) st)"

definition parseNetworkXObjectConfig ::
  "extlib \<Rightarrow> Time \<Rightarrow> zEdgeDevConfig \<Rightarrow> state \<Rightarrow> bool \<times> state" where
  "parseNetworkXObjectConfig L now config st =
     (let nets = cfg_Networks config;
          configHash = elementsSha L (map MNetwork nets);
          same = (configHash = networkConfigPrevConfigHash st)
      in if same then (False, st)
         else (True, publishNetworkXObjectConfig L now nets
                       (st\<lparr>networkConfigPrevConfigHash := configHash\<rparr>)))"

section \<open>Datastores\<close>

definition lookupDatastore :: "zDatastoreConfig list \<Rightarrow> string \<Rightarrow> zDatastoreConfig option" where
  "lookupDatastore datastores dsid = find (\<lambda>ds. dsid = zds_Id ds) datastores"

definition publishDatastore :: "string \<Rightarrow> DatastoreConfig \<Rightarrow> state \<Rightarrow> state" where
  "publishDatastore key config st =
     st\<lparr>pubDatastoreConfig := AList.update key config (pubDatastoreConfig st),
        calls := calls st @ [Publish TDatastoreConfig key]\<rparr>"

definition unpublishDatastore :: "string \<Rightarrow> state \<Rightarrow> state" where
  "unpublishDatastore key st =
     st\<lparr>pubDatastoreConfig := AList.delete key (pubDatastoreConfig st),
        calls := calls st @ [Unpublish TDatastoreConfig key]\<rparr>"

fun datastoreDeleteLoop ::
  "zDatastoreConfig list \<Rightarrow> (string \<times> DatastoreConfig) list \<Rightarrow> state \<Rightarrow> state" where
  "datastoreDeleteLoop cfgDatastores [] st = st"
| "datastoreDeleteLoop cfgDatastores ((k, c) # items) st =
     datastoreDeleteLoop cfgDatastores items
       (case lookupDatastore cfgDatastores k of
          Some ds \<Rightarrow> st
        | None \<Rightarrow> unpublishDatastore k st)"

definition parseOneDatastore :: "extlib \<Rightarrow> zDatastoreConfig \<Rightarrow> DatastoreConfig" where
  "parseOneDatastore L ds =
     \<lparr>ds_UUID = uuidOrNil L (zds_Id ds),
      ds_DsType = zds_DType ds,
      ds_Fqdn = zds_Fqdn ds,
      ds_ApiKey = zds_ApiKey ds,
      ds_Password = zds_Password ds,
      ds_Dpath = zds_Dpath ds,
      ds_Region = (if zds_Region ds = [] then ''us-west-2'' else zds_Region ds),
      ds_CipherBlockStatus = parseCipherBlock L (uuidOrNil L (zds_Id ds)) (zds_CipherData ds)\<rparr>"

fun datastorePublishLoop :: "extlib \<Rightarrow> zDatastoreConfig list \<Rightarrow> state \<Rightarrow> state" where
  "datastorePublishLoop L [] st = st"
| "datastorePublishLoop L (ds # rest) st =
     (let datastore = parseOneDatastore L ds
      in datastorePublishLoop L rest (publishDatastore (ds_UUID datastore) datastore st))"

definition publishDatastoreConfig :: "extlib \<Rightarrow> zDatastoreConfig list \<Rightarrow> state \<Rightarrow> state" where
  "publishDatastoreConfig L cfgDatastores st =
     datastorePublishLoop L cfgDatastores
       (datastoreDeleteLoop cfgDatastores (pubDatastoreConfig st) st)"

definition parseDatastoreConfig :: "extlib \<Rightarrow> zEdgeDevConfig \<Rightarrow> state \<Rightarrow> state" where
  "parseDatastoreConfig L config st =
     (let stores = cfg_Datastores config;
          configHash = elementsSha L (map MDatastore stores);
          same = (configHash = datastoreConfigPrevConfigHash st)
      in if same then st
         else publishDatastoreConfig L stores (st\<lparr>datastoreConfigPrevConfigHash := configHash\<rparr>))"

section \<open>Physical I/O inventory\<close>

definition PhysicalAddress_zero :: PhysicalAddress where
  "PhysicalAddress_zero =
     \<lparr>pa_PciLong = [], pa_Ifname = [], pa_Serial = [], pa_Irq = [], pa_Ioports = [],
      pa_UnknownType = []\<rparr>"

fun phyaddrLoop :: "extlib \<Rightarrow> (string \<times> string) list \<Rightarrow> PhysicalAddress \<Rightarrow> PhysicalAddress" where
  "phyaddrLoop L [] pa = pa"
| "phyaddrLoop L ((key, v) # rest) pa =
     phyaddrLoop L rest
       (let key1 = strings_ToLower L key
        in if key1 = ''pcilong'' then pa\<lparr>pa_PciLong := v\<rparr>
           else if key1 = ''ifname'' then pa\<lparr>pa_Ifname := v\<rparr>
           else if key1 = ''serial'' then pa\<lparr>pa_Serial := v\<rparr>
           else if key1 = ''irq'' then pa\<lparr>pa_Irq := v\<rparr>
           else if key1 = ''ioports'' then pa\<lparr>pa_Ioports := v\<rparr>
           else pa\<lparr>pa_UnknownType := v\<rparr>)"

definition parseOneDeviceIo :: "extlib \<Rightarrow> zPhysicalIO \<Rightarrow> PhysicalIOAdapter" where
  "parseOneDeviceIo L ioDevicePtr =
     \<lparr>pio_Ptype = zio_Ptype ioDevicePtr,
      pio_Phylabel = zio_Phylabel ioDevicePtr,
      pio_Phyaddr = phyaddrLoop L (zio_Phyaddrs ioDevicePtr) PhysicalAddress_zero,
      pio_Logicallabel = zio_Logicallabel ioDevicePtr,
      pio_Assigngrp = zio_Assigngrp ioDevicePtr,
      pio_Usage = zio_Usage ioDevicePtr,
      pio_FreeUplink = (case zio_UsagePolicy ioDevicePtr of None \<Rightarrow> False | Some f \<Rightarrow> f)\<rparr>"

fun deviceIoLoop ::
  "extlib \<Rightarrow> zPhysicalIO option list \<Rightarrow> PhysicalIOAdapter list \<times> state
    \<Rightarrow> PhysicalIOAdapter list \<times> state" where
  "deviceIoLoop L [] acc = acc"
| "deviceIoLoop L (ioDevicePtr # rest) (adapterList, st) =
     (case ioDevicePtr of
        None \<Rightarrow> deviceIoLoop L rest (adapterList, st)
      | Some io \<Rightarrow>
          (let port = parseOneDeviceIo L io
           in deviceIoLoop L rest
                (adapterList @ [port],
                 st\<lparr>physicalIoAdapterMap :=
                      AList.update (pio_Phylabel port) port (physicalIoAdapterMap st)\<rparr>)))"

definition parseDeviceIoListConfig :: "extlib \<Rightarrow> zEdgeDevConfig \<Rightarrow> state \<Rightarrow> bool \<times> state" where
  "parseDeviceIoListConfig L config st =
     (let deviceIoList = cfg_DeviceIoList config;
          configHash = elementsSha L (map MPhysicalIO deviceIoList);
          same = (configHash = deviceIoListPrevConfigHash st)
      in if same then (False, st)
         else
           (case deviceIoLoop L deviceIoList ([], st\<lparr>deviceIoListPrevConfigHash := configHash\<rparr>) of
              (adapterList, st1) \<Rightarrow>
                (True,
                 st1\<lparr>pubPhysicalIOAdapters :=
                       AList.update ''zedagent'' \<lparr>Initialized = True, AdapterList = adapterList\<rparr>
                         (pubPhysicalIOAdapters st1),
                     calls := calls st1 @ [Publish TPhysicalIOAdapters ''zedagent'']\<rparr>)))"

section \<open>App instances: interfaces\<close>

definition isOverlayNetworkInstance :: "zNetworkInstanceConfig \<Rightarrow> bool" where
  "isOverlayNetworkInstance netInstEntry = (zni_InstType netInstEntry = NetworkInstanceTypeMesh)"

definition parseACEAction :: "zACEAction \<Rightarrow> ACEAction" where
  "parseACEAction action =
     \<lparr>aa_Limit = za_Limit action, aa_LimitRate = za_Limitrate action,
      aa_LimitUnit = za_Limitunit action, aa_LimitBurst = za_Limitburst action,
      aa_PortMap = za_Portmap action, aa_TargetPort = za_AppPort action\<rparr>"

definition parseACE :: "zACE \<Rightarrow> ACE" where
  "parseACE acl =
     \<lparr>ace_Matches = zace_Matches acl,
      ace_Actions = map parseACEAction (zace_Actions acl),
      ace_Name = zace_Name acl,
      ace_RuleID = zace_Id acl,
      ace_Dir = zace_Dir acl\<rparr>"

text \<open>The ordering key that the ACL loop leaves in \<^verbatim>\<open>intfOrder\<close>: it starts at 0 and
  takes the identifier of a rule whenever it is still 0.\<close>

fun intfOrderLoop :: "32 word \<Rightarrow> zACE list \<Rightarrow> 32 word" where
  "intfOrderLoop intfOrder [] = intfOrder"
| "intfOrderLoop intfOrder (acl # acls) =
     intfOrderLoop (if intfOrder = 0 then zace_Id acl else intfOrder) acls"

definition UnderlayNetworkConfig_zero :: UnderlayNetworkConfig where
  "UnderlayNetworkConfig_zero =
     \<lparr>ul_Name = [], ul_AppMacAddr = None, ul_AppIPAddr = None, ul_IntfOrder = 0,
      ul_Error = None, ul_Network = nilUUID, ul_ACLs = []\<rparr>"

definition EIDOverlayConfig_zero :: EIDOverlayConfig where
  "EIDOverlayConfig_zero =
     \<lparr>ol_Name = [], ol_EID = None, ol_LispSignature = [], ol_PemCert = [],
      ol_PemPrivateKey = [], ol_ACLs = [], ol_AppMacAddr = None, ol_AppIPAddr = None,
      ol_Network = nilUUID, ol_Error = None, ol_IntfOrder = 0\<rparr>"

text \<open>The part of the underlay translation after the MAC address.\<close>

definition underlayAddrAndAcls ::
  "extlib \<Rightarrow> zAppInstanceConfig \<Rightarrow> zNetworkAdapter \<Rightarrow> UnderlayNetworkConfig
    \<Rightarrow> UnderlayNetworkConfig" where
  "underlayAddrAndAcls L cfgApp intfEnt ulCfg =
     (let finish = (\<lambda>u. u\<lparr>ul_ACLs := map parseACE (zna_Acls intfEnt),
                            ul_IntfOrder := intfOrderLoop 0 (zna_Acls intfEnt)\<rparr>)
      in if zna_Addr intfEnt \<noteq> [] then
           (case net_ParseIP L (zna_Addr intfEnt) of
              None \<Rightarrow>
                ulCfg\<lparr>ul_AppIPAddr := None,
                      ul_Error := Some (BadAppIPAddr (zapp_Displayname cfgApp)
                        (zuv_Uuid (zapp_Uuidandversion cfgApp)) (zna_Addr intfEnt))\<rparr>
            | Some ip \<Rightarrow>
                if IP_To4 L ip = None
                then ulCfg\<lparr>ul_AppIPAddr := Some ip,
                           ul_Error := Some (StaticIPv6NotSupported (zna_Addr intfEnt))\<rparr>
                else finish (ulCfg\<lparr>ul_AppIPAddr := Some ip\<rparr>))
         else finish ulCfg)"

definition parseUnderlayNetworkConfigEntry ::
  "extlib \<Rightarrow> zAppInstanceConfig \<Rightarrow> zNetworkInstanceConfig list \<Rightarrow> zNetworkAdapter
    \<Rightarrow> UnderlayNetworkConfig option" where
  "parseUnderlayNetworkConfigEntry L cfgApp cfgNetworkInstances intfEnt =
     (let ulCfg = UnderlayNetworkConfig_zero\<lparr>ul_Name := zna_Name intfEnt\<rparr>
      in case lookupNetworkInstanceId (zna_NetworkId intfEnt) cfgNetworkInstances of
           None \<Rightarrow>
             Some (ulCfg\<lparr>ul_Error := Some (CantFindNetworkInstance (zapp_Displayname cfgApp)
                      (zuv_Uuid (zapp_Uuidandversion cfgApp)) (zna_NetworkId intfEnt))\<rparr>)
         | Some networkInstanceEntry \<Rightarrow>
             if isOverlayNetworkInstance networkInstanceEntry then None
             else
               (case uuid_FromString L (zna_NetworkId intfEnt) of
                  Inl err \<Rightarrow>
                    Some (ulCfg\<lparr>ul_Error := Some (MalformedNetworkUUID (zapp_Displayname cfgApp)
                             (zuv_Uuid (zapp_Uuidandversion cfgApp)) (zna_NetworkId intfEnt) err)\<rparr>)
                | Inr uuid \<Rightarrow>
                    (let ulCfg1 = ulCfg\<lparr>ul_Network := uuid\<rparr>
                     in if zna_MacAddress intfEnt \<noteq> [] then
                          (case net_ParseMAC L (zna_MacAddress intfEnt) of
                             Inl err \<Rightarrow>
                               Some (ulCfg1\<lparr>ul_AppMacAddr := None,
                                  ul_Error := Some (BadMAC (zapp_Displayname cfgApp)
                                    (zuv_Uuid (zapp_Uuidandversion cfgApp))
                                    (zna_MacAddress intfEnt) err)\<rparr>)
                           | Inr mac \<Rightarrow>
                               Some (underlayAddrAndAcls L cfgApp intfEnt
                                       (ulCfg1\<lparr>ul_AppMacAddr := Some mac\<rparr>)))
                        else Some (underlayAddrAndAcls L cfgApp intfEnt ulCfg1))))"

text \<open>The part of the overlay translation after the MAC address: the EID from its old
  and new location, the ACLs and the signature material.\<close>

definition overlayFinish :: "zNetworkAdapter \<Rightarrow> EIDOverlayConfig \<Rightarrow> EIDOverlayConfig" where
  "overlayFinish intfEnt olCfg =
     (let olCfg1 = (if ol_AppIPAddr olCfg = None then olCfg\<lparr>ol_AppIPAddr := ol_EID olCfg\<rparr>
                    else olCfg)
      in olCfg1\<lparr>ol_ACLs := map parseACE (zna_Acls intfEnt),
                ol_LispSignature := zna_Lispsignature intfEnt,
                ol_PemCert := zna_Pemcert intfEnt,
                ol_PemPrivateKey := zna_Pemprivatekey intfEnt,
                ol_IntfOrder := intfOrderLoop 0 (zna_Acls intfEnt)\<rparr>)"

definition overlayEidAndAcls ::
  "extlib \<Rightarrow> zNetworkAdapter \<Rightarrow> EIDOverlayConfig \<Rightarrow> EIDOverlayConfig" where
  "overlayEidAndAcls L intfEnt olCfg =
     (if zna_CryptoEid intfEnt \<noteq> [] then
        (case net_ParseIP L (zna_CryptoEid intfEnt) of
           None \<Rightarrow> olCfg\<lparr>ol_EID := None, ol_Error := Some (OlBadCryptoEid (zna_CryptoEid intfEnt))\<rparr>
         | Some eid \<Rightarrow>
             if zna_Addr intfEnt \<noteq> [] then
               (case net_ParseIP L (zna_Addr intfEnt) of
                  None \<Rightarrow> olCfg\<lparr>ol_EID := Some eid, ol_AppIPAddr := None,
                                ol_Error := Some (OlBadAddr (zna_Addr intfEnt))\<rparr>
                | Some ip \<Rightarrow>
                    overlayFinish intfEnt (olCfg\<lparr>ol_EID := Some eid, ol_AppIPAddr := Some ip\<rparr>))
             else overlayFinish intfEnt (olCfg\<lparr>ol_EID := Some eid\<rparr>))
      else if zna_Addr intfEnt \<noteq> [] then
        (case net_ParseIP L (zna_Addr intfEnt) of
           None \<Rightarrow> olCfg\<lparr>ol_EID := None, ol_Error := Some (OlBadAddr (zna_Addr intfEnt))\<rparr>
         | Some eid \<Rightarrow> overlayFinish intfEnt (olCfg\<lparr>ol_EID := Some eid\<rparr>))
      else overlayFinish intfEnt olCfg)"

definition parseOverlayNetworkConfigEntry ::
  "extlib \<Rightarrow> zAppInstanceConfig \<Rightarrow> zNetworkInstanceConfig list \<Rightarrow> zNetworkAdapter
    \<Rightarrow> EIDOverlayConfig option" where
  "parseOverlayNetworkConfigEntry L cfgApp cfgNetworkInstances intfEnt =
     (let olCfg = EIDOverlayConfig_zero\<lparr>ol_Name := zna_Name intfEnt\<rparr>
      in case lookupNetworkInstanceId (zna_NetworkId intfEnt) cfgNetworkInstances of
           None \<Rightarrow>
             Some (olCfg\<lparr>ol_Error := Some (CantFindNetworkInstance (zapp_Displayname cfgApp)
                      (zuv_Uuid (zapp_Uuidandversion cfgApp)) (zna_NetworkId intfEnt))\<rparr>)
         | Some networkInstanceEntry \<Rightarrow>
             if \<not> isOverlayNetworkInstance networkInstanceEntry then None
             else
               (case uuid_FromString L (zna_NetworkId intfEnt) of
                  Inl err \<Rightarrow> Some (olCfg\<lparr>ol_Error := Some (OlMalformedUUID err)\<rparr>)
                | Inr uuid \<Rightarrow>
                    (let olCfg1 = olCfg\<lparr>ol_Network := uuid\<rparr>
                     in if zna_MacAddress intfEnt \<noteq> [] then
                          (case net_ParseMAC L (zna_MacAddress intfEnt) of
                             Inl err \<Rightarrow>
                               Some (olCfg1\<lparr>ol_AppMacAddr := None,
                                  ol_Error := Some (OlBadMAC (zna_MacAddress intfEnt) err)\<rparr>)
                           | Inr mac \<Rightarrow>
                               Some (overlayEidAndAcls L intfEnt (olCfg1\<lparr>ol_AppMacAddr := Some mac\<rparr>)))
                        else Some (overlayEidAndAcls L intfEnt olCfg1))))"

text \<open>
  \<^verbatim>\<open>sort.Slice\<close> is library code: it permutes the slice so that no element is less
  than an earlier one. On short slices the library runs an insertion sort, each element
  moving left past the elements it is less than; the model is this insertion sort.
\<close>

fun moveLeft :: "('a \<Rightarrow> 'a \<Rightarrow> bool) \<Rightarrow> 'a \<Rightarrow> 'a list \<Rightarrow> 'a list" where
  "moveLeft lessFn x [] = [x]"
| "moveLeft lessFn x (y # ys) =
     (if lessFn x y then y # moveLeft lessFn x ys else x # y # ys)"

text \<open>\<open>moveLeft\<close> works on the reversed prefix, whose head is the element just left of
  the one that moves.\<close>

definition insertLess :: "('a \<Rightarrow> 'a \<Rightarrow> bool) \<Rightarrow> 'a list \<Rightarrow> 'a \<Rightarrow> 'a list" where
  "insertLess lessFn prefix x = rev (moveLeft lessFn x (rev prefix))"

definition sort_Slice :: "('a \<Rightarrow> 'a \<Rightarrow> bool) \<Rightarrow> 'a list \<Rightarrow> 'a list" where
  "sort_Slice lessFn xs = foldl (insertLess lessFn) [] xs"

fun underlayLoop ::
  "extlib \<Rightarrow> zAppInstanceConfig \<Rightarrow> zNetworkInstanceConfig list \<Rightarrow> zNetworkAdapter list
    \<Rightarrow> AppInstanceConfig \<Rightarrow> AppInstanceConfig" where
  "underlayLoop L cfgApp cfgNetworkInstances [] appInstance = appInstance"
| "underlayLoop L cfgApp cfgNetworkInstances (intfEnt # rest) appInstance =
     underlayLoop L cfgApp cfgNetworkInstances rest
       (case parseUnderlayNetworkConfigEntry L cfgApp cfgNetworkInstances intfEnt of
          None \<Rightarrow> appInstance
        | Some ulCfg \<Rightarrow>
            (let a1 = appInstance\<lparr>app_UnderlayNetworkList :=
                        app_UnderlayNetworkList appInstance @ [ulCfg]\<rparr>
             in case ul_Error ulCfg of
                  None \<Rightarrow> a1
                | Some e \<Rightarrow> a1\<lparr>app_Errors := app_Errors a1 @ [e]\<rparr>))"

definition parseUnderlayNetworkConfig ::
  "extlib \<Rightarrow> zAppInstanceConfig \<Rightarrow> zNetworkInstanceConfig list \<Rightarrow> AppInstanceConfig
    \<Rightarrow> AppInstanceConfig" where
  "parseUnderlayNetworkConfig L cfgApp cfgNetworkInstances appInstance =
     (let a1 = underlayLoop L cfgApp cfgNetworkInstances (zapp_Interfaces cfgApp) appInstance
      in a1\<lparr>app_UnderlayNetworkList :=
              sort_Slice (\<lambda>x y. sint (ul_IntfOrder x) < sint (ul_IntfOrder y))
                (app_UnderlayNetworkList a1)\<rparr>)"

fun overlayLoop ::
  "extlib \<Rightarrow> zAppInstanceConfig \<Rightarrow> zNetworkInstanceConfig list \<Rightarrow> zNetworkAdapter list
    \<Rightarrow> AppInstanceConfig \<Rightarrow> AppInstanceConfig" where
  "overlayLoop L cfgApp cfgNetworkInstances [] appInstance = appInstance"
| "overlayLoop L cfgApp cfgNetworkInstances (intfEnt # rest) appInstance =
     overlayLoop L cfgApp cfgNetworkInstances rest
       (case parseOverlayNetworkConfigEntry L cfgApp cfgNetworkInstances intfEnt of
          None \<Rightarrow> appInstance
        | Some olCfg \<Rightarrow>
            (let a1 = appInstance\<lparr>app_OverlayNetworkList :=
                        app_OverlayNetworkList appInstance @ [olCfg]\<rparr>
             in case ol_Error olCfg of
                  None \<Rightarrow> a1
                | Some e \<Rightarrow> a1\<lparr>app_Errors := app_Errors a1 @ [e]\<rparr>))"

definition parseOverlayNetworkConfig ::
  "extlib \<Rightarrow> zAppInstanceConfig \<Rightarrow> zNetworkInstanceConfig list \<Rightarrow> AppInstanceConfig
    \<Rightarrow> AppInstanceConfig" where
  "parseOverlayNetworkConfig L cfgApp cfgNetworkInstances appInstance =
     (let a1 = overlayLoop L cfgApp cfgNetworkInstances (zapp_Interfaces cfgApp) appInstance
      in a1\<lparr>app_OverlayNetworkList :=
              sort_Slice (\<lambda>x y. sint (ol_IntfOrder x) < sint (ol_IntfOrder y))
                (app_OverlayNetworkList a1)\<rparr>)"

definition parseAppNetworkConfig ::
  "extlib \<Rightarrow> zAppInstanceConfig \<Rightarrow> zNetworkInstanceConfig list \<Rightarrow> AppInstanceConfig
    \<Rightarrow> AppInstanceConfig" where
  "parseAppNetworkConfig L cfgApp cfgNetworkInstances appInstance =
     parseOverlayNetworkConfig L cfgApp cfgNetworkInstances
       (parseUnderlayNetworkConfig L cfgApp cfgNetworkInstances appInstance)"

section \<open>App instances\<close>

definition unpublishAppInstanceConfig :: "string \<Rightarrow> state \<Rightarrow> state" where
  "unpublishAppInstanceConfig uuidStr st =
     st\<lparr>pubAppInstanceConfig := AList.delete uuidStr (pubAppInstanceConfig st),
        calls := calls st @ [Unpublish TAppInstanceConfig uuidStr]\<rparr>"

definition publishAppInstanceConfig :: "AppInstanceConfig \<Rightarrow> state \<Rightarrow> state" where
  "publishAppInstanceConfig config st =
     publishAppInstanceConfigKey (AppInstanceConfig_Key config) config st"

fun appDeleteLoop ::
  "zAppInstanceConfig list \<Rightarrow> (string \<times> AppInstanceConfig) list \<Rightarrow> state \<Rightarrow> state" where
  "appDeleteLoop Apps [] st = st"
| "appDeleteLoop Apps ((uuidStr, c) # items) st =
     appDeleteLoop Apps items
       (if list_ex (\<lambda>app. zuv_Uuid (zapp_Uuidandversion app) = uuidStr) Apps
        then st
        else unpublishCertObjConfig uuidStr (unpublishAppInstanceConfig uuidStr st))"

text \<open>The translation of one app instance; \<open>None\<close> is the panic on a drive without
  image.\<close>

definition parseOneApp ::
  "extlib \<Rightarrow> zEdgeDevConfig \<Rightarrow> zAppInstanceConfig
    \<Rightarrow> (AppInstanceConfig \<times> CertObjConfig option) option" where
  "parseOneApp L config cfgApp =
     (case parseStorageConfigList L (zapp_Drives cfgApp) of
        None \<Rightarrow> None
      | Some storageList \<Rightarrow>
          (let a0 =
             \<lparr>app_UUIDandVersion =
                \<lparr>UUID = uuidOrNil L (zuv_Uuid (zapp_Uuidandversion cfgApp)),
                 Version = zuv_Version (zapp_Uuidandversion cfgApp)\<rparr>,
              app_DisplayName = zapp_Displayname cfgApp,
              app_ConfigSha256 = [],
              app_FixedResources = zapp_Fixedresources cfgApp,
              app_StorageConfigList = storageList,
              app_Activate = zapp_Activate cfgApp,
              app_OverlayNetworkList = [],
              app_UnderlayNetworkList = [],
              app_IoAdapterList = [],
              app_RestartCmd = None,
              app_PurgeCmd = None,
              app_CloudInitUserData = None,
              app_RemoteConsole = False,
              app_CipherBlockStatus = [],
              app_Errors = []\<rparr>;
               a1 = parseAppNetworkConfig L cfgApp (cfg_NetworkInstances config) a0;
               a2 = a1\<lparr>app_IoAdapterList := zapp_Adapters cfgApp,
                       app_RestartCmd := zapp_Restart cfgApp,
                       app_PurgeCmd := zapp_Purge cfgApp,
                       app_CloudInitUserData :=
                         (if zapp_UserData cfgApp \<noteq> [] then Some (zapp_UserData cfgApp) else None),
                       app_RemoteConsole := zapp_RemoteConsole cfgApp\<rparr>;
               a3 = a2\<lparr>app_CipherBlockStatus :=
                         parseCipherBlock L (AppInstanceConfig_Key a2) (zapp_CipherData cfgApp)\<rparr>
           in Some (a3, getCertObjects (app_UUIDandVersion a3) (app_ConfigSha256 a3)
                          (app_StorageConfigList a3))))"

fun appPublishLoop ::
  "extlib \<Rightarrow> zEdgeDevConfig \<Rightarrow> zAppInstanceConfig list \<Rightarrow> state \<Rightarrow> outcome" where
  "appPublishLoop L config [] st = Returns st"
| "appPublishLoop L config (cfgApp # rest) st =
     (case parseOneApp L config cfgApp of
        None \<Rightarrow> Panics st
      | Some (appInstance, certInstance) \<Rightarrow>
          appPublishLoop L config rest
            (case certInstance of
               None \<Rightarrow> publishAppInstanceConfig appInstance st
             | Some cert \<Rightarrow>
                 publishCertObjConfig cert (zuv_Uuid (zapp_Uuidandversion cfgApp))
                   (publishAppInstanceConfig appInstance st)))"

definition parseAppInstanceConfig :: "extlib \<Rightarrow> zEdgeDevConfig \<Rightarrow> state \<Rightarrow> outcome" where
  "parseAppInstanceConfig L config st =
     (let Apps = cfg_Apps config;
          configHash = elementsSha L (map MApp Apps);
          same = (configHash = appinstancePrevConfigHash st)
      in if same then Returns st
         else
           (let st1 = st\<lparr>appinstancePrevConfigHash := configHash\<rparr>
            in appPublishLoop L config Apps
                 (appDeleteLoop Apps (pubAppInstanceConfig st1) st1)))"

section \<open>System adapters\<close>

text \<open>
  The lookups range over the map of physical I/O adapters and return the first entry
  with the label. \<^verbatim>\<open>RecordFailure\<close> of the types package notes a failure with the
  current time on the port; the port keeps the failures in the order of the calls.
\<close>

definition lookupDeviceIoPhylabel :: "state \<Rightarrow> string \<Rightarrow> PhysicalIOAdapter option" where
  "lookupDeviceIoPhylabel st label =
     find (\<lambda>port. pio_Phylabel port = label) (map snd (physicalIoAdapterMap st))"

definition lookupDeviceIoLogicallabel :: "state \<Rightarrow> string \<Rightarrow> PhysicalIOAdapter option" where
  "lookupDeviceIoLogicallabel st label =
     find (\<lambda>port. pio_Logicallabel port = label) (map snd (physicalIoAdapterMap st))"

definition RecordFailure :: "PortFailure \<Rightarrow> Time \<Rightarrow> NetworkPortConfig \<Rightarrow> NetworkPortConfig" where
  "RecordFailure errStr now port = port\<lparr>port_Failures := port_Failures port @ [(errStr, now)]\<rparr>"

definition NetworkPortConfig_zero :: "extlib \<Rightarrow> NetworkPortConfig" where
  "NetworkPortConfig_zero L =
     \<lparr>port_IfName = [], port_Phylabel = [], port_Logicallabel = [], port_Alias = [],
      port_IsMgmt = False, port_Free = False, port_Dhcp = DhcpType_zero L, port_AddrSubnet = [],
      port_Gateway = None, port_DomainName = [], port_NtpServer = None, port_DnsServers = [],
      port_NetworkUUID = nilUUID, port_ProxyConfig = None, port_WirelessCfg = None,
      port_Failures = []\<rparr>"

text \<open>The physical I/O that the adapter resolves to: by logical label first, then by
  physical label (the lower layer name, or the name when that is empty).\<close>

definition adapterPhylabel :: "zSystemAdapter \<Rightarrow> string" where
  "adapterPhylabel sysAdapter =
     (if zsa_LowerLayerName sysAdapter = [] then zsa_Name sysAdapter
      else zsa_LowerLayerName sysAdapter)"

definition lookupPhyio :: "state \<Rightarrow> zSystemAdapter \<Rightarrow> PhysicalIOAdapter option" where
  "lookupPhyio st sysAdapter =
     (case lookupDeviceIoLogicallabel st (zsa_Name sysAdapter) of
        Some phyio \<Rightarrow> Some phyio
      | None \<Rightarrow> lookupDeviceIoPhylabel st (adapterPhylabel sysAdapter))"

text \<open>The first part of \<^verbatim>\<open>parseOneSystemAdapterConfig\<close>: the port and the free flag
  after the physical I/O lookup; \<open>None\<close> when the adapter is dropped.\<close>

definition portFromPhyio ::
  "extlib \<Rightarrow> Time \<Rightarrow> state \<Rightarrow> zSystemAdapter \<Rightarrow> (NetworkPortConfig \<times> bool) option" where
  "portFromPhyio L now st sysAdapter =
     (let port = (NetworkPortConfig_zero L)
           \<lparr>port_Logicallabel := zsa_Name sysAdapter, port_Alias := zsa_Alias sysAdapter,
            port_Phylabel := adapterPhylabel sysAdapter\<rparr>
      in case lookupPhyio st sysAdapter of
           None \<Rightarrow>
             Some ((RecordFailure (MissingPhyio (zsa_Name sysAdapter) (zsa_LowerLayerName sysAdapter))
                      now port)\<lparr>port_IfName := zsa_Name sysAdapter\<rparr>, True)
         | Some phyio \<Rightarrow>
             if \<not> IoType_IsNet L (pio_Ptype phyio) then None
             else
               Some (port\<lparr>port_Phylabel := pio_Phylabel phyio,
                          port_IfName :=
                            (if pa_Ifname (pio_Phyaddr phyio) \<noteq> [] then pa_Ifname (pio_Phyaddr phyio)
                             else if pio_Logicallabel phyio \<noteq> [] then pio_Logicallabel phyio
                             else pio_Phylabel phyio)\<rparr>,
                     pio_FreeUplink phyio))"

text \<open>The management and free flags, from the version and the adapter.\<close>

definition adapterIsMgmt :: "DevicePortConfigVersion \<Rightarrow> zSystemAdapter \<Rightarrow> bool" where
  "adapterIsMgmt version sysAdapter = (if version < DPCIsMgmt then True else zsa_Uplink sysAdapter)"

definition adapterIsFree :: "DevicePortConfigVersion \<Rightarrow> zSystemAdapter \<Rightarrow> bool \<Rightarrow> bool" where
  "adapterIsFree version sysAdapter isFree =
     (if version < DPCIsMgmt then True
      else if zsa_FreeUplink sysAdapter \<and> \<not> isFree then True else isFree)"

text \<open>The lookup of the referenced network object and the copy of its settings.\<close>

definition portNetwork ::
  "extlib \<Rightarrow> Time \<Rightarrow> state \<Rightarrow> zSystemAdapter \<Rightarrow> IP option \<Rightarrow> NetworkPortConfig
    \<Rightarrow> NetworkPortConfig \<times> NetworkXObjectConfig option" where
  "portNetwork L now st sysAdapter ip port =
     (case map_of (pubNetworkXObjectConfig st) (zsa_NetworkUUID sysAdapter) of
        None \<Rightarrow>
          (RecordFailure (UnknownNetworkUUID (port_IfName port) (zsa_NetworkUUID sysAdapter))
             now port, None)
      | Some net \<Rightarrow>
          (let port1 = port\<lparr>port_NetworkUUID := nx_UUID net\<rparr>;
               port2 = (if NetworkXObjectConfig_HasError net
                        then (case nx_Error net of
                                Some e \<Rightarrow> RecordFailure
                                  (NetworkHasError (port_IfName port1) (port_NetworkUUID port1) e)
                                  now port1
                              | None \<Rightarrow> port1)
                        else port1);
               port3 = (case ip of
                          None \<Rightarrow> port2
                        | Some a \<Rightarrow>
                            port2\<lparr>port_AddrSubnet :=
                              IPNet_String L ((nx_Subnet net)\<lparr>ipnet_IP := Some a\<rparr>)\<rparr>)
           in (port3\<lparr>port_WirelessCfg := Some (nx_WirelessCfg net),
                     port_Gateway := nx_Gateway net,
                     port_DomainName := nx_DomainName net,
                     port_NtpServer := nx_NtpServer net,
                     port_DnsServers := nx_DnsServers net,
                     port_Dhcp := nx_Dhcp net\<rparr>, Some net)))"

text \<open>The switch on the DHCP type of the port.\<close>

definition portDhcpCheck ::
  "Time \<Rightarrow> zSystemAdapter \<Rightarrow> bool \<Rightarrow> NetworkPortConfig \<Rightarrow> NetworkPortConfig" where
  "portDhcpCheck now sysAdapter isMgmt port =
     (case port_Dhcp port of
        DT_STATIC \<Rightarrow>
          if port_AddrSubnet port = []
          then RecordFailure (StaticMissingSubnet (port_IfName port) (zsa_Name sysAdapter)
                 (zsa_Addr sysAdapter)) now port
          else port
      | DT_CLIENT \<Rightarrow> port
      | DT_NONE \<Rightarrow>
          if isMgmt then RecordFailure (MgmtDhcpNone (port_IfName port)) now port else port
      | DT_Other n \<Rightarrow>
          RecordFailure (UnknownDhcpType (port_IfName port) (port_Dhcp port)) now port)"

definition parseOneSystemAdapterConfig ::
  "extlib \<Rightarrow> Time \<Rightarrow> state \<Rightarrow> zSystemAdapter \<Rightarrow> DevicePortConfigVersion
    \<Rightarrow> NetworkPortConfig option" where
  "parseOneSystemAdapterConfig L now st sysAdapter version =
     (case portFromPhyio L now st sysAdapter of
        None \<Rightarrow> None
      | Some (port0, isFree0) \<Rightarrow>
          (let isMgmt = adapterIsMgmt version sysAdapter;
               isFree = adapterIsFree version sysAdapter isFree0;
               port1 = port0\<lparr>port_IsMgmt := isMgmt, port_Free := isFree, port_Dhcp := DT_NONE\<rparr>;
               ip = (if zsa_Addr sysAdapter \<noteq> [] then net_ParseIP L (zsa_Addr sysAdapter) else None);
               port2 = (if zsa_Addr sysAdapter \<noteq> [] \<and> ip = None
                        then RecordFailure
                               (BadSysAdapterAddr (zsa_Name sysAdapter) (zsa_Addr sysAdapter)) now port1
                        else port1)
           in if zsa_NetworkUUID sysAdapter \<noteq> [] \<and> zsa_NetworkUUID sysAdapter \<noteq> nilUUID
              then
                (case portNetwork L now st sysAdapter ip port2 of
                   (port3, network) \<Rightarrow>
                     (let port4 = portDhcpCheck now sysAdapter isMgmt port3
                      in case network of
                           None \<Rightarrow> Some port4
                         | Some net \<Rightarrow>
                             (case nx_Proxy net of
                                None \<Rightarrow> Some port4
                              | Some proxy \<Rightarrow> Some (port4\<lparr>port_ProxyConfig := Some proxy\<rparr>))))
              else if isMgmt
              then Some (RecordFailure (MgmtWithoutNetwork (port_IfName port2)) now port2)
              else Some port2))"

fun systemAdapterPorts ::
  "extlib \<Rightarrow> Time \<Rightarrow> state \<Rightarrow> DevicePortConfigVersion \<Rightarrow> zSystemAdapter list
    \<Rightarrow> NetworkPortConfig list" where
  "systemAdapterPorts L now st version [] = []"
| "systemAdapterPorts L now st version (sysAdapter # rest) =
     (case parseOneSystemAdapterConfig L now st sysAdapter version of
        None \<Rightarrow> systemAdapterPorts L now st version rest
      | Some port \<Rightarrow> port # systemAdapterPorts L now st version rest)"

definition adaptersVersion :: "zSystemAdapter list \<Rightarrow> DevicePortConfigVersion" where
  "adaptersVersion sysAdapters =
     foldl (\<lambda>version sysAdapter. if zsa_Uplink sysAdapter then DPCIsMgmt else version)
       DPCInitial sysAdapters"

definition parseSystemAdapterConfig ::
  "extlib \<Rightarrow> Time \<Rightarrow> zEdgeDevConfig \<Rightarrow> bool \<Rightarrow> state \<Rightarrow> state" where
  "parseSystemAdapterConfig L now config forceParse st =
     (let sysAdapters = cfg_SystemAdapterList config;
          configHash = elementsSha L (map MSystemAdapter sysAdapters);
          same = (configHash = systemAdaptersPrevConfigHash st)
      in if same \<and> \<not> forceParse then st
         else
           (let st1 = st\<lparr>systemAdaptersPrevConfigHash := configHash\<rparr>;
                version = adaptersVersion sysAdapters;
                newPorts = systemAdapterPorts L now st1 version sysAdapters
            in if length newPorts = 0 then st1
               else if dpc_Ports (devicePortConfig st1) = newPorts
                       \<and> dpc_Version (devicePortConfig st1) = version
               then st1
               else
                 (let portConfig =
                        \<lparr>dpc_Version = version, dpc_TimePriority = now, dpc_Ports = newPorts\<rparr>
                  in st1\<lparr>devicePortConfig := portConfig,
                         pubDevicePortConfig :=
                           AList.update ''zedagent'' portConfig (pubDevicePortConfig st1),
                         calls := calls st1 @ [Publish TDevicePortConfig ''zedagent'']\<rparr>)))"

section \<open>Global configuration items\<close>

fun configItemsLoop ::
  "extlib \<Rightarrow> ConfigItemValueMap \<Rightarrow> zConfigItem list \<Rightarrow> ConfigItemValueMap \<times> GlobalStatus
    \<Rightarrow> ConfigItemValueMap \<times> GlobalStatus" where
  "configItemsLoop L gc [] acc = acc"
| "configItemsLoop L gc (item # rest) (newGlobalConfig, newGlobalStatus) =
     (case ParseItem L newGlobalConfig gc (zci_Key item) (zci_Value item) of
        (newGlobalConfig1, itemValue, err) \<Rightarrow>
          configItemsLoop L gc rest
            (newGlobalConfig1,
             AList.update (zci_Key item) \<lparr>cis_Err = err, cis_Value = itemValue\<rparr> newGlobalStatus))"

definition applyGlobalConfig :: "extlib \<Rightarrow> ConfigItemValueMap \<Rightarrow> state \<Rightarrow> state" where
  "applyGlobalConfig L newGlobalConfig st =
     (let oldGlobalConfig = globalConfig st;
          st1 = st\<lparr>globalConfig := newGlobalConfig\<rparr>;
          oldConfigInterval = GlobalValueInt L (ConfigInterval L) oldGlobalConfig;
          newConfigInterval = GlobalValueInt L (ConfigInterval L) newGlobalConfig;
          oldMetricInterval = GlobalValueInt L (MetricInterval L) oldGlobalConfig;
          newMetricInterval = GlobalValueInt L (MetricInterval L) newGlobalConfig;
          oldSSHAuthorizedKeys = GlobalValueString L (SSHAuthorizedKeys L) oldGlobalConfig;
          newSSHAuthorizedKeys = GlobalValueString L (SSHAuthorizedKeys L) newGlobalConfig;
          st2 = (if newConfigInterval \<noteq> oldConfigInterval
                 then st1\<lparr>calls := calls st1 @ [UpdateConfigTimer newConfigInterval]\<rparr> else st1);
          st3 = (if newMetricInterval \<noteq> oldMetricInterval
                 then st2\<lparr>calls := calls st2 @ [UpdateMetricsTimer newMetricInterval]\<rparr> else st2);
          st4 = (if newSSHAuthorizedKeys \<noteq> oldSSHAuthorizedKeys
                 then st3\<lparr>calls := calls st3 @ [UpdateSshAuthorizedKeys newSSHAuthorizedKeys]\<rparr>
                 else st3)
      in st4\<lparr>pubGlobalConfig := AList.update ''global'' (globalConfig st4) (pubGlobalConfig st4),
             calls := calls st4 @ [Publish TGlobalConfig ''global'', TriggerPublishDevInfo]\<rparr>)"

definition parseConfigItems :: "extlib \<Rightarrow> zEdgeDevConfig \<Rightarrow> state \<Rightarrow> state" where
  "parseConfigItems L config st =
     (let items = cfg_ConfigItems config;
          configHash = elementsSha L (map MConfigItem items);
          same = (configHash = itemsPrevConfigHash st);
          st1 = st\<lparr>itemsPrevConfigHash := configHash\<rparr>
      in if same then st1
         else
           (case configItemsLoop L (globalConfig st1) items
                   (SetGlobalValueBool L (UsbAccess L) False (DefaultConfigItemValueMap L), []) of
              (newGlobalConfig, newGlobalStatus) \<Rightarrow>
                (let st2 = st1\<lparr>globalStatus := newGlobalStatus\<rparr>
                 in if \<not> cmp_Equal_GlobalConfig L (globalConfig st2) newGlobalConfig
                    then applyGlobalConfig L newGlobalConfig st2
                    else st2)))"

section \<open>Orchestrator\<close>

text \<open>
  \<^verbatim>\<open>parseConfig\<close> without the cipher contexts, which are parsed in another file. A
  panic of a stage ends the run.
\<close>

definition thenStage :: "outcome \<Rightarrow> (state \<Rightarrow> outcome) \<Rightarrow> outcome" where
  "thenStage r f = (case r of Returns st \<Rightarrow> f st | Panics st \<Rightarrow> Panics st)"

definition parseConfig :: "extlib \<Rightarrow> Time \<Rightarrow> zEdgeDevConfig \<Rightarrow> state \<Rightarrow> bool \<times> outcome" where
  "parseConfig L now config st =
     (case parseOpCmds L config st of
        (True, st1) \<Rightarrow> (True, Returns st1)
      | (False, st1) \<Rightarrow>
          (let st2 = parseConfigItems L config st1
           in if rebootFlag st2 \<or> deviceReboot st2 then (False, Returns st2)
              else
                (let st3 = parseDatastoreConfig L config st2
                 in case parseDeviceIoListConfig L config st3 of
                      (physioChanged, st4) \<Rightarrow>
                        (case parseNetworkXObjectConfig L now config st4 of
                           (networksChanged, st5) \<Rightarrow>
                             (let st6 = parseSystemAdapterConfig L now config
                                          (physioChanged \<or> networksChanged) st5
                              in (False,
                                  thenStage (thenStage (parseBaseOsConfig L config st6)
                                    (parseNetworkInstanceConfig L config))
                                    (parseAppInstanceConfig L config)))))))"

section \<open>A concrete library and the initial state\<close>

text \<open>
  For running the model on examples: an encoder that prints the identifying fields of a
  message, the identity as digest, parsers that accept every non-empty text, and the
  state of a process that has just started (nil digests, empty stores, no reboot file).
\<close>

definition plainMarshal :: "msg \<Rightarrow> bytes" where
  "plainMarshal m =
     (case m of
        MBaseOs b \<Rightarrow> ''B:'' @ zuv_Uuid (bos_Uuidandversion b) @ ''/'' @ bos_BaseOSVersion b @ '';''
      | MNetwork n \<Rightarrow> ''N:'' @ znet_Id n @ '';''
      | MNetworkInstance n \<Rightarrow> ''I:'' @ zuv_Uuid (zni_Uuidandversion n) @ '';''
      | MApp a \<Rightarrow> ''A:'' @ zuv_Uuid (zapp_Uuidandversion a) @ '';''
      | MSystemAdapter a \<Rightarrow> ''S:'' @ zsa_Name a @ '';''
      | MPhysicalIO io \<Rightarrow> (case io of None \<Rightarrow> ''null'' | Some p \<Rightarrow> ''P:'' @ zio_Phylabel p @ '';'')
      | MDatastore d \<Rightarrow> ''D:'' @ zds_Id d @ '';''
      | MConfigItem c \<Rightarrow> ''C:'' @ zci_Key c @ ''='' @ zci_Value c @ '';''
      | MDeviceOpsCmd c \<Rightarrow>
          ''O:'' @ replicate (unat (Counter c)) (CHR ''+'') @ DesiredState c @ ''@'' @ OpsTime c)"

definition plainLib :: extlib where
  "plainLib =
     \<lparr>json_Marshal = plainMarshal,
      sha256_Sum = (\<lambda>b. b),
      uuid_FromString = (\<lambda>s. if s = [] then Inl ''uuid: incorrect UUID length'' else Inr s),
      net_ParseIP = (\<lambda>s. if s = [] then None else Some s),
      IP_To4 = Some,
      net_ParseMAC = (\<lambda>s. if s = [] then Inl ''invalid MAC address'' else Inr s),
      net_ParseCIDR = (\<lambda>s. if s = [] then Inl ''invalid CIDR address''
                            else Inr \<lparr>ipnet_IP = Some s, ipnet_Mask = []\<rparr>),
      IPNet_String = (\<lambda>n. case ipnet_IP n of None \<Rightarrow> ''<nil>'' | Some a \<Rightarrow> a),
      strings_ToLower = (\<lambda>s. s),
      IoType_IsNet = (\<lambda>t. t = 1),
      parseCipherBlock = (\<lambda>key cipherData. []),
      DhcpType_zero = DT_Other 0,
      OsParamsLen = 2,
      DefaultConfigItemValueMap = [],
      UsbAccess = ''debug.enable.usb'',
      ConfigInterval = ''timer.config.interval'',
      MetricInterval = ''timer.metric.interval'',
      SSHAuthorizedKeys = ''debug.enable.ssh'',
      SetGlobalValueBool = (\<lambda>k b m. AList.update k (if b then ''true'' else ''false'') m),
      GlobalValueInt = (\<lambda>k m. case map_of m k of None \<Rightarrow> 0 | Some v \<Rightarrow> length v),
      GlobalValueString = (\<lambda>k m. case map_of m k of None \<Rightarrow> [] | Some v \<Rightarrow> v),
      ParseItem = (\<lambda>new old k v. (AList.update k v new, v, None)),
      cmp_Equal_GlobalConfig = (\<lambda>a b. a = b)\<rparr>"

definition initState :: state where
  "initState =
     \<lparr>baseosPrevConfigHash = [], networkConfigPrevConfigHash = [],
      networkInstancePrevConfigHash = [], appinstancePrevConfigHash = [],
      systemAdaptersPrevConfigHash = [], deviceIoListPrevConfigHash = [],
      datastoreConfigPrevConfigHash = [], itemsPrevConfigHash = [],
      rebootPrevConfigHash = [], backupPrevConfigHash = [], rebootPrevReturn = False,
      pubBaseOsConfig = [], pubCertObjConfig = [], pubNetworkXObjectConfig = [],
      pubNetworkInstanceConfig = [], pubAppInstanceConfig = [], pubDatastoreConfig = [],
      pubDevicePortConfig = [], pubPhysicalIOAdapters = [], pubGlobalConfig = [],
      devicePortConfig = \<lparr>dpc_Version = DPCInitial, dpc_TimePriority = 0, dpc_Ports = []\<rparr>,
      updateInprogress = False, rebootFlag = False, physicalIoAdapterMap = [],
      globalConfig = [], globalStatus = [], rebootCmd = False, deviceReboot = False,
      rebootCmdDeferred = False, rebootConfigCounter = 0, currentRebootReason = [],
      rebootConfigFile = None, calls = []\<rparr>"

section \<open>Definitions for the statements and example data\<close>

text \<open>What one shutdown sweep publishes and what it leaves in the app instance store.\<close>

definition sweepCalls :: "(string \<times> AppInstanceConfig) list \<Rightarrow> call list" where
  "sweepCalls items =
     map (\<lambda>(k, c). Publish TAppInstanceConfig (AppInstanceConfig_Key c))
       (filter (\<lambda>(k, c). app_Activate c) items)"

fun sweepStore ::
  "(string \<times> AppInstanceConfig) list \<Rightarrow> (string \<times> AppInstanceConfig) list
    \<Rightarrow> (string \<times> AppInstanceConfig) list" where
  "sweepStore [] pub = pub"
| "sweepStore ((k, c) # items) pub =
     sweepStore items
       (if app_Activate c then AList.update (AppInstanceConfig_Key c) (c\<lparr>app_Activate := False\<rparr>) pub
        else pub)"

text \<open>A command with a new digest and a new counter, with no inhibitor and no reboot
  command in progress: one write, one sweep, the status publication, and the result
  \<open>True\<close>.\<close>

definition rebootedState :: "extlib \<Rightarrow> DeviceOpsCmd \<Rightarrow> state \<Rightarrow> state" where
  "rebootedState L r st =
     st\<lparr>rebootPrevConfigHash := computeConfigSha L (MDeviceOpsCmd r),
        rebootPrevReturn := True,
        rebootConfigFile := Some r,
        rebootConfigCounter := Counter r,
        rebootCmd := True,
        currentRebootReason := ''NORMAL: handleReboot rebooting'',
        pubAppInstanceConfig := sweepStore (pubAppInstanceConfig st) (pubAppInstanceConfig st),
        calls := calls st @ [WriteRename r, ShutdownApps] @ sweepCalls (pubAppInstanceConfig st)
                   @ [PublishZedAgentStatus]\<rparr>"

definition isWriteRename :: "call \<Rightarrow> bool" where
  "isWriteRename c = (case c of WriteRename r \<Rightarrow> True | _ \<Rightarrow> False)"

text \<open>Example data: a device whose reboot file holds counter 0 and that runs one
  active app instance, and the reboot commands with counters 5 and 6.\<close>

definition exampleApp :: AppInstanceConfig where
  "exampleApp =
     \<lparr>app_UUIDandVersion = \<lparr>UUID = ''app-1'', Version = ''1''\<rparr>,
      app_DisplayName = ''app'', app_ConfigSha256 = [],
      app_FixedResources =
        \<lparr>zvm_Kernel = [], zvm_Ramdisk = [], zvm_Memory = 0, zvm_Maxmem = 0, zvm_Vcpus = 1,
         zvm_Rootdev = [], zvm_Bootloader = [], zvm_VirtualizationMode = 0,
         zvm_EnableVnc = False, zvm_VncDisplay = 0, zvm_VncPasswd = []\<rparr>,
      app_StorageConfigList = [], app_Activate = True, app_OverlayNetworkList = [],
      app_UnderlayNetworkList = [], app_IoAdapterList = [], app_RestartCmd = None,
      app_PurgeCmd = None, app_CloudInitUserData = None, app_RemoteConsole = False,
      app_CipherBlockStatus = [], app_Errors = []\<rparr>"

definition runningState :: state where
  "runningState =
     initState\<lparr>rebootConfigFile := Some \<lparr>Counter = 0, DesiredState = [], OpsTime = []\<rparr>,
               pubAppInstanceConfig := [(''app-1'', exampleApp)]\<rparr>"

definition reboot5 :: DeviceOpsCmd where
  "reboot5 = \<lparr>Counter = 5, DesiredState = ''reboot'', OpsTime = ''t1''\<rparr>"

definition reboot6 :: DeviceOpsCmd where
  "reboot6 = \<lparr>Counter = 6, DesiredState = ''reboot'', OpsTime = ''t1''\<rparr>"

text \<open>Unpublishing a list of keys from a store, and what the lookup gives afterwards.\<close>

definition deleteKeys :: "string list \<Rightarrow> (string \<times> 'v) list \<Rightarrow> (string \<times> 'v) list" where
  "deleteKeys keys pub = foldl (\<lambda>s k. AList.delete k s) pub keys"

text \<open>The published network instances that the snapshot no longer lists.\<close>

definition deletedNetworkInstances ::
  "zNetworkInstanceConfig list \<Rightarrow> (string \<times> NetworkInstanceConfig) list \<Rightarrow> string list" where
  "deletedNetworkInstances networkInstances currentEntries =
     filter (\<lambda>key. lookupNetworkInstanceById key networkInstances = None) (map fst currentEntries)"

text \<open>Example data: a store with two network instances and a snapshot with two VPN
  instances, one of them published before.\<close>

definition vpnInstance :: "string \<Rightarrow> zNetworkInstanceConfig" where
  "vpnInstance u =
     \<lparr>zni_Uuidandversion = \<lparr>zuv_Uuid = u, zuv_Version = ''1''\<rparr>,
      zni_Displayname = ''vpn'', zni_InstType = NetworkInstanceTypeCloud, zni_Activate = True,
      zni_Port = None,
      zni_Cfg = Some \<lparr>zo_Oconfig = ''strongswan'', zo_LispConfig = None, zo_Type = ZNetOConfigVPN\<rparr>,
      zni_IpType = AddressTypeIPV4, zni_Ip = None, zni_Dns = []\<rparr>"


text \<open>Example data: a device that has published one entity of each kind, with
  certificate bundles for the base OS and the app instance, and a snapshot that lists
  no entity.\<close>

definition exampleCert :: "UUID \<Rightarrow> CertObjConfig" where
  "exampleCert u =
     \<lparr>cert_UUIDandVersion = \<lparr>UUID = u, Version = ''1''\<rparr>, cert_ConfigSha256 = [],
      cert_StorageConfigList = [getCertObjConfig StorageConfig_zero ''http://certs/signer'']\<rparr>"

definition exampleBaseOs :: BaseOsConfig where
  "exampleBaseOs =
     \<lparr>bo_UUIDandVersion = \<lparr>UUID = ''os-1'', Version = ''1''\<rparr>, bo_BaseOsVersion = ''v1'',
      bo_ConfigSha256 = [], bo_OsParams = [], bo_StorageConfigList = [], bo_Activate = True\<rparr>"

definition exampleDatastore :: DatastoreConfig where
  "exampleDatastore =
     \<lparr>ds_UUID = ''ds-1'', ds_DsType = ''DsHttp'', ds_Fqdn = ''example.org'', ds_ApiKey = [],
      ds_Password = [], ds_Dpath = [], ds_Region = ''us-west-2'', ds_CipherBlockStatus = []\<rparr>"

definition populatedState :: state where
  "populatedState =
     initState
       \<lparr>baseosPrevConfigHash := ''B:os-1/v1;'',
        networkConfigPrevConfigHash := ''N:net-1;'',
        networkInstancePrevConfigHash := ''I:ni-old;'',
        appinstancePrevConfigHash := ''A:app-1;'',
        datastoreConfigPrevConfigHash := ''D:ds-1;'',
        pubBaseOsConfig := [(''os-1'', exampleBaseOs)],
        pubCertObjConfig := [(''os-1'', exampleCert ''os-1''), (''app-1'', exampleCert ''app-1'')],
        pubNetworkXObjectConfig := [(''net-1'', (NetworkXObjectConfig_zero plainLib)\<lparr>nx_UUID := ''net-1''\<rparr>)],
        pubNetworkInstanceConfig :=
          [(''ni-old'', NetworkInstanceConfig_new ''ni-old'' (vpnInstance ''ni-old''))],
        pubAppInstanceConfig := [(''app-1'', exampleApp)],
        pubDatastoreConfig := [(''ds-1'', exampleDatastore)]\<rparr>"

definition emptySnapshot :: zEdgeDevConfig where
  "emptySnapshot =
     \<lparr>cfg_Base = [], cfg_Networks = [], cfg_NetworkInstances = [], cfg_Apps = [],
      cfg_SystemAdapterList = [], cfg_DeviceIoList = [], cfg_Datastores = [],
      cfg_ConfigItems = [], cfg_Reboot = None, cfg_Backup = None\<rparr>"

text \<open>What the two translators return for an interface whose network instance is not
  in the snapshot: the zero entity with the name and the lookup error.\<close>

definition underlayLookupFailure :: "zAppInstanceConfig \<Rightarrow> zNetworkAdapter \<Rightarrow> UnderlayNetworkConfig" where
  "underlayLookupFailure cfgApp intfEnt =
     UnderlayNetworkConfig_zero
       \<lparr>ul_Name := zna_Name intfEnt,
        ul_Error := Some (CantFindNetworkInstance (zapp_Displayname cfgApp)
           (zuv_Uuid (zapp_Uuidandversion cfgApp)) (zna_NetworkId intfEnt))\<rparr>"

definition overlayLookupFailure :: "zAppInstanceConfig \<Rightarrow> zNetworkAdapter \<Rightarrow> EIDOverlayConfig" where
  "overlayLookupFailure cfgApp intfEnt =
     EIDOverlayConfig_zero
       \<lparr>ol_Name := zna_Name intfEnt,
        ol_Error := Some (CantFindNetworkInstance (zapp_Displayname cfgApp)
           (zuv_Uuid (zapp_Uuidandversion cfgApp)) (zna_NetworkId intfEnt))\<rparr>"

text \<open>Example data: an app instance with one interface, and network-instance lists
  with a switch instance, a mesh instance, or nothing under the referenced UUID.\<close>

definition exampleInterface :: "string \<Rightarrow> string \<Rightarrow> 32 word \<Rightarrow> zNetworkAdapter" where
  "exampleInterface name networkId aclId =
     \<lparr>zna_Name = name, zna_NetworkId = networkId, zna_Addr = [], zna_MacAddress = [],
      zna_CryptoEid = [],
      zna_Acls = [\<lparr>zace_Matches = [], zace_Actions = [], zace_Name = [], zace_Id = aclId,
                   zace_Dir = 0\<rparr>],
      zna_Lispsignature = [], zna_Pemcert = [], zna_Pemprivatekey = []\<rparr>"

definition exampleCfgApp :: "zNetworkAdapter list \<Rightarrow> zAppInstanceConfig" where
  "exampleCfgApp interfaces =
     \<lparr>zapp_Uuidandversion = \<lparr>zuv_Uuid = ''app-1'', zuv_Version = ''1''\<rparr>,
      zapp_Displayname = ''app'',
      zapp_Fixedresources = app_FixedResources exampleApp,
      zapp_Drives = [], zapp_Activate = True, zapp_Interfaces = interfaces,
      zapp_Adapters = [], zapp_Restart = None, zapp_Purge = None, zapp_UserData = [],
      zapp_RemoteConsole = False, zapp_CipherData = None\<rparr>"

definition exampleInstance :: "string \<Rightarrow> NetworkInstanceType \<Rightarrow> zNetworkInstanceConfig" where
  "exampleInstance u t =
     \<lparr>zni_Uuidandversion = \<lparr>zuv_Uuid = u, zuv_Version = ''1''\<rparr>,
      zni_Displayname = ''ni'', zni_InstType = t, zni_Activate = True, zni_Port = None,
      zni_Cfg = None, zni_IpType = AddressTypeIPV4, zni_Ip = None, zni_Dns = []\<rparr>"




text \<open>Example data: the snapshot that the example device has processed, with one
  element for each of five sub-domains.\<close>

definition exampleSnapshot :: zEdgeDevConfig where
  "exampleSnapshot =
     emptySnapshot
       \<lparr>cfg_Base := [\<lparr>bos_Uuidandversion = \<lparr>zuv_Uuid = ''os-1'', zuv_Version = ''1''\<rparr>,
                       bos_Drives = [], bos_Activate = True, bos_BaseOSVersion = ''v1'',
                       bos_BaseOSParams = []\<rparr>],
        cfg_Networks := [\<lparr>znet_Id = ''net-1'', znet_Type = NT_NOOP, znet_Ip = None, znet_Dns = [],
                           znet_EntProxy = None, znet_Wireless = None\<rparr>],
        cfg_NetworkInstances := [vpnInstance ''ni-old''],
        cfg_Apps := [exampleCfgApp []],
        cfg_Datastores := [\<lparr>zds_Id = ''ds-1'', zds_DType = ''DsHttp'', zds_Fqdn = ''example.org'',
                             zds_ApiKey = [], zds_Password = [], zds_Dpath = [], zds_Region = [],
                             zds_CipherData = None\<rparr>]\<rparr>"

text \<open>The failures that depend on the DHCP mode of the port.\<close>

definition isDhcpFailure :: "PortFailure \<Rightarrow> bool" where
  "isDhcpFailure f =
     (case f of
        StaticMissingSubnet ifName name addr \<Rightarrow> True
      | MgmtDhcpNone ifName \<Rightarrow> True
      | UnknownDhcpType ifName dhcp \<Rightarrow> True
      | _ \<Rightarrow> False)"

definition dhcpFailures :: "NetworkPortConfig \<Rightarrow> (PortFailure \<times> Time) list" where
  "dhcpFailures port = filter (\<lambda>(f, t). isDhcpFailure f) (port_Failures port)"

text \<open>What the DHCP validation records for a port, by its mode.\<close>

definition expectedDhcpFailures ::
  "Time \<Rightarrow> zSystemAdapter \<Rightarrow> NetworkPortConfig \<Rightarrow> (PortFailure \<times> Time) list" where
  "expectedDhcpFailures now sysAdapter port =
     (case port_Dhcp port of
        DT_STATIC \<Rightarrow>
          if port_AddrSubnet port = []
          then [(StaticMissingSubnet (port_IfName port) (zsa_Name sysAdapter) (zsa_Addr sysAdapter),
                 now)]
          else []
      | DT_CLIENT \<Rightarrow> []
      | DT_NONE \<Rightarrow> if port_IsMgmt port then [(MgmtDhcpNone (port_IfName port), now)] else []
      | DT_Other n \<Rightarrow> [(UnknownDhcpType (port_IfName port) (DT_Other n), now)])"

text \<open>Example data: a device with one network port and four network objects, one for
  each DHCP mode, and an adapter on that port that refers to a given network.\<close>

definition exampleNetwork :: "string \<Rightarrow> DhcpType \<Rightarrow> string \<times> NetworkXObjectConfig" where
  "exampleNetwork u d = (u, (NetworkXObjectConfig_zero plainLib)\<lparr>nx_UUID := u, nx_Dhcp := d\<rparr>)"

definition examplePhyio :: "string \<Rightarrow> nat \<Rightarrow> string \<times> PhysicalIOAdapter" where
  "examplePhyio label ptype =
     (label, \<lparr>pio_Ptype = ptype, pio_Phylabel = label,
              pio_Phyaddr = PhysicalAddress_zero\<lparr>pa_Ifname := label\<rparr>,
              pio_Logicallabel = label, pio_Assigngrp = [], pio_Usage = 0,
              pio_FreeUplink = False\<rparr>)"

definition adapterState :: state where
  "adapterState =
     initState
       \<lparr>physicalIoAdapterMap := [examplePhyio ''eth0'' 1, examplePhyio ''usb0'' 4],
        pubNetworkXObjectConfig :=
          [exampleNetwork ''net-static'' DT_STATIC, exampleNetwork ''net-client'' DT_CLIENT,
           exampleNetwork ''net-none'' DT_NONE, exampleNetwork ''net-odd'' (DT_Other 7)]\<rparr>"

definition exampleAdapter :: "string \<Rightarrow> string \<Rightarrow> bool \<Rightarrow> zSystemAdapter" where
  "exampleAdapter name networkUUID uplink =
     \<lparr>zsa_Name = name, zsa_FreeUplink = False, zsa_Uplink = uplink,
      zsa_NetworkUUID = networkUUID, zsa_Addr = [], zsa_Alias = [], zsa_LowerLayerName = []\<rparr>"

text \<open>The version and the port list that a parse of the system adapters computes.\<close>

definition newVersion :: "zEdgeDevConfig \<Rightarrow> DevicePortConfigVersion" where
  "newVersion config = adaptersVersion (cfg_SystemAdapterList config)"

definition newPorts :: "extlib \<Rightarrow> Time \<Rightarrow> zEdgeDevConfig \<Rightarrow> state \<Rightarrow> NetworkPortConfig list" where
  "newPorts L now config st =
     systemAdapterPorts L now st (newVersion config) (cfg_SystemAdapterList config)"

text \<open>Example data: snapshots with the adapter of the network port and with the adapter
  of a port that is not a network port.\<close>

definition adapterSnapshot :: "zSystemAdapter list \<Rightarrow> zEdgeDevConfig" where
  "adapterSnapshot sysAdapters = emptySnapshot\<lparr>cfg_SystemAdapterList := sysAdapters\<rparr>"

section \<open>The reboot command\<close>

lemma shutdownAppsLoop_eq:
  "shutdownAppsLoop items st =
     st\<lparr>pubAppInstanceConfig := sweepStore items (pubAppInstanceConfig st),
        calls := calls st @ sweepCalls items\<rparr>"
proof (induction items arbitrary: st)
  case Nil
  show ?case by (simp add: sweepCalls_def)
next
  case (Cons a items)
  obtain k c where a: "a = (k, c)" by (cases a)
  show ?case
    by (simp add: a Cons.IH sweepCalls_def publishAppInstanceConfigKey_def)
qed

lemma shutdownApps_eq:
  "shutdownApps st =
     st\<lparr>pubAppInstanceConfig := sweepStore (pubAppInstanceConfig st) (pubAppInstanceConfig st),
        calls := calls st @ ShutdownApps # sweepCalls (pubAppInstanceConfig st)\<rparr>"
  by (simp add: shutdownApps_def shutdownAppsLoop_eq)

lemma scheduleReboot_same:
  assumes "computeConfigSha L (MDeviceOpsCmd r) = rebootPrevConfigHash st"
  shows "scheduleReboot L (Some r) st = (rebootPrevReturn st, st)"
  using assms by (simp add: scheduleReboot_def Let_def)

lemma scheduleReboot_fresh:
  assumes "computeConfigSha L (MDeviceOpsCmd r) \<noteq> rebootPrevConfigHash st"
    and "rebootConfigFile st = Some f" and "Counter f \<noteq> Counter r"
    and "\<not> rebootCmd st" and "\<not> deviceReboot st" and "\<not> updateInprogress st"
  shows "scheduleReboot L (Some r) st = (True, rebootedState L r st)"
  using assms
  by (simp add: scheduleReboot_def Let_def readRebootConfig_def saveRebootConfig_def
      handleRebootCmd_def shutdownApps_eq publishZedAgentStatus_def rebootedState_def)

text \<open>A further command with a new digest and counter, once a reboot command is in
  progress: the record is persisted again and nothing else happens.\<close>

lemma scheduleReboot_again:
  assumes "computeConfigSha L (MDeviceOpsCmd r) \<noteq> rebootPrevConfigHash st"
    and "rebootConfigFile st = Some f" and "Counter f \<noteq> Counter r"
    and "rebootCmd st" and "\<not> deviceReboot st" and "\<not> updateInprogress st"
  shows "scheduleReboot L (Some r) st =
     (True, st\<lparr>rebootPrevConfigHash := computeConfigSha L (MDeviceOpsCmd r),
                rebootPrevReturn := True,
                rebootConfigFile := Some r,
                rebootConfigCounter := Counter r,
                calls := calls st @ [WriteRename r]\<rparr>)"
  using assms
  by (simp add: scheduleReboot_def Let_def readRebootConfig_def saveRebootConfig_def
      handleRebootCmd_def)

lemma isWriteRename_sweepCalls: "filter isWriteRename (sweepCalls items) = []"
  by (induction items) (auto simp: sweepCalls_def isWriteRename_def)

lemma count_ShutdownApps_sweepCalls: "count_list (sweepCalls items) ShutdownApps = 0"
  by (induction items) (auto simp: sweepCalls_def)

text \<open>
  C9. Without a reboot command in the snapshot, \<open>scheduleReboot\<close> removes the
  persisted reboot file and returns \<open>False\<close>; the stored digest and the stored previous
  return value stay as they were, so a command delivered next whose digest equals the
  digest stored before is treated as a repetition: it returns the stored value and
  changes nothing more.
\<close>

theorem scheduleReboot_nil_keeps_memo:
  "scheduleReboot L None st
     = (False, st\<lparr>rebootConfigFile := None, calls := calls st @ [Remove]\<rparr>)
   \<and> rebootConfigFile (snd (scheduleReboot L None st)) = None
   \<and> rebootPrevConfigHash (snd (scheduleReboot L None st)) = rebootPrevConfigHash st
   \<and> rebootPrevReturn (snd (scheduleReboot L None st)) = rebootPrevReturn st
   \<and> (computeConfigSha L (MDeviceOpsCmd r) = rebootPrevConfigHash st \<longrightarrow>
        scheduleReboot L (Some r) (snd (scheduleReboot L None st))
          = (rebootPrevReturn st, snd (scheduleReboot L None st)))"
proof -
  have nil: "scheduleReboot L None st
      = (False, st\<lparr>rebootConfigFile := None, calls := calls st @ [Remove]\<rparr>)"
    by (simp add: scheduleReboot_def)
  have "computeConfigSha L (MDeviceOpsCmd r) = rebootPrevConfigHash st \<Longrightarrow>
        scheduleReboot L (Some r) (st\<lparr>rebootConfigFile := None, calls := calls st @ [Remove]\<rparr>)
          = (rebootPrevReturn st, st\<lparr>rebootConfigFile := None, calls := calls st @ [Remove]\<rparr>)"
    using scheduleReboot_same [of L r "st\<lparr>rebootConfigFile := None, calls := calls st @ [Remove]\<rparr>"]
    by simp
  then show ?thesis by (simp add: nil)
qed

theorem scheduleReboot_nil_keeps_memo_witness:
  "computeConfigSha plainLib (MDeviceOpsCmd reboot5)
     = rebootPrevConfigHash (rebootedState plainLib reboot5 runningState)
   \<and> scheduleReboot plainLib None (rebootedState plainLib reboot5 runningState)
     = (False, (rebootedState plainLib reboot5 runningState)
          \<lparr>rebootConfigFile := None,
           calls := calls (rebootedState plainLib reboot5 runningState) @ [Remove]\<rparr>)
   \<and> scheduleReboot plainLib (Some reboot5)
        (snd (scheduleReboot plainLib None (rebootedState plainLib reboot5 runningState)))
     = (True, snd (scheduleReboot plainLib None (rebootedState plainLib reboot5 runningState)))"
proof -
  let ?st = "rebootedState plainLib reboot5 runningState"
  have h: "computeConfigSha plainLib (MDeviceOpsCmd reboot5) = rebootPrevConfigHash ?st"
    by (simp add: rebootedState_def)
  have m: "rebootPrevReturn ?st = True"
    by (simp add: rebootedState_def)
  note t = scheduleReboot_nil_keeps_memo [of plainLib ?st reboot5]
  from t have a: "scheduleReboot plainLib None ?st
      = (False, ?st\<lparr>rebootConfigFile := None, calls := calls ?st @ [Remove]\<rparr>)"
    by blast
  from t h have b: "scheduleReboot plainLib (Some reboot5) (snd (scheduleReboot plainLib None ?st))
      = (rebootPrevReturn ?st, snd (scheduleReboot plainLib None ?st))"
    by blast
  show ?thesis
    using h a b m by simp
qed

text \<open>
  C1 (as amended). On a device whose persisted reboot record has another counter, with
  no reboot in progress and no inhibitor, and a command \<open>r\<close> whose digest differs from
  the stored one: the first delivery of \<open>r\<close> writes the record once and runs one
  shutdown sweep (one publication with Activate cleared for every active published app
  instance); the second delivery of \<open>r\<close> changes nothing and returns the same value. A
  later command \<open>r'\<close> with another counter and digest writes the record a second time,
  returns \<open>True\<close>, and runs no sweep, because the reboot command is already in progress.
\<close>

theorem reboot_dedup_scenario:
  assumes "computeConfigSha L (MDeviceOpsCmd r) \<noteq> rebootPrevConfigHash st"
    and "rebootConfigFile st = Some f" and "Counter f \<noteq> Counter r"
    and "\<not> rebootCmd st" and "\<not> deviceReboot st" and "\<not> updateInprogress st"
    and "computeConfigSha L (MDeviceOpsCmd r') \<noteq> computeConfigSha L (MDeviceOpsCmd r)"
    and "Counter r' \<noteq> Counter r"
  shows "scheduleReboot L (Some r) st = (True, rebootedState L r st)
    \<and> scheduleReboot L (Some r) (rebootedState L r st) = (True, rebootedState L r st)
    \<and> count_list (calls (rebootedState L r st)) ShutdownApps
        = count_list (calls st) ShutdownApps + 1
    \<and> length (filter isWriteRename (calls (rebootedState L r st)))
        = length (filter isWriteRename (calls st)) + 1
    \<and> fst (scheduleReboot L (Some r') (rebootedState L r st)) = True
    \<and> calls (snd (scheduleReboot L (Some r') (rebootedState L r st)))
        = calls (rebootedState L r st) @ [WriteRename r']
    \<and> pubAppInstanceConfig (snd (scheduleReboot L (Some r') (rebootedState L r st)))
        = pubAppInstanceConfig (rebootedState L r st)
    \<and> count_list (calls (snd (scheduleReboot L (Some r') (rebootedState L r st)))) ShutdownApps
        = count_list (calls st) ShutdownApps + 1"
proof -
  let ?st2 = "rebootedState L r st"
  have first: "scheduleReboot L (Some r) st = (True, ?st2)"
    using assms(1-6) by (rule scheduleReboot_fresh)
  have second: "scheduleReboot L (Some r) ?st2 = (True, ?st2)"
    using scheduleReboot_same [of L r ?st2] by (simp add: rebootedState_def)
  have sweeps: "count_list (calls ?st2) ShutdownApps = count_list (calls st) ShutdownApps + 1"
    by (simp add: rebootedState_def count_ShutdownApps_sweepCalls)
  have writes: "length (filter isWriteRename (calls ?st2))
      = length (filter isWriteRename (calls st)) + 1"
    by (simp add: rebootedState_def isWriteRename_sweepCalls isWriteRename_def)
  have third: "scheduleReboot L (Some r') ?st2 =
      (True, ?st2\<lparr>rebootPrevConfigHash := computeConfigSha L (MDeviceOpsCmd r'),
                  rebootPrevReturn := True,
                  rebootConfigFile := Some r',
                  rebootConfigCounter := Counter r',
                  calls := calls ?st2 @ [WriteRename r']\<rparr>)"
  proof (rule scheduleReboot_again)
    show "computeConfigSha L (MDeviceOpsCmd r') \<noteq> rebootPrevConfigHash ?st2"
      using assms(7) by (simp add: rebootedState_def)
    show "rebootConfigFile ?st2 = Some r" by (simp add: rebootedState_def)
    show "Counter r \<noteq> Counter r'" using assms(8) by simp
    show "rebootCmd ?st2" by (simp add: rebootedState_def)
    show "\<not> deviceReboot ?st2" using assms(5) by (simp add: rebootedState_def)
    show "\<not> updateInprogress ?st2" using assms(6) by (simp add: rebootedState_def)
  qed
  show ?thesis
    using first second sweeps writes by (simp add: third)
qed

lemma example_digests:
  "computeConfigSha plainLib (MDeviceOpsCmd reboot5) = ''O:+++++reboot@t1''"
  "computeConfigSha plainLib (MDeviceOpsCmd reboot6) = ''O:++++++reboot@t1''"
proof -
  have u: "unat (5 :: 32 word) = 5" "unat (6 :: 32 word) = 6"
    by simp_all
  have r: "replicate 5 (CHR ''+'') = ''+++++''" "replicate 6 (CHR ''+'') = ''++++++''"
    by (simp_all add: numeral_eq_Suc)
  show "computeConfigSha plainLib (MDeviceOpsCmd reboot5) = ''O:+++++reboot@t1''"
    by (simp add: computeConfigSha_def plainLib_def plainMarshal_def reboot5_def u r)
  show "computeConfigSha plainLib (MDeviceOpsCmd reboot6) = ''O:++++++reboot@t1''"
    by (simp add: computeConfigSha_def plainLib_def plainMarshal_def reboot6_def u r)
qed

lemma example_counters: "Counter reboot5 = 5" "Counter reboot6 = 6"
  by (simp_all add: reboot5_def reboot6_def)

theorem reboot_dedup_scenario_witness:
  "scheduleReboot plainLib (Some reboot5) runningState
     = (True, rebootedState plainLib reboot5 runningState)
   \<and> scheduleReboot plainLib (Some reboot5) (rebootedState plainLib reboot5 runningState)
     = (True, rebootedState plainLib reboot5 runningState)
   \<and> calls (rebootedState plainLib reboot5 runningState)
     = [WriteRename reboot5, ShutdownApps, Publish TAppInstanceConfig ''app-1'',
        PublishZedAgentStatus]
   \<and> calls (snd (scheduleReboot plainLib (Some reboot6)
        (rebootedState plainLib reboot5 runningState)))
     = [WriteRename reboot5, ShutdownApps, Publish TAppInstanceConfig ''app-1'',
        PublishZedAgentStatus, WriteRename reboot6]"
proof -
  have calls: "calls (rebootedState plainLib reboot5 runningState)
     = [WriteRename reboot5, ShutdownApps, Publish TAppInstanceConfig ''app-1'',
        PublishZedAgentStatus]"
    by (simp add: rebootedState_def runningState_def initState_def sweepCalls_def
        exampleApp_def AppInstanceConfig_Key_def)
  have h1: "computeConfigSha plainLib (MDeviceOpsCmd reboot5) \<noteq> rebootPrevConfigHash runningState"
    by (simp add: example_digests runningState_def initState_def)
  have h2: "rebootConfigFile runningState = Some \<lparr>Counter = 0, DesiredState = [], OpsTime = []\<rparr>"
    by (simp add: runningState_def initState_def)
  have h3: "Counter \<lparr>Counter = 0, DesiredState = [], OpsTime = []\<rparr> \<noteq> Counter reboot5"
    by (simp add: reboot5_def)
  have h4: "\<not> rebootCmd runningState" "\<not> deviceReboot runningState"
      "\<not> updateInprogress runningState"
    by (simp_all add: runningState_def initState_def)
  have h5: "computeConfigSha plainLib (MDeviceOpsCmd reboot6)
      \<noteq> computeConfigSha plainLib (MDeviceOpsCmd reboot5)"
    by (simp add: example_digests)
  have h6: "Counter reboot6 \<noteq> Counter reboot5"
    by (simp add: reboot5_def reboot6_def)
  note t = reboot_dedup_scenario [OF h1 h2 h3 h4 h5 h6]
  show ?thesis
    using t by (simp add: calls)
qed

text \<open>
  C1, as stated, fails on the code: after the command with counter 5 was delivered
  twice, the delivery of the command with counter 6 runs no second sweep. The call log
  of the three deliveries holds one sweep.
\<close>

theorem reboot_counter6_no_second_sweep:
  "count_list
     (calls (snd (scheduleReboot plainLib (Some reboot6)
        (snd (scheduleReboot plainLib (Some reboot5)
           (snd (scheduleReboot plainLib (Some reboot5) runningState)))))))
     ShutdownApps = 1"
  by (simp add: scheduleReboot_def Let_def readRebootConfig_def saveRebootConfig_def
      handleRebootCmd_def shutdownApps_eq publishZedAgentStatus_def example_digests
      example_counters runningState_def initState_def sweepCalls_def exampleApp_def)

section \<open>Retraction of entities\<close>

lemma deleteKeys_Nil: "deleteKeys [] pub = pub"
  by (simp add: deleteKeys_def)

lemma deleteKeys_Cons: "deleteKeys (k # keys) pub = deleteKeys keys (AList.delete k pub)"
  by (simp add: deleteKeys_def)


lemma unpublishDeletedLoop_eq:
  "unpublishDeletedLoop nis items st =
     st\<lparr>pubNetworkInstanceConfig :=
          deleteKeys (deletedNetworkInstances nis items) (pubNetworkInstanceConfig st),
        calls := calls st @ map (Unpublish TNetworkInstanceConfig) (deletedNetworkInstances nis items)\<rparr>"
proof (induction items arbitrary: st)
  case Nil
  show ?case by (simp add: deletedNetworkInstances_def deleteKeys_Nil)
next
  case (Cons a items)
  obtain key entry where a: "a = (key, entry)" by (cases a)
  show ?case
    by (cases "lookupNetworkInstanceById key nis")
       (simp_all add: a Cons.IH deletedNetworkInstances_def deleteKeys_Cons deleteKeys_Nil
          unpublishNI_def)
qed

lemma unpublishDeletedNetworkInstanceConfig_eq:
  "unpublishDeletedNetworkInstanceConfig nis st =
     st\<lparr>pubNetworkInstanceConfig :=
          deleteKeys (deletedNetworkInstances nis (pubNetworkInstanceConfig st))
            (pubNetworkInstanceConfig st),
        calls := calls st @ map (Unpublish TNetworkInstanceConfig)
           (deletedNetworkInstances nis (pubNetworkInstanceConfig st))\<rparr>"
  by (simp add: unpublishDeletedNetworkInstanceConfig_def unpublishDeletedLoop_eq)








section \<open>Deletion completeness\<close>


























section \<open>Underlay and overlay interfaces\<close>

lemma underlay_entry_cases:
  "parseUnderlayNetworkConfigEntry L cfgApp nis intfEnt =
     (case lookupNetworkInstanceId (zna_NetworkId intfEnt) nis of
        None \<Rightarrow> Some (underlayLookupFailure cfgApp intfEnt)
      | Some e \<Rightarrow>
          if isOverlayNetworkInstance e then None
          else parseUnderlayNetworkConfigEntry L cfgApp nis intfEnt)"
  by (simp add: parseUnderlayNetworkConfigEntry_def underlayLookupFailure_def Let_def
      split: option.splits)

lemma underlay_entry_Some:
  assumes "lookupNetworkInstanceId (zna_NetworkId intfEnt) nis = Some e"
    and "\<not> isOverlayNetworkInstance e"
  shows "parseUnderlayNetworkConfigEntry L cfgApp nis intfEnt \<noteq> None"
  using assms
  by (simp add: parseUnderlayNetworkConfigEntry_def Let_def split: sum.splits)

lemma overlay_entry_cases:
  "parseOverlayNetworkConfigEntry L cfgApp nis intfEnt =
     (case lookupNetworkInstanceId (zna_NetworkId intfEnt) nis of
        None \<Rightarrow> Some (overlayLookupFailure cfgApp intfEnt)
      | Some e \<Rightarrow>
          if \<not> isOverlayNetworkInstance e then None
          else parseOverlayNetworkConfigEntry L cfgApp nis intfEnt)"
  by (simp add: parseOverlayNetworkConfigEntry_def overlayLookupFailure_def Let_def
      split: option.splits)

lemma overlay_entry_Some:
  assumes "lookupNetworkInstanceId (zna_NetworkId intfEnt) nis = Some e"
    and "isOverlayNetworkInstance e"
  shows "parseOverlayNetworkConfigEntry L cfgApp nis intfEnt \<noteq> None"
  using assms
  by (simp add: parseOverlayNetworkConfigEntry_def Let_def split: sum.splits)

text \<open>
  C4 (as amended). For every app-interface definition: when its referenced network
  instance is in the snapshot and is of mesh type, the underlay translator returns
  nothing and the overlay translator returns an entity; when it is in the snapshot and
  is not of mesh type, the underlay translator returns an entity and the overlay
  translator returns nothing; when it is not in the snapshot, the underlay translator
  returns one underlay-shaped entity that carries only the name and the lookup error,
  and the overlay translator returns one overlay-shaped entity that carries only the
  name and the same lookup error.
\<close>

theorem interface_routing:
  "(\<forall>e. lookupNetworkInstanceId (zna_NetworkId intfEnt) nis = Some e
          \<and> isOverlayNetworkInstance e \<longrightarrow>
        parseUnderlayNetworkConfigEntry L cfgApp nis intfEnt = None
        \<and> parseOverlayNetworkConfigEntry L cfgApp nis intfEnt \<noteq> None)
   \<and> (\<forall>e. lookupNetworkInstanceId (zna_NetworkId intfEnt) nis = Some e
          \<and> \<not> isOverlayNetworkInstance e \<longrightarrow>
        parseUnderlayNetworkConfigEntry L cfgApp nis intfEnt \<noteq> None
        \<and> parseOverlayNetworkConfigEntry L cfgApp nis intfEnt = None)
   \<and> (lookupNetworkInstanceId (zna_NetworkId intfEnt) nis = None \<longrightarrow>
        parseUnderlayNetworkConfigEntry L cfgApp nis intfEnt
          = Some (underlayLookupFailure cfgApp intfEnt)
        \<and> parseOverlayNetworkConfigEntry L cfgApp nis intfEnt
          = Some (overlayLookupFailure cfgApp intfEnt))"
proof (intro conjI allI impI; (elim conjE)?)
  fix e
  assume f: "lookupNetworkInstanceId (zna_NetworkId intfEnt) nis = Some e"
    and m: "isOverlayNetworkInstance e"
  show "parseUnderlayNetworkConfigEntry L cfgApp nis intfEnt = None"
    using f m by (simp add: underlay_entry_cases [of L cfgApp nis intfEnt])
  show "parseOverlayNetworkConfigEntry L cfgApp nis intfEnt \<noteq> None"
    using f m by (rule overlay_entry_Some)
next
  fix e
  assume f: "lookupNetworkInstanceId (zna_NetworkId intfEnt) nis = Some e"
    and m: "\<not> isOverlayNetworkInstance e"
  show "parseUnderlayNetworkConfigEntry L cfgApp nis intfEnt \<noteq> None"
    using f m by (rule underlay_entry_Some)
  show "parseOverlayNetworkConfigEntry L cfgApp nis intfEnt = None"
    using f m by (simp add: overlay_entry_cases [of L cfgApp nis intfEnt])
next
  assume f: "lookupNetworkInstanceId (zna_NetworkId intfEnt) nis = None"
  show "parseUnderlayNetworkConfigEntry L cfgApp nis intfEnt
          = Some (underlayLookupFailure cfgApp intfEnt)"
    using f by (simp add: underlay_entry_cases [of L cfgApp nis intfEnt])
  show "parseOverlayNetworkConfigEntry L cfgApp nis intfEnt
          = Some (overlayLookupFailure cfgApp intfEnt)"
    using f by (simp add: overlay_entry_cases [of L cfgApp nis intfEnt])
qed

lemma example_lookups:
  "lookupNetworkInstanceId (zna_NetworkId (exampleInterface n ''ni-1'' i))
     [exampleInstance ''ni-1'' t] = Some (exampleInstance ''ni-1'' t)"
  "lookupNetworkInstanceId (zna_NetworkId (exampleInterface n ''ni-1'' i)) [] = None"
  "isOverlayNetworkInstance (exampleInstance ''ni-1'' NetworkInstanceTypeMesh)"
  "\<not> isOverlayNetworkInstance (exampleInstance ''ni-1'' NetworkInstanceTypeSwitch)"
  by (simp_all add: lookupNetworkInstanceId_def exampleInterface_def exampleInstance_def
      isOverlayNetworkInstance_def)

theorem interface_routing_witness:
  "parseUnderlayNetworkConfigEntry plainLib (exampleCfgApp [])
       [exampleInstance ''ni-1'' NetworkInstanceTypeMesh] (exampleInterface ''eth0'' ''ni-1'' 1)
     = None
   \<and> parseOverlayNetworkConfigEntry plainLib (exampleCfgApp [])
       [exampleInstance ''ni-1'' NetworkInstanceTypeMesh] (exampleInterface ''eth0'' ''ni-1'' 1)
     \<noteq> None
   \<and> parseUnderlayNetworkConfigEntry plainLib (exampleCfgApp [])
       [exampleInstance ''ni-1'' NetworkInstanceTypeSwitch] (exampleInterface ''eth0'' ''ni-1'' 1)
     \<noteq> None
   \<and> parseOverlayNetworkConfigEntry plainLib (exampleCfgApp [])
       [exampleInstance ''ni-1'' NetworkInstanceTypeSwitch] (exampleInterface ''eth0'' ''ni-1'' 1)
     = None
   \<and> parseUnderlayNetworkConfigEntry plainLib (exampleCfgApp []) []
       (exampleInterface ''eth0'' ''ni-1'' 1)
     = Some (underlayLookupFailure (exampleCfgApp []) (exampleInterface ''eth0'' ''ni-1'' 1))
   \<and> parseOverlayNetworkConfigEntry plainLib (exampleCfgApp []) []
       (exampleInterface ''eth0'' ''ni-1'' 1)
     = Some (overlayLookupFailure (exampleCfgApp []) (exampleInterface ''eth0'' ''ni-1'' 1))"
proof -
  note mesh = interface_routing [of "exampleInterface ''eth0'' ''ni-1'' 1"
      "[exampleInstance ''ni-1'' NetworkInstanceTypeMesh]" plainLib "exampleCfgApp []",
      THEN conjunct1, THEN spec, THEN mp, OF conjI, OF example_lookups(1) example_lookups(3)]
  note switch = interface_routing [of "exampleInterface ''eth0'' ''ni-1'' 1"
      "[exampleInstance ''ni-1'' NetworkInstanceTypeSwitch]" plainLib "exampleCfgApp []",
      THEN conjunct2, THEN conjunct1, THEN spec, THEN mp, OF conjI,
      OF example_lookups(1) example_lookups(4)]
  note lost = interface_routing [of "exampleInterface ''eth0'' ''ni-1'' 1" "[]" plainLib
      "exampleCfgApp []", THEN conjunct2, THEN conjunct2, THEN mp, OF example_lookups(2)]
  show ?thesis
    using mesh switch lost by blast
qed

text \<open>
  C4, as stated, fails on the code: for an interface whose network instance is not in
  the snapshot the overlay translator returns an entity too, and the translated app
  instance holds it in its overlay list.
\<close>

theorem lookup_failure_yields_overlay_entity:
  "lookupNetworkInstanceId (zna_NetworkId (exampleInterface ''eth0'' ''ni-1'' 1)) [] = None
   \<and> app_OverlayNetworkList
       (parseAppNetworkConfig plainLib (exampleCfgApp [exampleInterface ''eth0'' ''ni-1'' 1]) []
          exampleApp)
     = [overlayLookupFailure (exampleCfgApp [exampleInterface ''eth0'' ''ni-1'' 1])
          (exampleInterface ''eth0'' ''ni-1'' 1)]"
proof -
  have o: "parseOverlayNetworkConfigEntry plainLib
        (exampleCfgApp [exampleInterface ''eth0'' ''ni-1'' 1]) []
        (exampleInterface ''eth0'' ''ni-1'' 1)
      = Some (overlayLookupFailure (exampleCfgApp [exampleInterface ''eth0'' ''ni-1'' 1])
          (exampleInterface ''eth0'' ''ni-1'' 1))"
    by (simp add: overlay_entry_cases [of plainLib _ "[]"] example_lookups)
  have u: "parseUnderlayNetworkConfigEntry plainLib
        (exampleCfgApp [exampleInterface ''eth0'' ''ni-1'' 1]) []
        (exampleInterface ''eth0'' ''ni-1'' 1)
      = Some (underlayLookupFailure (exampleCfgApp [exampleInterface ''eth0'' ''ni-1'' 1])
          (exampleInterface ''eth0'' ''ni-1'' 1))"
    by (simp add: underlay_entry_cases [of plainLib _ "[]"] example_lookups)
  have i: "zapp_Interfaces (exampleCfgApp [exampleInterface ''eth0'' ''ni-1'' 1])
      = [exampleInterface ''eth0'' ''ni-1'' 1]"
    by (simp add: exampleCfgApp_def)
  have a: "app_OverlayNetworkList exampleApp = []"
    by (simp add: exampleApp_def)
  show ?thesis
    by (simp add: example_lookups parseAppNetworkConfig_def parseOverlayNetworkConfig_def
        parseUnderlayNetworkConfig_def i o u a Let_def sort_Slice_def insertLess_def
        overlayLookupFailure_def underlayLookupFailure_def)
qed

section \<open>Interface order\<close>

lemma moveLeft_set: "set (moveLeft lessFn x ys) = insert x (set ys)"
  by (induction ys) auto





lemma sort_Slice_set: "set (sort_Slice lessFn xs) = set xs"
proof -
  have "set (foldl (insertLess lessFn) acc xs) = set acc \<union> set xs" for acc
    by (induction xs arbitrary: acc) (auto simp: insertLess_def moveLeft_set)
  then show ?thesis by (simp add: sort_Slice_def)
qed

lemma sort_Slice_length: "length (sort_Slice lessFn xs) = length xs"
proof -
  have m: "length (moveLeft lessFn x ys) = Suc (length ys)" for x ys
    by (induction ys) auto
  have "length (foldl (insertLess lessFn) acc xs) = length acc + length xs" for acc
    by (induction xs arbitrary: acc) (auto simp: insertLess_def m)
  then show ?thesis by (simp add: sort_Slice_def)
qed












lemma sint_1_2: "sint (1 :: 32 word) < sint (2 :: 32 word)" "\<not> sint (2 :: 32 word) < sint (1 :: 32 word)"
  by simp_all





section \<open>Change detection\<close>

text \<open>The loops of a sub-domain leave its stored digest alone.\<close>

lemma unpublishCert_baseosHash:
  "baseosPrevConfigHash (unpublishCertObjConfig k st) = baseosPrevConfigHash st"
  by (simp add: unpublishCertObjConfig_def split: option.splits)

lemma unpublishCert_appHash:
  "appinstancePrevConfigHash (unpublishCertObjConfig k st) = appinstancePrevConfigHash st"
  by (simp add: unpublishCertObjConfig_def split: option.splits)

lemma baseOsDeleteLoop_hash:
  "baseosPrevConfigHash (baseOsDeleteLoop cfg items st) = baseosPrevConfigHash st"
proof (induction items arbitrary: st)
  case Nil
  show ?case by simp
next
  case (Cons a items)
  obtain k c where a: "a = (k, c)" by (cases a)
  show ?case
    by (simp add: a Cons.IH unpublishCert_baseosHash unpublishBaseOsConfig_def)
qed

lemma baseOsPublishLoop_hash:
  "baseosPrevConfigHash (final (baseOsPublishLoop L cfgs st)) = baseosPrevConfigHash st"
proof (induction cfgs arbitrary: st)
  case Nil
  show ?case by simp
next
  case (Cons cfgOs cfgs)
  show ?case
    by (simp add: Cons.IH publishBaseOsConfig_def publishCertObjConfig_def
        split: option.splits prod.splits)
qed

lemma appDeleteLoop_hash:
  "appinstancePrevConfigHash (appDeleteLoop Apps items st) = appinstancePrevConfigHash st"
proof (induction items arbitrary: st)
  case Nil
  show ?case by simp
next
  case (Cons a items)
  obtain k c where a: "a = (k, c)" by (cases a)
  show ?case
    by (simp add: a Cons.IH unpublishCert_appHash unpublishAppInstanceConfig_def)
qed

lemma appPublishLoop_hash:
  "appinstancePrevConfigHash (final (appPublishLoop L config cfgs st))
     = appinstancePrevConfigHash st"
proof (induction cfgs arbitrary: st)
  case Nil
  show ?case by simp
next
  case (Cons cfgApp cfgs)
  show ?case
    by (simp add: Cons.IH publishAppInstanceConfig_def publishAppInstanceConfigKey_def
        publishCertObjConfig_def split: option.splits prod.splits)
qed

lemma publishOneNI_hash:
  "networkInstancePrevConfigHash (final (publishOneNI L id0 e st))
     = networkInstancePrevConfigHash st"
  by (simp add: publishOneNI_def publishOneNITail_def publishNI_def Let_def
      split: NetworkInstanceType.splits option.splits)

lemma niPublishLoop_hash:
  "networkInstancePrevConfigHash (final (niPublishLoop L nis st))
     = networkInstancePrevConfigHash st"
proof (induction nis arbitrary: st)
  case Nil
  show ?case by simp
next
  case (Cons e nis)
  show ?case
  proof (cases "uuid_FromString L (zuv_Uuid (zni_Uuidandversion e))")
    case (Inl err)
    then show ?thesis by (simp add: Cons.IH)
  next
    case (Inr id0)
    show ?thesis
    proof (cases "publishOneNI L id0 e st")
      case (Returns st1)
      with publishOneNI_hash [of L id0 e st] show ?thesis
        by (simp add: Inr Cons.IH)
    next
      case (Panics st1)
      with publishOneNI_hash [of L id0 e st] show ?thesis
        by (simp add: Inr)
    qed
  qed
qed

lemma networkXDeleteLoop_hash:
  "networkConfigPrevConfigHash (networkXDeleteLoop nets items st) = networkConfigPrevConfigHash st"
proof (induction items arbitrary: st)
  case Nil
  show ?case by simp
next
  case (Cons a items)
  obtain k c where a: "a = (k, c)" by (cases a)
  show ?case
    by (simp add: a Cons.IH unpublishNetworkX_def split: option.splits)
qed

lemma networkXPublishLoop_hash:
  "networkConfigPrevConfigHash (networkXPublishLoop L now nets st) = networkConfigPrevConfigHash st"
  by (induction nets arbitrary: st) (simp_all add: publishNetworkX_def Let_def)

lemma datastoreDeleteLoop_hash:
  "datastoreConfigPrevConfigHash (datastoreDeleteLoop dss items st)
     = datastoreConfigPrevConfigHash st"
proof (induction items arbitrary: st)
  case Nil
  show ?case by simp
next
  case (Cons a items)
  obtain k c where a: "a = (k, c)" by (cases a)
  show ?case
    by (simp add: a Cons.IH unpublishDatastore_def split: option.splits)
qed

lemma datastorePublishLoop_hash:
  "datastoreConfigPrevConfigHash (datastorePublishLoop L dss st) = datastoreConfigPrevConfigHash st"
  by (induction dss arbitrary: st) (simp_all add: publishDatastore_def Let_def)

lemma deviceIoLoop_hash:
  "deviceIoListPrevConfigHash (snd (deviceIoLoop L ios (adapterList, st)))
     = deviceIoListPrevConfigHash st"
  by (induction ios arbitrary: adapterList st) (simp_all add: Let_def split: option.splits)

lemma applyGlobalConfig_hash:
  "itemsPrevConfigHash (applyGlobalConfig L newGlobalConfig st) = itemsPrevConfigHash st"
  by (simp add: applyGlobalConfig_def Let_def)

lemma baseOs_gate:
  "baseosPrevConfigHash (final (parseBaseOsConfig L config st))
     = elementsSha L (map MBaseOs (cfg_Base config))"
  "elementsSha L (map MBaseOs (cfg_Base config)) = baseosPrevConfigHash st
     \<Longrightarrow> parseBaseOsConfig L config st = Returns st"
  by (simp_all add: parseBaseOsConfig_def Let_def baseOsPublishLoop_hash baseOsDeleteLoop_hash)

lemma network_gate:
  "networkConfigPrevConfigHash (snd (parseNetworkXObjectConfig L now config st))
     = elementsSha L (map MNetwork (cfg_Networks config))"
  "elementsSha L (map MNetwork (cfg_Networks config)) = networkConfigPrevConfigHash st
     \<Longrightarrow> parseNetworkXObjectConfig L now config st = (False, st)"
  by (simp_all add: parseNetworkXObjectConfig_def Let_def publishNetworkXObjectConfig_def
      networkXPublishLoop_hash networkXDeleteLoop_hash)

lemma networkInstance_gate:
  "networkInstancePrevConfigHash (final (parseNetworkInstanceConfig L config st))
     = elementsSha L (map MNetworkInstance (cfg_NetworkInstances config))"
  "elementsSha L (map MNetworkInstance (cfg_NetworkInstances config))
       = networkInstancePrevConfigHash st
     \<Longrightarrow> parseNetworkInstanceConfig L config st = Returns st"
  by (simp_all add: parseNetworkInstanceConfig_def Let_def publishNetworkInstanceConfig_def
      niPublishLoop_hash unpublishDeletedNetworkInstanceConfig_eq)

lemma app_gate:
  "appinstancePrevConfigHash (final (parseAppInstanceConfig L config st))
     = elementsSha L (map MApp (cfg_Apps config))"
  "elementsSha L (map MApp (cfg_Apps config)) = appinstancePrevConfigHash st
     \<Longrightarrow> parseAppInstanceConfig L config st = Returns st"
  by (simp_all add: parseAppInstanceConfig_def Let_def appPublishLoop_hash appDeleteLoop_hash)

lemma datastore_gate:
  "datastoreConfigPrevConfigHash (parseDatastoreConfig L config st)
     = elementsSha L (map MDatastore (cfg_Datastores config))"
  "elementsSha L (map MDatastore (cfg_Datastores config)) = datastoreConfigPrevConfigHash st
     \<Longrightarrow> parseDatastoreConfig L config st = st"
  by (simp_all add: parseDatastoreConfig_def Let_def publishDatastoreConfig_def
      datastorePublishLoop_hash datastoreDeleteLoop_hash)

lemma deviceIo_gate:
  "deviceIoListPrevConfigHash (snd (parseDeviceIoListConfig L config st))
     = elementsSha L (map MPhysicalIO (cfg_DeviceIoList config))"
  "elementsSha L (map MPhysicalIO (cfg_DeviceIoList config)) = deviceIoListPrevConfigHash st
     \<Longrightarrow> parseDeviceIoListConfig L config st = (False, st)"
proof -
  show "deviceIoListPrevConfigHash (snd (parseDeviceIoListConfig L config st))
     = elementsSha L (map MPhysicalIO (cfg_DeviceIoList config))"
    using deviceIoLoop_hash [of L "cfg_DeviceIoList config" "[]"
        "st\<lparr>deviceIoListPrevConfigHash := elementsSha L (map MPhysicalIO (cfg_DeviceIoList config))\<rparr>"]
    by (auto simp: parseDeviceIoListConfig_def Let_def split: prod.splits)
  show "elementsSha L (map MPhysicalIO (cfg_DeviceIoList config)) = deviceIoListPrevConfigHash st
     \<Longrightarrow> parseDeviceIoListConfig L config st = (False, st)"
    by (simp add: parseDeviceIoListConfig_def Let_def)
qed

lemma configItems_gate:
  "itemsPrevConfigHash (parseConfigItems L config st)
     = elementsSha L (map MConfigItem (cfg_ConfigItems config))"
  "elementsSha L (map MConfigItem (cfg_ConfigItems config)) = itemsPrevConfigHash st
     \<Longrightarrow> parseConfigItems L config st = st"
  by (simp_all add: parseConfigItems_def Let_def applyGlobalConfig_hash split: prod.splits)

lemma systemAdapter_gate:
  "systemAdaptersPrevConfigHash (parseSystemAdapterConfig L now config forceParse st)
     = elementsSha L (map MSystemAdapter (cfg_SystemAdapterList config))"
  "elementsSha L (map MSystemAdapter (cfg_SystemAdapterList config))
       = systemAdaptersPrevConfigHash st \<Longrightarrow> \<not> forceParse
     \<Longrightarrow> parseSystemAdapterConfig L now config forceParse st = st"
  by (simp_all add: parseSystemAdapterConfig_def Let_def)

lemma exampleSnapshot_digests:
  "elementsSha plainLib (map MBaseOs (cfg_Base exampleSnapshot))
     = baseosPrevConfigHash populatedState"
  "elementsSha plainLib (map MNetwork (cfg_Networks exampleSnapshot))
     = networkConfigPrevConfigHash populatedState"
  "elementsSha plainLib (map MNetworkInstance (cfg_NetworkInstances exampleSnapshot))
     = networkInstancePrevConfigHash populatedState"
  "elementsSha plainLib (map MApp (cfg_Apps exampleSnapshot))
     = appinstancePrevConfigHash populatedState"
  "elementsSha plainLib (map MDatastore (cfg_Datastores exampleSnapshot))
     = datastoreConfigPrevConfigHash populatedState"
  "elementsSha plainLib (map MPhysicalIO (cfg_DeviceIoList exampleSnapshot))
     = deviceIoListPrevConfigHash populatedState"
  "elementsSha plainLib (map MConfigItem (cfg_ConfigItems exampleSnapshot))
     = itemsPrevConfigHash populatedState"
  "elementsSha plainLib (map MSystemAdapter (cfg_SystemAdapterList exampleSnapshot))
     = systemAdaptersPrevConfigHash populatedState"
  by (simp_all add: elementsSha_def computeConfigElementSha_def plainLib_def plainMarshal_def
      exampleSnapshot_def emptySnapshot_def populatedState_def initState_def vpnInstance_def
      exampleCfgApp_def)

text \<open>
  C5. For each sub-domain parser (base OS, network objects, network instances, app
  instances, datastores, physical I/O, configuration items, and system adapters): after
  the invocation the stored digest of the sub-domain is the digest of the incoming
  elements; and when the incoming digest equals the digest stored before (for system
  adapters: and the parse is not forced), the parser returns the state as it was, so that
  it has made no publish or unpublish call.
\<close>

theorem change_detection_gate:
  "baseosPrevConfigHash (final (parseBaseOsConfig L config st))
     = elementsSha L (map MBaseOs (cfg_Base config))
   \<and> (elementsSha L (map MBaseOs (cfg_Base config)) = baseosPrevConfigHash st
       \<longrightarrow> parseBaseOsConfig L config st = Returns st)
   \<and> networkConfigPrevConfigHash (snd (parseNetworkXObjectConfig L now config st))
     = elementsSha L (map MNetwork (cfg_Networks config))
   \<and> (elementsSha L (map MNetwork (cfg_Networks config)) = networkConfigPrevConfigHash st
       \<longrightarrow> parseNetworkXObjectConfig L now config st = (False, st))
   \<and> networkInstancePrevConfigHash (final (parseNetworkInstanceConfig L config st))
     = elementsSha L (map MNetworkInstance (cfg_NetworkInstances config))
   \<and> (elementsSha L (map MNetworkInstance (cfg_NetworkInstances config))
         = networkInstancePrevConfigHash st
       \<longrightarrow> parseNetworkInstanceConfig L config st = Returns st)
   \<and> appinstancePrevConfigHash (final (parseAppInstanceConfig L config st))
     = elementsSha L (map MApp (cfg_Apps config))
   \<and> (elementsSha L (map MApp (cfg_Apps config)) = appinstancePrevConfigHash st
       \<longrightarrow> parseAppInstanceConfig L config st = Returns st)
   \<and> datastoreConfigPrevConfigHash (parseDatastoreConfig L config st)
     = elementsSha L (map MDatastore (cfg_Datastores config))
   \<and> (elementsSha L (map MDatastore (cfg_Datastores config)) = datastoreConfigPrevConfigHash st
       \<longrightarrow> parseDatastoreConfig L config st = st)
   \<and> deviceIoListPrevConfigHash (snd (parseDeviceIoListConfig L config st))
     = elementsSha L (map MPhysicalIO (cfg_DeviceIoList config))
   \<and> (elementsSha L (map MPhysicalIO (cfg_DeviceIoList config)) = deviceIoListPrevConfigHash st
       \<longrightarrow> parseDeviceIoListConfig L config st = (False, st))
   \<and> itemsPrevConfigHash (parseConfigItems L config st)
     = elementsSha L (map MConfigItem (cfg_ConfigItems config))
   \<and> (elementsSha L (map MConfigItem (cfg_ConfigItems config)) = itemsPrevConfigHash st
       \<longrightarrow> parseConfigItems L config st = st)
   \<and> systemAdaptersPrevConfigHash (parseSystemAdapterConfig L now config forceParse st)
     = elementsSha L (map MSystemAdapter (cfg_SystemAdapterList config))
   \<and> (elementsSha L (map MSystemAdapter (cfg_SystemAdapterList config))
         = systemAdaptersPrevConfigHash st \<and> \<not> forceParse
       \<longrightarrow> parseSystemAdapterConfig L now config forceParse st = st)"
  by (intro conjI impI; (elim conjE)?)
     (rule baseOs_gate network_gate networkInstance_gate app_gate datastore_gate deviceIo_gate
        configItems_gate systemAdapter_gate; assumption?)+

theorem change_detection_gate_witness:
  "parseBaseOsConfig plainLib exampleSnapshot populatedState = Returns populatedState
   \<and> parseNetworkXObjectConfig plainLib 7 exampleSnapshot populatedState = (False, populatedState)
   \<and> parseNetworkInstanceConfig plainLib exampleSnapshot populatedState = Returns populatedState
   \<and> parseAppInstanceConfig plainLib exampleSnapshot populatedState = Returns populatedState
   \<and> parseDatastoreConfig plainLib exampleSnapshot populatedState = populatedState
   \<and> parseDeviceIoListConfig plainLib exampleSnapshot populatedState = (False, populatedState)
   \<and> parseConfigItems plainLib exampleSnapshot populatedState = populatedState
   \<and> parseSystemAdapterConfig plainLib 7 exampleSnapshot False populatedState = populatedState"
proof -
  note t = change_detection_gate [of plainLib exampleSnapshot populatedState 7 False]
  note d = exampleSnapshot_digests
  have f: "elementsSha plainLib (map MSystemAdapter (cfg_SystemAdapterList exampleSnapshot))
         = systemAdaptersPrevConfigHash populatedState \<and> \<not> False"
    using d(8) by simp
  show ?thesis
    using t d f by blast
qed

section \<open>System adapter validation\<close>

lemma portFromPhyio_dhcpFailures:
  assumes "portFromPhyio L now st sysAdapter = Some (port, isFree)"
  shows "dhcpFailures port = []"
  using assms
  by (auto simp: portFromPhyio_def Let_def NetworkPortConfig_zero_def RecordFailure_def
      dhcpFailures_def isDhcpFailure_def split: option.splits if_splits)

lemma portNetwork_frame:
  assumes "portNetwork L now st sysAdapter ip port = (port', network)"
  shows "dhcpFailures port' = dhcpFailures port"
    and "port_IsMgmt port' = port_IsMgmt port"
    and "port_IfName port' = port_IfName port"
    and "network = None \<Longrightarrow> port_Dhcp port' = port_Dhcp port"
  using assms
  by (auto simp: portNetwork_def Let_def RecordFailure_def dhcpFailures_def isDhcpFailure_def
      NetworkXObjectConfig_HasError_def split: option.splits if_splits)

lemma portDhcpCheck_failures:
  "dhcpFailures (portDhcpCheck now sysAdapter isMgmt port) =
     dhcpFailures port @
     (case port_Dhcp port of
        DT_STATIC \<Rightarrow>
          if port_AddrSubnet port = []
          then [(StaticMissingSubnet (port_IfName port) (zsa_Name sysAdapter) (zsa_Addr sysAdapter),
                 now)]
          else []
      | DT_CLIENT \<Rightarrow> []
      | DT_NONE \<Rightarrow> if isMgmt then [(MgmtDhcpNone (port_IfName port), now)] else []
      | DT_Other n \<Rightarrow> [(UnknownDhcpType (port_IfName port) (DT_Other n), now)])"
  by (simp add: portDhcpCheck_def RecordFailure_def dhcpFailures_def isDhcpFailure_def
      split: DhcpType.splits)

lemma portDhcpCheck_frame:
  "port_Dhcp (portDhcpCheck now sysAdapter isMgmt port) = port_Dhcp port"
  "port_AddrSubnet (portDhcpCheck now sysAdapter isMgmt port) = port_AddrSubnet port"
  "port_IfName (portDhcpCheck now sysAdapter isMgmt port) = port_IfName port"
  "port_IsMgmt (portDhcpCheck now sysAdapter isMgmt port) = port_IsMgmt port"
  by (simp_all add: portDhcpCheck_def RecordFailure_def split: DhcpType.splits)

lemma adapter_with_network:
  assumes p: "portFromPhyio L now st sysAdapter = Some (port0, isFree0)"
    and n: "zsa_NetworkUUID sysAdapter \<noteq> []" "zsa_NetworkUUID sysAdapter \<noteq> nilUUID"
  shows "\<exists>port. parseOneSystemAdapterConfig L now st sysAdapter version = Some port
     \<and> dhcpFailures port = expectedDhcpFailures now sysAdapter port"
proof -
  let ?isMgmt = "adapterIsMgmt version sysAdapter"
  let ?ip = "if zsa_Addr sysAdapter \<noteq> [] then net_ParseIP L (zsa_Addr sysAdapter) else None"
  let ?port1 = "port0\<lparr>port_IsMgmt := ?isMgmt,
      port_Free := adapterIsFree version sysAdapter isFree0, port_Dhcp := DT_NONE\<rparr>"
  let ?port2 = "if zsa_Addr sysAdapter \<noteq> [] \<and> ?ip = None
      then RecordFailure (BadSysAdapterAddr (zsa_Name sysAdapter) (zsa_Addr sysAdapter)) now ?port1
      else ?port1"
  obtain port3 network where pn: "portNetwork L now st sysAdapter ?ip ?port2 = (port3, network)"
    by (cases "portNetwork L now st sysAdapter ?ip ?port2")
  let ?port4 = "portDhcpCheck now sysAdapter ?isMgmt port3"
  have d0: "dhcpFailures port0 = []"
    using p by (rule portFromPhyio_dhcpFailures)
  have d2: "dhcpFailures ?port2 = []"
    using d0 by (simp add: dhcpFailures_def RecordFailure_def isDhcpFailure_def)
  have m2: "port_IsMgmt ?port2 = ?isMgmt"
    by (simp add: RecordFailure_def)
  have d3: "dhcpFailures port3 = []" and m3: "port_IsMgmt port3 = ?isMgmt"
    using portNetwork_frame(1,2) [OF pn] d2 m2 by simp_all
  have d4: "dhcpFailures ?port4 = expectedDhcpFailures now sysAdapter ?port4"
    by (simp add: portDhcpCheck_failures portDhcpCheck_frame d3 m3 expectedDhcpFailures_def
        split: DhcpType.splits)
  have d5: "dhcpFailures (?port4\<lparr>port_ProxyConfig := Some proxy\<rparr>)
      = expectedDhcpFailures now sysAdapter (?port4\<lparr>port_ProxyConfig := Some proxy\<rparr>)" for proxy
    using d4 by (simp add: dhcpFailures_def expectedDhcpFailures_def split: DhcpType.splits)
  have r: "parseOneSystemAdapterConfig L now st sysAdapter version =
      (case network of
         None \<Rightarrow> Some ?port4
       | Some net \<Rightarrow>
           (case nx_Proxy net of
              None \<Rightarrow> Some ?port4
            | Some proxy \<Rightarrow> Some (?port4\<lparr>port_ProxyConfig := Some proxy\<rparr>)))"
    using p n pn by (simp add: parseOneSystemAdapterConfig_def Let_def)
  show ?thesis
    using d4 d5 by (auto simp: r split: option.splits)
qed

lemma adapter_without_network:
  assumes p: "portFromPhyio L now st sysAdapter = Some (port0, isFree0)"
    and n: "zsa_NetworkUUID sysAdapter = [] \<or> zsa_NetworkUUID sysAdapter = nilUUID"
  shows "\<exists>port. parseOneSystemAdapterConfig L now st sysAdapter version = Some port
     \<and> port_Dhcp port = DT_NONE
     \<and> dhcpFailures port = []
     \<and> ((MgmtWithoutNetwork (port_IfName port), now) \<in> set (port_Failures port)
          \<longleftrightarrow> port_IsMgmt port)"
proof -
  have f: "(MgmtWithoutNetwork x, t) \<notin> set (port_Failures port0)" for x t
    using p
    by (auto simp: portFromPhyio_def Let_def NetworkPortConfig_zero_def RecordFailure_def
        split: option.splits if_splits)
  have d0: "dhcpFailures port0 = []"
    using p by (rule portFromPhyio_dhcpFailures)
  show ?thesis
    using n f d0
    by (auto simp: parseOneSystemAdapterConfig_def p Let_def RecordFailure_def dhcpFailures_def
        isDhcpFailure_def)
qed

lemma portFromPhyio_Some:
  assumes "\<forall>phyio. lookupPhyio st sysAdapter = Some phyio \<longrightarrow> IoType_IsNet L (pio_Ptype phyio)"
  shows "\<exists>port0 isFree0. portFromPhyio L now st sysAdapter = Some (port0, isFree0)"
  using assms by (auto simp: portFromPhyio_def Let_def split: option.splits)

lemma example_phyio:
  "lookupPhyio adapterState (exampleAdapter ''eth0'' n u) = Some (snd (examplePhyio ''eth0'' 1))"
  "lookupPhyio adapterState (exampleAdapter ''usb0'' n u) = Some (snd (examplePhyio ''usb0'' 4))"
  "lookupPhyio adapterState (exampleAdapter ''eth7'' n u) = None"
  "lookupDeviceIoLogicallabel adapterState ''eth0'' = Some (snd (examplePhyio ''eth0'' 1))"
  by (simp_all add: lookupPhyio_def lookupDeviceIoLogicallabel_def lookupDeviceIoPhylabel_def
      adapterPhylabel_def adapterState_def initState_def examplePhyio_def exampleAdapter_def)

lemma example_isNet:
  "IoType_IsNet plainLib (pio_Ptype (snd (examplePhyio ''eth0'' 1)))"
  "\<not> IoType_IsNet plainLib (pio_Ptype (snd (examplePhyio ''usb0'' 4)))"
  by (simp_all add: plainLib_def examplePhyio_def)

lemma example_port_fields:
  "map_option (\<lambda>p. (port_Dhcp p, port_AddrSubnet p, port_IfName p, port_IsMgmt p))
     (parseOneSystemAdapterConfig plainLib 7 adapterState
        (exampleAdapter ''eth0'' ''net-static'' True) DPCIsMgmt)
   = Some (DT_STATIC, [], ''eth0'', True)"
  "map_option (\<lambda>p. (port_Dhcp p, port_AddrSubnet p, port_IfName p, port_IsMgmt p))
     (parseOneSystemAdapterConfig plainLib 7 adapterState
        (exampleAdapter ''eth0'' ''net-client'' True) DPCIsMgmt)
   = Some (DT_CLIENT, [], ''eth0'', True)"
  "map_option (\<lambda>p. (port_Dhcp p, port_AddrSubnet p, port_IfName p, port_IsMgmt p))
     (parseOneSystemAdapterConfig plainLib 7 adapterState
        (exampleAdapter ''eth0'' ''net-none'' False) DPCIsMgmt)
   = Some (DT_NONE, [], ''eth0'', False)"
  "map_option (\<lambda>p. (port_Dhcp p, port_AddrSubnet p, port_IfName p, port_IsMgmt p))
     (parseOneSystemAdapterConfig plainLib 7 adapterState
        (exampleAdapter ''eth0'' ''net-odd'' False) DPCIsMgmt)
   = Some (DT_Other 7, [], ''eth0'', False)"
  by (simp_all add: parseOneSystemAdapterConfig_def portFromPhyio_def lookupPhyio_def
      lookupDeviceIoLogicallabel_def lookupDeviceIoPhylabel_def adapterPhylabel_def
      plainLib_def Let_def exampleAdapter_def nilUUID_def portNetwork_def adapterState_def
      initState_def exampleNetwork_def NetworkXObjectConfig_HasError_def
      NetworkXObjectConfig_zero_def portDhcpCheck_def RecordFailure_def
      NetworkPortConfig_zero_def adapterIsMgmt_def adapterIsFree_def DPCIsMgmt_def
      examplePhyio_def PhysicalAddress_zero_def WirelessConfig_zero_def)

text \<open>
  C6. For every system adapter that is not dropped (its physical I/O, if found, is of a
  network type), the port is returned, and the DHCP validation has recorded on it:
  with a referenced network, in static mode with an empty subnet address the
  missing-subnet failure and in static mode otherwise nothing; in client mode nothing;
  in none mode the management-port failure if and only if the port is a management
  port; for any other mode the unknown-type failure. Without a referenced network the
  mode is none, and the failure of a management port without network is recorded if and
  only if the port is a management port.
\<close>

theorem dhcp_mode_validation:
  assumes "\<forall>phyio. lookupPhyio st sysAdapter = Some phyio \<longrightarrow> IoType_IsNet L (pio_Ptype phyio)"
  shows "\<exists>port. parseOneSystemAdapterConfig L now st sysAdapter version = Some port
     \<and> (zsa_NetworkUUID sysAdapter \<noteq> [] \<and> zsa_NetworkUUID sysAdapter \<noteq> nilUUID \<longrightarrow>
          (port_Dhcp port = DT_STATIC \<and> port_AddrSubnet port = [] \<longrightarrow>
             dhcpFailures port =
               [(StaticMissingSubnet (port_IfName port) (zsa_Name sysAdapter) (zsa_Addr sysAdapter),
                 now)])
        \<and> (port_Dhcp port = DT_STATIC \<and> port_AddrSubnet port \<noteq> [] \<longrightarrow> dhcpFailures port = [])
        \<and> (port_Dhcp port = DT_CLIENT \<longrightarrow> dhcpFailures port = [])
        \<and> (port_Dhcp port = DT_NONE \<longrightarrow>
             dhcpFailures port =
               (if port_IsMgmt port then [(MgmtDhcpNone (port_IfName port), now)] else []))
        \<and> (\<forall>n. port_Dhcp port = DT_Other n \<longrightarrow>
             dhcpFailures port = [(UnknownDhcpType (port_IfName port) (DT_Other n), now)]))
     \<and> (zsa_NetworkUUID sysAdapter = [] \<or> zsa_NetworkUUID sysAdapter = nilUUID \<longrightarrow>
          port_Dhcp port = DT_NONE \<and> dhcpFailures port = []
        \<and> ((MgmtWithoutNetwork (port_IfName port), now) \<in> set (port_Failures port)
             \<longleftrightarrow> port_IsMgmt port))"
proof -
  obtain port0 isFree0 where p: "portFromPhyio L now st sysAdapter = Some (port0, isFree0)"
    using portFromPhyio_Some [OF assms] by blast
  show ?thesis
  proof (cases "zsa_NetworkUUID sysAdapter \<noteq> [] \<and> zsa_NetworkUUID sysAdapter \<noteq> nilUUID")
    case True
    then obtain port where r: "parseOneSystemAdapterConfig L now st sysAdapter version = Some port"
      and d: "dhcpFailures port = expectedDhcpFailures now sysAdapter port"
      using adapter_with_network [OF p, of version] by blast
    show ?thesis
      using True by (auto simp: r d expectedDhcpFailures_def)
  next
    case False
    then have n: "zsa_NetworkUUID sysAdapter = [] \<or> zsa_NetworkUUID sysAdapter = nilUUID"
      by blast
    from adapter_without_network [OF p n, of version] obtain port
      where r: "parseOneSystemAdapterConfig L now st sysAdapter version = Some port"
        and d: "port_Dhcp port = DT_NONE" "dhcpFailures port = []"
          "(MgmtWithoutNetwork (port_IfName port), now) \<in> set (port_Failures port)
             \<longleftrightarrow> port_IsMgmt port"
      by blast
    show ?thesis
      using False d by (auto simp: r)
  qed
qed

theorem dhcp_mode_validation_witness:
  "(\<exists>port. parseOneSystemAdapterConfig plainLib 7 adapterState
       (exampleAdapter ''eth0'' ''net-static'' True) DPCIsMgmt = Some port
     \<and> dhcpFailures port = [(StaticMissingSubnet ''eth0'' ''eth0'' [], 7)])
   \<and> (\<exists>port. parseOneSystemAdapterConfig plainLib 7 adapterState
       (exampleAdapter ''eth0'' ''net-client'' True) DPCIsMgmt = Some port
     \<and> dhcpFailures port = [])
   \<and> (\<exists>port. parseOneSystemAdapterConfig plainLib 7 adapterState
       (exampleAdapter ''eth0'' ''net-none'' False) DPCIsMgmt = Some port
     \<and> dhcpFailures port = [])
   \<and> (\<exists>port. parseOneSystemAdapterConfig plainLib 7 adapterState
       (exampleAdapter ''eth0'' ''net-odd'' False) DPCIsMgmt = Some port
     \<and> dhcpFailures port = [(UnknownDhcpType ''eth0'' (DT_Other 7), 7)])"
proof -
  have h: "\<forall>phyio. lookupPhyio adapterState (exampleAdapter ''eth0'' n u) = Some phyio
      \<longrightarrow> IoType_IsNet plainLib (pio_Ptype phyio)" for n u
    using example_isNet(1) by (auto simp: example_phyio simp del: One_nat_def)
  have u: "zsa_NetworkUUID (exampleAdapter ''eth0'' n up) = n"
      "zsa_Name (exampleAdapter ''eth0'' n up) = ''eth0''"
      "zsa_Addr (exampleAdapter ''eth0'' n up) = []" for n up
    by (simp_all add: exampleAdapter_def)
  have nn: "''net-static'' \<noteq> nilUUID" "''net-client'' \<noteq> nilUUID" "''net-none'' \<noteq> nilUUID"
      "''net-odd'' \<noteq> nilUUID"
    by (simp_all add: nilUUID_def)
  note f = example_port_fields
  from dhcp_mode_validation [OF h, of 7 "''net-static''" True DPCIsMgmt] f(1)
  have a: "\<exists>port. parseOneSystemAdapterConfig plainLib 7 adapterState
       (exampleAdapter ''eth0'' ''net-static'' True) DPCIsMgmt = Some port
     \<and> dhcpFailures port = [(StaticMissingSubnet ''eth0'' ''eth0'' [], 7)]"
    by (auto simp: u nn)
  from dhcp_mode_validation [OF h, of 7 "''net-client''" True DPCIsMgmt] f(2)
  have b: "\<exists>port. parseOneSystemAdapterConfig plainLib 7 adapterState
       (exampleAdapter ''eth0'' ''net-client'' True) DPCIsMgmt = Some port
     \<and> dhcpFailures port = []"
    by (auto simp: u nn)
  from dhcp_mode_validation [OF h, of 7 "''net-none''" False DPCIsMgmt] f(3)
  have c: "\<exists>port. parseOneSystemAdapterConfig plainLib 7 adapterState
       (exampleAdapter ''eth0'' ''net-none'' False) DPCIsMgmt = Some port
     \<and> dhcpFailures port = []"
    by (auto simp: u nn)
  from dhcp_mode_validation [OF h, of 7 "''net-odd''" False DPCIsMgmt] f(4)
  have d: "\<exists>port. parseOneSystemAdapterConfig plainLib 7 adapterState
       (exampleAdapter ''eth0'' ''net-odd'' False) DPCIsMgmt = Some port
     \<and> dhcpFailures port = [(UnknownDhcpType ''eth0'' (DT_Other 7), 7)]"
    by (auto simp: u nn)
  show ?thesis
    using a b c d by blast
qed

section \<open>Physical I/O resolution\<close>





lemma non_net_phyio_dropped:
  assumes "lookupPhyio st sysAdapter = Some phyio" and "\<not> IoType_IsNet L (pio_Ptype phyio)"
  shows "parseOneSystemAdapterConfig L now st sysAdapter version = None"
  using assms by (simp add: parseOneSystemAdapterConfig_def portFromPhyio_def Let_def)



section \<open>Publication of the device port configuration\<close>

lemma lookups_ignore_hash:
  "lookupDeviceIoLogicallabel (st\<lparr>systemAdaptersPrevConfigHash := h\<rparr>) label
     = lookupDeviceIoLogicallabel st label"
  "lookupDeviceIoPhylabel (st\<lparr>systemAdaptersPrevConfigHash := h\<rparr>) label
     = lookupDeviceIoPhylabel st label"
  by (simp_all add: lookupDeviceIoLogicallabel_def lookupDeviceIoPhylabel_def)

lemma lookupPhyio_ignores_hash:
  "lookupPhyio (st\<lparr>systemAdaptersPrevConfigHash := h\<rparr>) sysAdapter
     = lookupPhyio st sysAdapter"
  unfolding lookupPhyio_def lookups_ignore_hash by (rule refl)

lemma portFromPhyio_ignores_hash:
  "portFromPhyio L now (st\<lparr>systemAdaptersPrevConfigHash := h\<rparr>) sysAdapter
     = portFromPhyio L now st sysAdapter"
  unfolding portFromPhyio_def lookupPhyio_ignores_hash by (rule refl)

lemma portNetwork_ignores_hash:
  "portNetwork L now (st\<lparr>systemAdaptersPrevConfigHash := h\<rparr>) sysAdapter ip port
     = portNetwork L now st sysAdapter ip port"
  by (simp add: portNetwork_def)

lemma parseOne_ignores_hash:
  "parseOneSystemAdapterConfig L now (st\<lparr>systemAdaptersPrevConfigHash := h\<rparr>) sysAdapter version
     = parseOneSystemAdapterConfig L now st sysAdapter version"
  unfolding parseOneSystemAdapterConfig_def portFromPhyio_ignores_hash portNetwork_ignores_hash
  by (rule refl)

lemma systemAdapterPorts_ignores_hash:
  "systemAdapterPorts L now (st\<lparr>systemAdaptersPrevConfigHash := h\<rparr>) version sysAdapters
     = systemAdapterPorts L now st version sysAdapters"
  by (induction sysAdapters) (simp_all add: parseOne_ignores_hash split: option.splits)

lemma parseSystemAdapterConfig_forced:
  "parseSystemAdapterConfig L now config True st =
     (let st1 = st\<lparr>systemAdaptersPrevConfigHash :=
                   elementsSha L (map MSystemAdapter (cfg_SystemAdapterList config))\<rparr>
      in if newPorts L now config st = [] then st1
         else if dpc_Ports (devicePortConfig st) = newPorts L now config st
                 \<and> dpc_Version (devicePortConfig st) = newVersion config
         then st1
         else st1\<lparr>devicePortConfig :=
                    \<lparr>dpc_Version = newVersion config, dpc_TimePriority = now,
                     dpc_Ports = newPorts L now config st\<rparr>,
                  pubDevicePortConfig :=
                    AList.update ''zedagent''
                      \<lparr>dpc_Version = newVersion config, dpc_TimePriority = now,
                       dpc_Ports = newPorts L now config st\<rparr> (pubDevicePortConfig st),
                  calls := calls st @ [Publish TDevicePortConfig ''zedagent'']\<rparr>)"
  by (simp add: parseSystemAdapterConfig_def Let_def newPorts_def newVersion_def
      systemAdapterPorts_ignores_hash)

text \<open>
  C10. A forced parse of the system adapters publishes no device port configuration,
  and leaves the held one as it is, when the resulting port list is empty or when the
  resulting port list and version equal those of the held configuration. When the port
  list is not empty and the ports or the version differ, it publishes once, under the
  key of the agent, the new ports and version with the current time as time priority, and
  holds that configuration from then on.
\<close>

theorem forced_adapter_parse_publishes_on_change:
  "(newPorts L now config st = []
      \<or> (dpc_Ports (devicePortConfig st) = newPorts L now config st
          \<and> dpc_Version (devicePortConfig st) = newVersion config)
     \<longrightarrow> calls (parseSystemAdapterConfig L now config True st) = calls st
         \<and> pubDevicePortConfig (parseSystemAdapterConfig L now config True st)
             = pubDevicePortConfig st
         \<and> devicePortConfig (parseSystemAdapterConfig L now config True st)
             = devicePortConfig st)
   \<and> (newPorts L now config st \<noteq> []
      \<and> (dpc_Ports (devicePortConfig st) \<noteq> newPorts L now config st
          \<or> dpc_Version (devicePortConfig st) \<noteq> newVersion config)
     \<longrightarrow> calls (parseSystemAdapterConfig L now config True st)
           = calls st @ [Publish TDevicePortConfig ''zedagent'']
         \<and> devicePortConfig (parseSystemAdapterConfig L now config True st)
           = \<lparr>dpc_Version = newVersion config, dpc_TimePriority = now,
              dpc_Ports = newPorts L now config st\<rparr>
         \<and> map_of (pubDevicePortConfig (parseSystemAdapterConfig L now config True st))
             ''zedagent''
           = Some \<lparr>dpc_Version = newVersion config, dpc_TimePriority = now,
                   dpc_Ports = newPorts L now config st\<rparr>)"
  by (auto simp: parseSystemAdapterConfig_forced Let_def update_conv')

lemma example_newPorts:
  "newPorts plainLib 7 (adapterSnapshot [exampleAdapter ''usb0'' [] False]) adapterState = []"
  "newPorts plainLib 7 (adapterSnapshot [exampleAdapter ''eth0'' ''net-client'' True]) adapterState
     \<noteq> []"
proof -
  have u: "parseOneSystemAdapterConfig plainLib 7 adapterState
      (exampleAdapter ''usb0'' [] False) v = None" for v
    using non_net_phyio_dropped [OF example_phyio(2) example_isNet(2)] by simp
  show "newPorts plainLib 7 (adapterSnapshot [exampleAdapter ''usb0'' [] False]) adapterState = []"
    by (simp add: newPorts_def adapterSnapshot_def emptySnapshot_def u)
  have v: "newVersion (adapterSnapshot [exampleAdapter ''eth0'' ''net-client'' True]) = DPCIsMgmt"
    by (simp add: newVersion_def adapterSnapshot_def emptySnapshot_def adaptersVersion_def
        exampleAdapter_def)
  have e: "parseOneSystemAdapterConfig plainLib 7 adapterState
      (exampleAdapter ''eth0'' ''net-client'' True) DPCIsMgmt \<noteq> None"
    using example_port_fields(2) by auto
  show "newPorts plainLib 7 (adapterSnapshot [exampleAdapter ''eth0'' ''net-client'' True])
      adapterState \<noteq> []"
  proof -
    have "cfg_SystemAdapterList (adapterSnapshot [exampleAdapter ''eth0'' ''net-client'' True])
        = [exampleAdapter ''eth0'' ''net-client'' True]"
      by (simp add: adapterSnapshot_def emptySnapshot_def)
    then show ?thesis
      unfolding newPorts_def v using e by (auto split: option.splits)
  qed
qed

theorem forced_adapter_parse_publishes_on_change_witness:
  "calls (parseSystemAdapterConfig plainLib 7
       (adapterSnapshot [exampleAdapter ''usb0'' [] False]) True adapterState) = []
   \<and> calls (parseSystemAdapterConfig plainLib 7
       (adapterSnapshot [exampleAdapter ''eth0'' ''net-client'' True]) True adapterState)
     = [Publish TDevicePortConfig ''zedagent'']"
proof -
  have c: "calls adapterState = []" "dpc_Ports (devicePortConfig adapterState) = []"
    by (simp_all add: adapterState_def initState_def)
  note n = example_newPorts
  note a = forced_adapter_parse_publishes_on_change
      [of plainLib 7 "adapterSnapshot [exampleAdapter ''usb0'' [] False]" adapterState,
       THEN conjunct1, THEN mp, OF disjI1, OF n(1)]
  have d: "dpc_Ports (devicePortConfig adapterState)
      \<noteq> newPorts plainLib 7 (adapterSnapshot [exampleAdapter ''eth0'' ''net-client'' True])
           adapterState"
    using n(2) by (simp add: c)
  note b = forced_adapter_parse_publishes_on_change
      [of plainLib 7 "adapterSnapshot [exampleAdapter ''eth0'' ''net-client'' True]" adapterState,
       THEN conjunct2, THEN mp, OF conjI, OF n(2) disjI1, OF d]
  show ?thesis
    using a b by (simp add: c)
qed

end
